theory Spec2Isabelle
  imports
    Complex_Main
    "HOL-Library.Product_Lexorder"
    "HOL-Library.List_Lexorder"
    "HOL-Library.Char_ord"
begin

section \<open>Data model of the Balancer module\<close>

text \<open>
  Embedding of \<^verbatim>\<open>rotkehlchen/chain/ethereum/modules/balancer/balancer.py\<close>.
  Addresses and transaction hashes are byte strings, timestamps and log indices are
  Python integers. \<^verbatim>\<open>FVal\<close> is a decimal number; its arithmetic is modelled by
  exact rational arithmetic.
\<close>

type_synonym ChecksumEvmAddress = string
type_synonym EVMTxHash = string
type_synonym Timestamp = int
type_synonym FVal = rat

datatype error = RemoteError | KeyError | IndexError | UnboundLocalError | AttributeError | ValueError

datatype BalancerBPTEventType = MINT | BURN

datatype BalancerInvestEventType = ADD_LIQUIDITY | REMOVE_LIQUIDITY

record Balance =
  amount :: FVal
  usd_value :: FVal

text \<open>
  An \<^verbatim>\<open>EvmToken\<close> that stands for a pool: its address and the addresses of its
  underlying tokens, in the order of the pool.
\<close>

record EvmToken =
  evm_address :: ChecksumEvmAddress
  underlying_tokens :: "ChecksumEvmAddress list"

record BalancerEvent =
  tx_hash :: EVMTxHash
  log_index :: int
  address :: ChecksumEvmAddress
  timestamp :: Timestamp
  event_type :: BalancerBPTEventType
  pool_address_token :: EvmToken
  lp_balance :: Balance
  amounts :: "FVal list"

record BalancerPoolTokenBalance =
  token :: ChecksumEvmAddress
  usd_price :: FVal
  user_balance :: Balance

record BalancerPoolBalance =
  pool_token :: EvmToken
  underlying_tokens_balance :: "BalancerPoolTokenBalance list"
  pool_user_balance :: Balance

record BalancerPoolEventsBalance =
  peb_address :: ChecksumEvmAddress
  peb_pool_address_token :: EvmToken
  peb_events :: "BalancerEvent list"
  profit_loss_amounts :: "FVal list"
  usd_profit_loss :: FVal

section \<open>Profit and loss per pool: \<^verbatim>\<open>_calculate_pool_events_balances\<close>\<close>

text \<open>
  \<^verbatim>\<open>pool_addr_to_events\<close> is a \<^verbatim>\<open>defaultdict(list)\<close> whose insertion order decides
  the order of the output, so it is an association list; \<^verbatim>\<open>dd_append\<close> is
  \<^verbatim>\<open>d[k].append(v)\<close>. The two other default dictionaries are only read and written by
  key, so they are total functions that start at the default value.
\<close>

fun dd_append :: "'k \<Rightarrow> 'v \<Rightarrow> ('k \<times> 'v list) list \<Rightarrow> ('k \<times> 'v list) list" where
  "dd_append k v [] = [(k, [v])]"
| "dd_append k v ((k', vs) # rest) =
     (if k' = k then (k', vs @ [v]) # rest else (k', vs) # dd_append k v rest)"

record pool_accumulators =
  pool_addr_to_events :: "(EvmToken \<times> BalancerEvent list) list"
  pool_addr_to_profit_loss_amounts :: "EvmToken \<Rightarrow> FVal list"
  pool_addr_to_usd_value :: "EvmToken \<Rightarrow> FVal"

definition init_accumulators :: "nat \<Rightarrow> pool_accumulators" where
  "init_accumulators POOL_MAX_NUMBER_TOKENS =
     \<lparr>pool_addr_to_events = [],
      pool_addr_to_profit_loss_amounts = (\<lambda>_. replicate POOL_MAX_NUMBER_TOKENS 0),
      pool_addr_to_usd_value = (\<lambda>_. 0)\<rparr>"

text \<open>\<^verbatim>\<open>operator = sub if event.event_type == BalancerBPTEventType.MINT else add\<close>\<close>

definition operator :: "BalancerBPTEventType \<Rightarrow> FVal \<Rightarrow> FVal \<Rightarrow> FVal" where
  "operator t a b = (if t = MINT then a - b else a + b)"

text \<open>
  One turn of the loop over the events. \<^verbatim>\<open>[ZERO] * n\<close> is empty for a negative
  \<^verbatim>\<open>n\<close>, as the truncating subtraction on \<open>nat\<close> gives, and \<^verbatim>\<open>map\<close> over two
  lists stops at the shorter one, as \<open>zip\<close> does.
\<close>

definition account_event :: "nat \<Rightarrow> pool_accumulators \<Rightarrow> BalancerEvent \<Rightarrow> pool_accumulators" where
  "account_event POOL_MAX_NUMBER_TOKENS acc event =
     (let pool = pool_address_token event;
          profit_loss = pool_addr_to_profit_loss_amounts acc pool;
          event_amounts = amounts event @ replicate (POOL_MAX_NUMBER_TOKENS - length (amounts event)) 0;
          usd = pool_addr_to_usd_value acc pool
      in \<lparr>pool_addr_to_events = dd_append pool event (pool_addr_to_events acc),
          pool_addr_to_profit_loss_amounts =
            (pool_addr_to_profit_loss_amounts acc)
              (pool := map (\<lambda>(a, b). operator (event_type event) a b) (zip profit_loss event_amounts)),
          pool_addr_to_usd_value =
            (pool_addr_to_usd_value acc)
              (pool := operator (event_type event) usd (usd_value (lp_balance event)))\<rparr>)"

text \<open>
  The inner loop over \<^verbatim>\<open>enumerate(pool_balance.underlying_tokens_balance)\<close>:
  \<^verbatim>\<open>profit_loss_amounts[idx] += ...\<close> raises \<^verbatim>\<open>IndexError\<close> beyond the end of the list.
\<close>

fun add_underlying_balances ::
  "nat \<Rightarrow> BalancerPoolTokenBalance list \<Rightarrow> FVal list \<times> FVal \<Rightarrow> error + (FVal list \<times> FVal)" where
  "add_underlying_balances idx [] (pl, usd) = Inr (pl, usd)"
| "add_underlying_balances idx (b # bs) (pl, usd) =
     (if idx < length pl
      then add_underlying_balances (Suc idx) bs
             (pl[idx := pl ! idx + amount (user_balance b)], usd + usd_value (user_balance b))
      else Inl IndexError)"

fun account_pool_balances :: "pool_accumulators \<Rightarrow> BalancerPoolBalance list \<Rightarrow> error + pool_accumulators" where
  "account_pool_balances acc [] = Inr acc"
| "account_pool_balances acc (pool_balance # rest) =
     (let pool = pool_token pool_balance in
      case add_underlying_balances 0 (underlying_tokens_balance pool_balance)
             (pool_addr_to_profit_loss_amounts acc pool, pool_addr_to_usd_value acc pool) of
        Inl e \<Rightarrow> Inl e
      | Inr (pl, usd) \<Rightarrow>
          account_pool_balances
            (acc\<lparr>pool_addr_to_profit_loss_amounts := (pool_addr_to_profit_loss_amounts acc)(pool := pl),
                 pool_addr_to_usd_value := (pool_addr_to_usd_value acc)(pool := usd)\<rparr>)
            rest)"

definition pool_events_balance ::
  "ChecksumEvmAddress \<Rightarrow> pool_accumulators \<Rightarrow> EvmToken \<times> BalancerEvent list \<Rightarrow> BalancerPoolEventsBalance" where
  "pool_events_balance addr acc entry =
     (case entry of (pool, pool_events) \<Rightarrow>
        \<lparr>peb_address = addr,
         peb_pool_address_token = pool,
         peb_events = pool_events,
         profit_loss_amounts =
           take (length (underlying_tokens pool)) (pool_addr_to_profit_loss_amounts acc pool),
         usd_profit_loss = pool_addr_to_usd_value acc pool\<rparr>)"

definition calculate_pool_events_balances ::
  "nat \<Rightarrow> ChecksumEvmAddress \<Rightarrow> BalancerEvent list \<Rightarrow> BalancerPoolBalance list
     \<Rightarrow> error + BalancerPoolEventsBalance list" where
  "calculate_pool_events_balances POOL_MAX_NUMBER_TOKENS addr events pool_balances =
     (case account_pool_balances
             (foldl (account_event POOL_MAX_NUMBER_TOKENS) (init_accumulators POOL_MAX_NUMBER_TOKENS) events)
             pool_balances of
        Inl e \<Rightarrow> Inl e
      | Inr acc \<Rightarrow> Inr (map (pool_events_balance addr acc) (pool_addr_to_events acc)))"

subsection \<open>Quantities the statements about profit and loss are written with\<close>

text \<open>The \<open>i\<close>-th amount of a vector, zero beyond its end (the zero padding of the source).\<close>

definition amount_at :: "FVal list \<Rightarrow> nat \<Rightarrow> FVal" where
  "amount_at xs i = (if i < length xs then xs ! i else 0)"

definition signed :: "BalancerBPTEventType \<Rightarrow> FVal \<Rightarrow> FVal" where
  "signed t x = (if t = MINT then - x else x)"

text \<open>What the BURN events of a pool add up to, minus what its MINT events add up to.\<close>

definition burns_minus_mints :: "EvmToken \<Rightarrow> BalancerEvent list \<Rightarrow> (BalancerEvent \<Rightarrow> FVal) \<Rightarrow> FVal" where
  "burns_minus_mints p es f =
     sum_list (map f (filter (\<lambda>e. pool_address_token e = p \<and> event_type e = BURN) es))
     - sum_list (map f (filter (\<lambda>e. pool_address_token e = p \<and> event_type e = MINT) es))"

text \<open>
  The opposite orientation, as a specification that adds the MINT events and subtracts the
  BURN events would compute it.
\<close>

definition mints_minus_burns :: "EvmToken \<Rightarrow> BalancerEvent list \<Rightarrow> (BalancerEvent \<Rightarrow> FVal) \<Rightarrow> FVal" where
  "mints_minus_burns p es f =
     sum_list (map f (filter (\<lambda>e. pool_address_token e = p \<and> event_type e = MINT) es))
     - sum_list (map f (filter (\<lambda>e. pool_address_token e = p \<and> event_type e = BURN) es))"

definition live_total :: "EvmToken \<Rightarrow> BalancerPoolBalance list \<Rightarrow> (BalancerPoolBalance \<Rightarrow> FVal) \<Rightarrow> FVal" where
  "live_total p pbs f = sum_list (map f (filter (\<lambda>pb. pool_token pb = p) pbs))"

definition live_amount :: "nat \<Rightarrow> BalancerPoolBalance \<Rightarrow> FVal" where
  "live_amount i pb = amount_at (map (\<lambda>b. amount (user_balance b)) (underlying_tokens_balance pb)) i"

definition live_usd_value :: "BalancerPoolBalance \<Rightarrow> FVal" where
  "live_usd_value pb = sum_list (map (\<lambda>b. usd_value (user_balance b)) (underlying_tokens_balance pb))"

text \<open>
  The profit and loss of a pool as the code accumulates it: per underlying token, the BURN
  events minus the MINT events plus the live balances, cut to the number of underlying tokens.
\<close>

definition net_profit_loss_amounts ::
  "nat \<Rightarrow> EvmToken \<Rightarrow> BalancerEvent list \<Rightarrow> BalancerPoolBalance list \<Rightarrow> FVal list" where
  "net_profit_loss_amounts M p es pbs =
     take (length (underlying_tokens p))
       (map (\<lambda>i. burns_minus_mints p es (\<lambda>e. amount_at (amounts e) i) + live_total p pbs (live_amount i))
          [0..<M])"

definition net_usd_profit_loss :: "EvmToken \<Rightarrow> BalancerEvent list \<Rightarrow> BalancerPoolBalance list \<Rightarrow> FVal" where
  "net_usd_profit_loss p es pbs =
     burns_minus_mints p es (\<lambda>e. usd_value (lp_balance e)) + live_total p pbs live_usd_value"

text \<open>
  The same quantities with the signs of the specification: the MINT events added and the
  BURN events subtracted.
\<close>

definition claimed_profit_loss_amounts ::
  "nat \<Rightarrow> EvmToken \<Rightarrow> BalancerEvent list \<Rightarrow> BalancerPoolBalance list \<Rightarrow> FVal list" where
  "claimed_profit_loss_amounts M p es pbs =
     take (length (underlying_tokens p))
       (map (\<lambda>i. mints_minus_burns p es (\<lambda>e. amount_at (amounts e) i) + live_total p pbs (live_amount i))
          [0..<M])"

definition claimed_usd_profit_loss :: "EvmToken \<Rightarrow> BalancerEvent list \<Rightarrow> BalancerPoolBalance list \<Rightarrow> FVal" where
  "claimed_usd_profit_loss p es pbs =
     mints_minus_burns p es (\<lambda>e. usd_value (lp_balance e)) + live_total p pbs live_usd_value"

text \<open>The events of a pool are grouped under its key, in the order of the input.\<close>

definition grouped :: "(EvmToken \<times> BalancerEvent list) list \<Rightarrow> BalancerEvent list \<Rightarrow> bool" where
  "grouped d es \<longleftrightarrow>
     distinct (map fst d)
     \<and> (\<forall>p. map_of d p =
           (if p \<in> pool_address_token ` set es
            then Some (filter (\<lambda>e. pool_address_token e = p) es) else None))"

subsection \<open>Example data\<close>

definition ex_pool :: EvmToken where
  "ex_pool = \<lparr>evm_address = ''0xP1'', underlying_tokens = [''0xA'', ''0xB'']\<rparr>"

definition ex_event :: "BalancerBPTEventType \<Rightarrow> FVal list \<Rightarrow> FVal \<Rightarrow> BalancerEvent" where
  "ex_event t xs usd =
     \<lparr>tx_hash = ''t1'', log_index = 1, address = ''0xU'', timestamp = 100, event_type = t,
      pool_address_token = ex_pool, lp_balance = \<lparr>amount = 1, usd_value = usd\<rparr>, amounts = xs\<rparr>"

definition ex_pool_balance :: BalancerPoolBalance where
  "ex_pool_balance =
     \<lparr>pool_token = ex_pool,
      underlying_tokens_balance =
        [\<lparr>token = ''0xA'', usd_price = 1, user_balance = \<lparr>amount = 7, usd_value = 8\<rparr>\<rparr>,
         \<lparr>token = ''0xB'', usd_price = 1, user_balance = \<lparr>amount = 16, usd_value = 17\<rparr>\<rparr>],
      pool_user_balance = \<lparr>amount = 1, usd_value = 25\<rparr>\<rparr>"

section \<open>Events of the subgraph\<close>

record BalancerInvestEvent =
  inv_tx_hash :: EVMTxHash
  inv_log_index :: int
  inv_address :: ChecksumEvmAddress
  inv_timestamp :: Timestamp
  inv_event_type :: BalancerInvestEventType
  inv_pool_address_token :: EvmToken
  token_address :: ChecksumEvmAddress
  inv_amount :: FVal

record BalancerBPTEvent =
  bpt_tx_hash :: EVMTxHash
  bpt_log_index :: int
  bpt_address :: ChecksumEvmAddress
  bpt_event_type :: BalancerBPTEventType
  bpt_pool_address_token :: EvmToken
  bpt_amount :: FVal

text \<open>
  Modelled from the spec: the \<^verbatim>\<open>__hash__\<close> and \<^verbatim>\<open>__eq__\<close> of the two event
  classes, which live in \<^verbatim>\<open>types.py\<close>. The uniqueness key of an investment event is
  (transaction id, log index, token address); a pool-token event follows the same discipline
  on the fields it has.
\<close>

definition invest_event_key :: "BalancerInvestEvent \<Rightarrow> EVMTxHash \<times> int \<times> ChecksumEvmAddress" where
  "invest_event_key e = (inv_tx_hash e, inv_log_index e, token_address e)"

definition bpt_event_key :: "BalancerBPTEvent \<Rightarrow> EVMTxHash \<times> int" where
  "bpt_event_key e = (bpt_tx_hash e, bpt_log_index e)"

text \<open>The keys of \<^verbatim>\<open>sorted(..., key=lambda event: (event.tx_hash, event.log_index))\<close>.\<close>

definition invest_sort_key :: "BalancerInvestEvent \<Rightarrow> EVMTxHash \<times> int" where
  "invest_sort_key e = (inv_tx_hash e, inv_log_index e)"

definition bpt_sort_key :: "BalancerBPTEvent \<Rightarrow> EVMTxHash \<times> int" where
  "bpt_sort_key e = (bpt_tx_hash e, bpt_log_index e)"

text \<open>
  An item of a page either deserializes to an event or does not; in both cases its
  \<^verbatim>\<open>id\<close> field gives a transaction hash.
\<close>

datatype 'e raw_event = Deserializable 'e | Undeserializable EVMTxHash

text \<open>
  What \<^verbatim>\<open>Graph.query\<close> followed by \<^verbatim>\<open>result[schema]\<close> gives: the transport fails,
  the key of the schema is missing, or there is a page of items.
\<close>

datatype 'r graph_result = RemoteFailure | NoSchemaKey | Items "'r list"

section \<open>Deduplication: per address sets of events\<close>

text \<open>
  A Python set of events is a list without two elements of the same key, in the order of
  insertion: \<^verbatim>\<open>s.add(e)\<close> keeps the element that is already there. The order of
  iteration of a Python set is not specified; the order of insertion stands for it.
  \<^verbatim>\<open>defaultdict(set)\<close> keyed by address is an association list.
\<close>

definition set_add :: "('e \<Rightarrow> 'k) \<Rightarrow> 'e \<Rightarrow> 'e list \<Rightarrow> 'e list" where
  "set_add key e s = (if key e \<in> key ` set s then s else s @ [e])"

fun dd_set_add ::
  "('e \<Rightarrow> 'k) \<Rightarrow> ChecksumEvmAddress \<Rightarrow> 'e \<Rightarrow> (ChecksumEvmAddress \<times> 'e list) list
     \<Rightarrow> (ChecksumEvmAddress \<times> 'e list) list" where
  "dd_set_add key a e [] = [(a, [e])]"
| "dd_set_add key a e ((a', s) # rest) =
     (if a' = a then (a', set_add key e s) # rest else (a', s) # dd_set_add key a e rest)"

text \<open>
  The loop over the items of one page: each item is deserialized (a failure is raised as a
  \<^verbatim>\<open>RemoteError\<close>) and added to the set of its address. The loop variable lives on
  after the loop, so the last event is carried along.
\<close>

fun add_raw_events ::
  "('e \<Rightarrow> 'k) \<Rightarrow> ('e \<Rightarrow> ChecksumEvmAddress) \<Rightarrow> 'e raw_event list
     \<Rightarrow> 'e option \<times> (ChecksumEvmAddress \<times> 'e list) list
     \<Rightarrow> error + ('e option \<times> (ChecksumEvmAddress \<times> 'e list) list)" where
  "add_raw_events key addr [] st = Inr st"
| "add_raw_events key addr (Undeserializable tx # raws) st = Inl RemoteError"
| "add_raw_events key addr (Deserializable e # raws) (last_event, uniq) =
     add_raw_events key addr raws (Some e, dd_set_add key (addr e) e uniq)"

text \<open>
  \<^verbatim>\<open>for address, events in unique.items(): result[address] = sorted(events, key=...)\<close>;
  \<^verbatim>\<open>sorted\<close> is stable, as \<open>sort_key\<close> is.
\<close>

definition sorted_by_address ::
  "('e \<Rightarrow> 's::linorder) \<Rightarrow> (ChecksumEvmAddress \<times> 'e list) list \<Rightarrow> (ChecksumEvmAddress \<times> 'e list) list" where
  "sorted_by_address sk uniq = map (\<lambda>(a, s). (a, sort_key sk s)) uniq"

section \<open>Requests, messages and results\<close>

text \<open>
  The \<^verbatim>\<open>id\<close> parameter is the string \<^verbatim>\<open>'0'\<close> at first and then
  \<^verbatim>\<open>f'{tx_hash.hex()}-{log_index}'\<close>; the pair stands for the formatted string.
\<close>

datatype query_id = InitialId | EventId EVMTxHash int

record bpt_params =
  bq_limit :: nat
  bq_offset :: nat
  bq_id :: query_id
  bq_addresses :: "string list"
  bq_transactions :: "string list"

record invest_params =
  iq_limit :: nat
  iq_offset :: nat
  iq_addresses :: "string list"
  iq_start_ts :: Timestamp
  iq_end_ts :: Timestamp

record pool_shares_params =
  sq_limit :: nat
  sq_offset :: nat
  sq_addresses :: "string list"

record token_prices_params =
  tq_limit :: nat
  tq_offset :: nat
  tq_token_ids :: "string list"

record token_day_datas_params =
  dq_limit :: nat
  dq_offset :: nat
  dq_token_ids :: "string list"
  dq_datetime :: int

text \<open>The texts given to \<^verbatim>\<open>msg_aggregator.add_error\<close>, by what they report.\<close>

datatype message =
    SubgraphRemoteErrorMsg
  | UniswapRemoteErrorMsg
  | HistoricalPriceMissingMsg ChecksumEvmAddress Timestamp
  | KnownPriceMissingMsg ChecksumEvmAddress
  | UnknownPriceMissingMsg ChecksumEvmAddress

text \<open>
  What a call does to the outside, in order: the queries it sends to the subgraphs and the
  messages it gives to the message aggregator.
\<close>

datatype io_event =
    BptQuery BalancerBPTEventType bpt_params
  | InvestQuery BalancerInvestEventType invest_params
  | PoolSharesQuery pool_shares_params
  | TokenPricesQuery token_prices_params
  | TokenDayDatasQuery token_day_datas_params
  | AddError message

text \<open>
  A call that talks to a subgraph gives the log of what it did, and either the exception it
  raised or its value. Its \<^verbatim>\<open>while True\<close> loops run on fuel: \<open>None\<close> is a loop that
  has not ended when the fuel is spent.
\<close>

type_synonym 'a io = "(io_event list \<times> (error + 'a)) option"

definition io_log :: "'a io \<Rightarrow> io_event list option" where
  "io_log m = map_option fst m"

definition io_value :: "'a io \<Rightarrow> (error + 'a) option" where
  "io_value m = map_option snd m"

text \<open>Sequencing: the second call runs if the first one returned, and the logs follow each other.\<close>

definition io_bind :: "'a io \<Rightarrow> ('a \<Rightarrow> 'b io) \<Rightarrow> 'b io" where
  "io_bind m f =
     (case m of
        None \<Rightarrow> None
      | Some (l, Inl e) \<Rightarrow> Some (l, Inl e)
      | Some (l, Inr x) \<Rightarrow> (case f x of None \<Rightarrow> None | Some (l', r) \<Rightarrow> Some (l @ l', r)))"

definition io_logged :: "io_event list \<Rightarrow> 'a io \<Rightarrow> 'a io" where
  "io_logged l m = (case m of None \<Rightarrow> None | Some (l', r) \<Rightarrow> Some (l @ l', r))"

definition char_lower :: "char \<Rightarrow> char" where
  "char_lower c = (if CHR ''A'' \<le> c \<and> c \<le> CHR ''Z'' then char_of (of_char c + (32::nat)) else c)"

definition lower :: "string \<Rightarrow> string" where
  "lower s = map char_lower s"

section \<open>Paginated fetch of the pool-token events: \<^verbatim>\<open>_get_address_to_bpt_events_graph\<close>\<close>

text \<open>
  \<^verbatim>\<open>GRAPH_QUERY_LIMIT\<close> and \<^verbatim>\<open>GRAPH_QUERY_SKIP_LIMIT\<close> are constants of
  \<^verbatim>\<open>rotkehlchen/chain/ethereum/graph.py\<close>; they are the parameters \<open>L\<close> and \<open>S\<close>.
  \<open>query\<close> is \<^verbatim>\<open>self.graph_events.query\<close> with the query text of the event type,
  followed by \<^verbatim>\<open>result[schema]\<close>.
\<close>

fun bpt_events_loop ::
  "nat \<Rightarrow> (bpt_params \<Rightarrow> BalancerBPTEvent raw_event graph_result) \<Rightarrow> BalancerBPTEventType
     \<Rightarrow> nat \<Rightarrow> nat \<Rightarrow> bpt_params
     \<Rightarrow> BalancerBPTEvent option \<times> (ChecksumEvmAddress \<times> BalancerBPTEvent list) list
     \<Rightarrow> (ChecksumEvmAddress \<times> BalancerBPTEvent list) list io" where
  "bpt_events_loop 0 query etype L S param_values st = None"
| "bpt_events_loop (Suc fuel) query etype L S param_values st =
     (case query param_values of
        RemoteFailure \<Rightarrow>
          Some ([BptQuery etype param_values, AddError SubgraphRemoteErrorMsg], Inl RemoteError)
      | NoSchemaKey \<Rightarrow> Some ([BptQuery etype param_values], Inl RemoteError)
      | Items raw_events \<Rightarrow>
          (case add_raw_events bpt_event_key bpt_address raw_events st of
             Inl e \<Rightarrow> Some ([BptQuery etype param_values], Inl e)
           | Inr (bpt_event, uniq) \<Rightarrow>
               if length raw_events < L then Some ([BptQuery etype param_values], Inr uniq)
               else if bq_offset param_values = S then
                 (case bpt_event of
                    None \<Rightarrow> Some ([BptQuery etype param_values], Inl UnboundLocalError)
                  | Some ev \<Rightarrow>
                      io_logged [BptQuery etype param_values]
                        (bpt_events_loop fuel query etype L S
                           (param_values\<lparr>bq_id := EventId (bpt_tx_hash ev) (bpt_log_index ev),
                                          bq_offset := 0\<rparr>)
                           (bpt_event, uniq)))
               else
                 io_logged [BptQuery etype param_values]
                   (bpt_events_loop fuel query etype L S
                      (param_values\<lparr>bq_offset := bq_offset param_values + L\<rparr>)
                      (bpt_event, uniq))))"

definition bpt_initial_params :: "nat \<Rightarrow> ChecksumEvmAddress list \<Rightarrow> string list \<Rightarrow> bpt_params" where
  "bpt_initial_params L addresses transactions =
     \<lparr>bq_limit = L, bq_offset = 0, bq_id = InitialId,
      bq_addresses = map lower addresses, bq_transactions = transactions\<rparr>"

definition get_address_to_bpt_events_graph ::
  "nat \<Rightarrow> (bpt_params \<Rightarrow> BalancerBPTEvent raw_event graph_result) \<Rightarrow> nat \<Rightarrow> nat
     \<Rightarrow> ChecksumEvmAddress list \<Rightarrow> string list \<Rightarrow> BalancerBPTEventType
     \<Rightarrow> (ChecksumEvmAddress \<times> BalancerBPTEvent list) list io" where
  "get_address_to_bpt_events_graph fuel query L S addresses transactions etype =
     io_bind
       (bpt_events_loop fuel query etype L S (bpt_initial_params L addresses transactions) (None, []))
       (\<lambda>uniq. Some ([], Inr (sorted_by_address bpt_sort_key uniq)))"

section \<open>What the module is given\<close>

text \<open>
  The collaborators of the module, as functions: the three subgraphs (\<^verbatim>\<open>graph_events\<close>
  with its four event queries, \<^verbatim>\<open>graph\<close> with the pool shares and the token prices,
  \<^verbatim>\<open>graph_uniswap\<close>, which may be \<^verbatim>\<open>None\<close>), the price oracles, the clock, the
  local time zone (\<open>utc_offset\<close>: the seconds that the local time is ahead of UTC at a
  local wall-clock time) and the pools of the global database. A subgraph answers the same request in the same way.
  An item of a page of pool shares or prices is \<open>None\<close> when it does not deserialize.
  \<^verbatim>\<open>query_usd_price_or_use_default\<close> is not part of the module: \<open>oracle_price\<close> is
  what it returns or raises when it is called with the default value zero.
\<close>

record world =
  invest_query :: "BalancerInvestEventType \<Rightarrow> invest_params \<Rightarrow> BalancerInvestEvent raw_event graph_result"
  bpt_query :: "BalancerBPTEventType \<Rightarrow> bpt_params \<Rightarrow> BalancerBPTEvent raw_event graph_result"
  pool_shares_query ::
    "pool_shares_params \<Rightarrow> (ChecksumEvmAddress \<times> BalancerPoolBalance) option graph_result"
  token_prices_query :: "token_prices_params \<Rightarrow> (ChecksumEvmAddress \<times> FVal) option graph_result"
  graph_uniswap ::
    "(token_day_datas_params \<Rightarrow> (ChecksumEvmAddress \<times> FVal) option graph_result) option"
  has_oracle :: "ChecksumEvmAddress \<Rightarrow> bool"
  oracle_price :: "ChecksumEvmAddress \<Rightarrow> Timestamp \<Rightarrow> error + FVal"
  find_usd_price :: "ChecksumEvmAddress \<Rightarrow> FVal"
  ts_now :: Timestamp
  utc_offset :: "int \<Rightarrow> int"
  db_pools :: "EvmToken list"

section \<open>Paginated fetch of the investment events: \<^verbatim>\<open>_get_address_to_invest_events_graph\<close>\<close>

definition mint_or_burn_type :: "BalancerInvestEventType \<Rightarrow> BalancerBPTEventType" where
  "mint_or_burn_type etype = (case etype of ADD_LIQUIDITY \<Rightarrow> MINT | REMOVE_LIQUIDITY \<Rightarrow> BURN)"

text \<open>\<^verbatim>\<open>deserialize_transaction_id(x['id'])[0].hex()\<close>; a hash stands for its hexadecimal text.\<close>

definition raw_transaction :: "BalancerInvestEvent raw_event \<Rightarrow> EVMTxHash" where
  "raw_transaction x = (case x of Deserializable e \<Rightarrow> inv_tx_hash e | Undeserializable tx \<Rightarrow> tx)"

text \<open>
  Each turn asks for one page, fetches the pool-token events of the transactions of that page
  (the variable \<^verbatim>\<open>address_to_mint_events\<close> is assigned anew at every turn), and adds the
  events of the page to the sets.
\<close>

fun invest_events_loop ::
  "nat \<Rightarrow> world \<Rightarrow> BalancerInvestEventType \<Rightarrow> nat \<Rightarrow> nat \<Rightarrow> ChecksumEvmAddress list
     \<Rightarrow> invest_params
     \<Rightarrow> BalancerInvestEvent option \<times> (ChecksumEvmAddress \<times> BalancerInvestEvent list) list
     \<Rightarrow> ((ChecksumEvmAddress \<times> BalancerInvestEvent list) list
          \<times> (ChecksumEvmAddress \<times> BalancerBPTEvent list) list) io" where
  "invest_events_loop 0 w etype L S addresses param_values st = None"
| "invest_events_loop (Suc fuel) w etype L S addresses param_values st =
     (case invest_query w etype param_values of
        RemoteFailure \<Rightarrow>
          Some ([InvestQuery etype param_values, AddError SubgraphRemoteErrorMsg], Inl RemoteError)
      | NoSchemaKey \<Rightarrow> Some ([InvestQuery etype param_values], Inl RemoteError)
      | Items raw_events \<Rightarrow>
          io_logged [InvestQuery etype param_values]
            (io_bind
               (get_address_to_bpt_events_graph fuel (bpt_query w (mint_or_burn_type etype)) L S addresses
                  (remdups (map raw_transaction raw_events)) (mint_or_burn_type etype))
               (\<lambda>address_to_mint_events.
                  case add_raw_events invest_event_key inv_address raw_events st of
                    Inl e \<Rightarrow> Some ([], Inl e)
                  | Inr (invest_event, uniq) \<Rightarrow>
                      if length raw_events < L then Some ([], Inr (uniq, address_to_mint_events))
                      else if iq_offset param_values = S then
                        (case invest_event of
                           None \<Rightarrow> Some ([], Inl UnboundLocalError)
                         | Some ev \<Rightarrow>
                             invest_events_loop fuel w etype L S addresses
                               (param_values\<lparr>iq_start_ts := inv_timestamp ev, iq_offset := 0\<rparr>)
                               (invest_event, uniq))
                      else
                        invest_events_loop fuel w etype L S addresses
                          (param_values\<lparr>iq_offset := iq_offset param_values + L\<rparr>)
                          (invest_event, uniq))))"

definition invest_initial_params ::
  "nat \<Rightarrow> ChecksumEvmAddress list \<Rightarrow> Timestamp \<Rightarrow> Timestamp \<Rightarrow> invest_params" where
  "invest_initial_params L addresses start_ts end_ts =
     \<lparr>iq_limit = L, iq_offset = 0, iq_addresses = map lower addresses,
      iq_start_ts = start_ts, iq_end_ts = end_ts\<rparr>"

definition get_address_to_invest_events_graph ::
  "nat \<Rightarrow> world \<Rightarrow> nat \<Rightarrow> nat \<Rightarrow> ChecksumEvmAddress list \<Rightarrow> BalancerInvestEventType
     \<Rightarrow> Timestamp \<Rightarrow> Timestamp
     \<Rightarrow> ((ChecksumEvmAddress \<times> BalancerInvestEvent list) list
          \<times> (ChecksumEvmAddress \<times> BalancerBPTEvent list) list) io" where
  "get_address_to_invest_events_graph fuel w L S addresses etype start_ts end_ts =
     io_bind
       (invest_events_loop fuel w etype L S addresses
          (invest_initial_params L addresses start_ts end_ts) (None, []))
       (\<lambda>(uniq, address_to_mint_events).
          Some ([], Inr (sorted_by_address invest_sort_key uniq, address_to_mint_events)))"

section \<open>Paginated fetch of the pool shares: \<^verbatim>\<open>_get_protocol_balance_graph\<close>\<close>

record ProtocolBalance =
  address_to_pool_balances :: "(ChecksumEvmAddress \<times> BalancerPoolBalance list) list"
  known_tokens :: "ChecksumEvmAddress list"
  unknown_tokens :: "ChecksumEvmAddress list"

text \<open>\<^verbatim>\<open>known_tokens.add(token)\<close> or \<^verbatim>\<open>unknown_tokens.add(token)\<close>, for each underlying token.\<close>

fun classify_tokens ::
  "world \<Rightarrow> ChecksumEvmAddress list \<Rightarrow> ChecksumEvmAddress list \<times> ChecksumEvmAddress list
     \<Rightarrow> ChecksumEvmAddress list \<times> ChecksumEvmAddress list" where
  "classify_tokens w [] (known, unknown) = (known, unknown)"
| "classify_tokens w (t # ts) (known, unknown) =
     (if has_oracle w t then classify_tokens w ts (set_add id t known, unknown)
      else classify_tokens w ts (known, set_add id t unknown))"

fun add_raw_pool_shares ::
  "world \<Rightarrow> (ChecksumEvmAddress \<times> BalancerPoolBalance) option list \<Rightarrow> ProtocolBalance
     \<Rightarrow> error + ProtocolBalance" where
  "add_raw_pool_shares w [] pb = Inr pb"
| "add_raw_pool_shares w (None # raws) pb = Inl RemoteError"
| "add_raw_pool_shares w (Some (addr, balancer_pool) # raws) pb =
     (case classify_tokens w (underlying_tokens (pool_token balancer_pool))
             (known_tokens pb, unknown_tokens pb) of
        (known, unknown) \<Rightarrow>
          add_raw_pool_shares w raws
            \<lparr>address_to_pool_balances = dd_append addr balancer_pool (address_to_pool_balances pb),
             known_tokens = known, unknown_tokens = unknown\<rparr>)"

text \<open>This loop only adds \<^verbatim>\<open>GRAPH_QUERY_LIMIT\<close> to the offset; it has no other cursor.\<close>

fun protocol_balance_loop ::
  "nat \<Rightarrow> world \<Rightarrow> nat \<Rightarrow> pool_shares_params \<Rightarrow> ProtocolBalance \<Rightarrow> ProtocolBalance io" where
  "protocol_balance_loop 0 w L param_values pb = None"
| "protocol_balance_loop (Suc fuel) w L param_values pb =
     (case pool_shares_query w param_values of
        RemoteFailure \<Rightarrow>
          Some ([PoolSharesQuery param_values, AddError SubgraphRemoteErrorMsg], Inl RemoteError)
      | NoSchemaKey \<Rightarrow> Some ([PoolSharesQuery param_values], Inl RemoteError)
      | Items raw_pool_shares \<Rightarrow>
          (case add_raw_pool_shares w raw_pool_shares pb of
             Inl e \<Rightarrow> Some ([PoolSharesQuery param_values], Inl e)
           | Inr pb' \<Rightarrow>
               if length raw_pool_shares < L then Some ([PoolSharesQuery param_values], Inr pb')
               else
                 io_logged [PoolSharesQuery param_values]
                   (protocol_balance_loop fuel w L
                      (param_values\<lparr>sq_offset := sq_offset param_values + L\<rparr>) pb')))"

definition get_protocol_balance_graph ::
  "nat \<Rightarrow> world \<Rightarrow> nat \<Rightarrow> ChecksumEvmAddress list \<Rightarrow> ProtocolBalance io" where
  "get_protocol_balance_graph fuel w L addresses =
     protocol_balance_loop fuel w L
       \<lparr>sq_limit = L, sq_offset = 0, sq_addresses = map lower addresses\<rparr>
       \<lparr>address_to_pool_balances = [], known_tokens = [], unknown_tokens = []\<rparr>"

section \<open>Prices\<close>

text \<open>
  The loop over the items of a page of prices: an item that does not deserialize is logged
  and skipped (\<^verbatim>\<open>continue\<close>), and a later price of a token replaces an earlier one.
\<close>

fun add_raw_prices ::
  "(ChecksumEvmAddress \<times> FVal) option list \<Rightarrow> (ChecksumEvmAddress \<rightharpoonup> FVal)
     \<Rightarrow> (ChecksumEvmAddress \<rightharpoonup> FVal)" where
  "add_raw_prices [] prices = prices"
| "add_raw_prices (None # raws) prices = add_raw_prices raws prices"
| "add_raw_prices (Some (a, p) # raws) prices = add_raw_prices raws (prices(a \<mapsto> p))"

subsection \<open>\<^verbatim>\<open>_get_unknown_token_to_prices_balancer_graph\<close>\<close>

fun token_prices_loop ::
  "nat \<Rightarrow> world \<Rightarrow> nat \<Rightarrow> token_prices_params \<Rightarrow> (ChecksumEvmAddress \<rightharpoonup> FVal)
     \<Rightarrow> (ChecksumEvmAddress \<rightharpoonup> FVal) io" where
  "token_prices_loop 0 w L param_values prices = None"
| "token_prices_loop (Suc fuel) w L param_values prices =
     (case token_prices_query w param_values of
        RemoteFailure \<Rightarrow>
          Some ([TokenPricesQuery param_values, AddError SubgraphRemoteErrorMsg], Inl RemoteError)
      | NoSchemaKey \<Rightarrow> Some ([TokenPricesQuery param_values], Inl RemoteError)
      | Items raw_token_prices \<Rightarrow>
          if length raw_token_prices < L
          then Some ([TokenPricesQuery param_values], Inr (add_raw_prices raw_token_prices prices))
          else
            io_logged [TokenPricesQuery param_values]
              (token_prices_loop fuel w L
                 (param_values\<lparr>tq_offset := tq_offset param_values + L\<rparr>)
                 (add_raw_prices raw_token_prices prices)))"

definition get_unknown_token_to_prices_balancer_graph ::
  "nat \<Rightarrow> world \<Rightarrow> nat \<Rightarrow> ChecksumEvmAddress list \<Rightarrow> (ChecksumEvmAddress \<rightharpoonup> FVal) io" where
  "get_unknown_token_to_prices_balancer_graph fuel w L unknown_token_addresses =
     token_prices_loop fuel w L
       \<lparr>tq_limit = L, tq_offset = 0, tq_token_ids = map lower unknown_token_addresses\<rparr> Map.empty"

subsection \<open>\<^verbatim>\<open>_get_unknown_token_to_prices_uniswap_graph\<close>\<close>

text \<open>
  \<^verbatim>\<open>datetime.fromtimestamp(from_timestamp, tz=utc)\<close> raises when the timestamp is not in
  the years 1 to 9999 (\<^verbatim>\<open>ValueError\<close>; far out of range the exception is an
  \<^verbatim>\<open>OverflowError\<close>, which has the same course and is not told apart here).
  \<^verbatim>\<open>datetime.combine\<close> keeps the date of the UTC day and drops the time zone, and
  \<^verbatim>\<open>timestamp()\<close> reads the result, the midnight of that date, as a local time.
\<close>

definition midnight_epoch :: "world \<Rightarrow> Timestamp \<Rightarrow> error + int" where
  "midnight_epoch w from_timestamp =
     (if from_timestamp < - 62135596800 \<or> 253402300799 < from_timestamp then Inl ValueError
      else
        (let utc_midnight = from_timestamp - from_timestamp mod 86400
         in Inr (utc_midnight - utc_offset w utc_midnight)))"

fun token_day_datas_loop ::
  "nat \<Rightarrow> (token_day_datas_params \<Rightarrow> (ChecksumEvmAddress \<times> FVal) option graph_result) \<Rightarrow> nat
     \<Rightarrow> token_day_datas_params \<Rightarrow> (ChecksumEvmAddress \<rightharpoonup> FVal)
     \<Rightarrow> (ChecksumEvmAddress \<rightharpoonup> FVal) io" where
  "token_day_datas_loop 0 query L param_values prices = None"
| "token_day_datas_loop (Suc fuel) query L param_values prices =
     (case query param_values of
        RemoteFailure \<Rightarrow>
          Some ([TokenDayDatasQuery param_values, AddError UniswapRemoteErrorMsg], Inl RemoteError)
      | NoSchemaKey \<Rightarrow> Some ([TokenDayDatasQuery param_values], Inl RemoteError)
      | Items raw_token_day_datas \<Rightarrow>
          if length raw_token_day_datas < L
          then Some ([TokenDayDatasQuery param_values], Inr (add_raw_prices raw_token_day_datas prices))
          else
            io_logged [TokenDayDatasQuery param_values]
              (token_day_datas_loop fuel query L
                 (param_values\<lparr>dq_offset := dq_offset param_values + L\<rparr>)
                 (add_raw_prices raw_token_day_datas prices)))"

text \<open>
  \<^verbatim>\<open>self.graph_uniswap.query\<close> raises \<^verbatim>\<open>AttributeError\<close> when \<^verbatim>\<open>graph_uniswap\<close> is
  \<^verbatim>\<open>None\<close> (the comment in the source leaves the check to the caller).
\<close>

definition get_unknown_token_to_prices_uniswap_graph ::
  "nat \<Rightarrow> world \<Rightarrow> nat \<Rightarrow> ChecksumEvmAddress list \<Rightarrow> Timestamp option
     \<Rightarrow> (ChecksumEvmAddress \<rightharpoonup> FVal) io" where
  "get_unknown_token_to_prices_uniswap_graph fuel w L unknown_token_addresses ts =
     (case midnight_epoch w (case ts of None \<Rightarrow> ts_now w | Some t \<Rightarrow> t) of
        Inl e \<Rightarrow> Some ([], Inl e)
      | Inr midnight \<Rightarrow>
          (case graph_uniswap w of
             None \<Rightarrow> (case fuel of 0 \<Rightarrow> None | Suc _ \<Rightarrow> Some ([], Inl AttributeError))
           | Some query \<Rightarrow>
               token_day_datas_loop fuel query L
                 \<lparr>dq_limit = L, dq_offset = 0, dq_token_ids = map lower unknown_token_addresses,
                  dq_datetime = midnight\<rparr>
                 Map.empty))"

subsection \<open>\<^verbatim>\<open>_get_token_price_at_timestamp_zero_if_error\<close>\<close>

text \<open>
  \<^verbatim>\<open>with suppress(RemoteError)\<close> leaves \<^verbatim>\<open>token_to_prices\<close> empty when the call raises
  a \<^verbatim>\<open>RemoteError\<close>; any other exception goes on to the caller.
\<close>

definition get_token_price_at_timestamp_zero_if_error ::
  "nat \<Rightarrow> world \<Rightarrow> nat \<Rightarrow> ChecksumEvmAddress \<Rightarrow> Timestamp \<Rightarrow> FVal io" where
  "get_token_price_at_timestamp_zero_if_error fuel w L tok ts =
     (if has_oracle w tok then Some ([], oracle_price w tok ts)
      else
        (case get_unknown_token_to_prices_uniswap_graph fuel w L [tok] (Some ts) of
           None \<Rightarrow> None
         | Some (l, Inl e) \<Rightarrow> if e = RemoteError then Some (l, Inr 0) else Some (l, Inl e)
         | Some (l, Inr token_to_prices) \<Rightarrow>
             Some (l, Inr (case token_to_prices tok of None \<Rightarrow> 0 | Some p \<Rightarrow> p))))"

subsection \<open>\<^verbatim>\<open>_get_unknown_token_to_prices_graph\<close>\<close>

definition missing_price_messages ::
  "ChecksumEvmAddress list \<Rightarrow> (ChecksumEvmAddress \<rightharpoonup> FVal) \<Rightarrow> io_event list" where
  "missing_price_messages unknown token_to_prices =
     map (\<lambda>a. AddError (UnknownPriceMissingMsg a)) (filter (\<lambda>a. token_to_prices a = None) unknown)"

definition get_unknown_token_to_prices_graph ::
  "nat \<Rightarrow> world \<Rightarrow> nat \<Rightarrow> ChecksumEvmAddress list \<Rightarrow> (ChecksumEvmAddress \<rightharpoonup> FVal) io" where
  "get_unknown_token_to_prices_graph fuel w L unknown =
     io_bind (get_unknown_token_to_prices_balancer_graph fuel w L unknown)
       (\<lambda>token_to_prices_bal.
          io_bind
            (if graph_uniswap w \<noteq> None then
               (case get_unknown_token_to_prices_uniswap_graph fuel w L
                       (filter (\<lambda>a. token_to_prices_bal a = None) unknown) None of
                  None \<Rightarrow> None
                | Some (l, Inl e) \<Rightarrow>
                    if e = RemoteError then Some (l, Inr token_to_prices_bal) else Some (l, Inl e)
                | Some (l, Inr token_to_prices_uni) \<Rightarrow>
                    Some (l, Inr (token_to_prices_bal ++ token_to_prices_uni)))
             else Some ([], Inr token_to_prices_bal))
            (\<lambda>token_to_prices.
               Some (missing_price_messages unknown token_to_prices, Inr token_to_prices)))"

subsection \<open>\<^verbatim>\<open>_get_known_token_to_prices\<close>\<close>

fun get_known_token_to_prices ::
  "world \<Rightarrow> ChecksumEvmAddress list \<Rightarrow> io_event list \<times> (ChecksumEvmAddress \<rightharpoonup> FVal)" where
  "get_known_token_to_prices w [] = ([], Map.empty)"
| "get_known_token_to_prices w (t # ts) =
     (case get_known_token_to_prices w ts of
        (l, prices) \<Rightarrow>
          if find_usd_price w t = 0 then (AddError (KnownPriceMissingMsg t) # l, prices)
          else (l, prices(t \<mapsto> find_usd_price w t)))"

section \<open>Live balances: \<^verbatim>\<open>get_balances\<close>\<close>

definition update_token_balance ::
  "(ChecksumEvmAddress \<rightharpoonup> FVal) \<Rightarrow> (ChecksumEvmAddress \<rightharpoonup> FVal) \<Rightarrow> BalancerPoolTokenBalance
     \<Rightarrow> BalancerPoolTokenBalance" where
  "update_token_balance known_token_to_prices unknown_token_to_prices b =
     (let price =
        (case known_token_to_prices (token b) of
           Some p \<Rightarrow> p
         | None \<Rightarrow> (case unknown_token_to_prices (token b) of Some p \<Rightarrow> p | None \<Rightarrow> 0))
      in if price \<noteq> 0
         then b\<lparr>usd_price := price,
                user_balance := (user_balance b)\<lparr>usd_value := amount (user_balance b) * price\<rparr>\<rparr>
         else b)"

definition update_pool_balance ::
  "(ChecksumEvmAddress \<rightharpoonup> FVal) \<Rightarrow> (ChecksumEvmAddress \<rightharpoonup> FVal) \<Rightarrow> BalancerPoolBalance
     \<Rightarrow> BalancerPoolBalance" where
  "update_pool_balance known_token_to_prices unknown_token_to_prices pool_balance =
     (let bs = map (update_token_balance known_token_to_prices unknown_token_to_prices)
                 (underlying_tokens_balance pool_balance)
      in pool_balance
           \<lparr>underlying_tokens_balance := bs,
            pool_user_balance :=
              (pool_user_balance pool_balance)
                \<lparr>usd_value := sum_list (map (\<lambda>b. usd_value (user_balance b)) bs)\<rparr>\<rparr>)"

definition update_tokens_prices_in_address_to_pool_balances ::
  "(ChecksumEvmAddress \<times> BalancerPoolBalance list) list
     \<Rightarrow> (ChecksumEvmAddress \<rightharpoonup> FVal) \<Rightarrow> (ChecksumEvmAddress \<rightharpoonup> FVal)
     \<Rightarrow> (ChecksumEvmAddress \<times> BalancerPoolBalance list) list" where
  "update_tokens_prices_in_address_to_pool_balances a2pb known_token_to_prices unknown_token_to_prices =
     map (\<lambda>(a, pbs). (a, map (update_pool_balance known_token_to_prices unknown_token_to_prices) pbs)) a2pb"

definition get_balances ::
  "nat \<Rightarrow> world \<Rightarrow> nat \<Rightarrow> ChecksumEvmAddress list
     \<Rightarrow> (ChecksumEvmAddress \<times> BalancerPoolBalance list) list io" where
  "get_balances fuel w L addresses =
     io_bind (get_protocol_balance_graph fuel w L addresses)
       (\<lambda>protocol_balance.
          case get_known_token_to_prices w (known_tokens protocol_balance) of
            (l, known_token_to_prices) \<Rightarrow>
              io_logged l
                (io_bind (get_unknown_token_to_prices_graph fuel w L (unknown_tokens protocol_balance))
                   (\<lambda>unknown_token_to_prices.
                      Some ([], Inr (update_tokens_prices_in_address_to_pool_balances
                                       (address_to_pool_balances protocol_balance)
                                       known_token_to_prices unknown_token_to_prices)))))"

section \<open>Aggregation: \<^verbatim>\<open>_get_balancer_aggregated_events_data\<close>\<close>

record BalancerEventsData =
  add_liquidities :: "BalancerInvestEvent list"
  remove_liquidities :: "BalancerInvestEvent list"
  mints :: "BalancerBPTEvent list"
  burns :: "BalancerBPTEvent list"

text \<open>
  \<^verbatim>\<open>{token.address: idx for idx, token in enumerate(tokens)}\<close>: a later index of an
  address replaces an earlier one.
\<close>

definition token_addr_to_index :: "ChecksumEvmAddress list \<Rightarrow> (ChecksumEvmAddress \<rightharpoonup> nat)" where
  "token_addr_to_index tokens = foldl (\<lambda>m (idx, a). m(a \<mapsto> idx)) Map.empty (enumerate 0 tokens)"

text \<open>
  The map from the known pools: \<open>db_pools\<close> is what
  \<^verbatim>\<open>GlobalDBHandler().get_evm_tokens(chain_id=ChainID.ETHEREUM, protocol='balancer')\<close> gives.
  The pool tokens that the aggregation adds to the global database are not modelled.
\<close>

definition initial_pool_index ::
  "EvmToken list \<Rightarrow> (EvmToken \<rightharpoonup> (ChecksumEvmAddress \<rightharpoonup> nat))" where
  "initial_pool_index pools =
     foldl (\<lambda>m db_pool. m(db_pool \<mapsto> token_addr_to_index (underlying_tokens db_pool))) Map.empty pools"

text \<open>
  The loop over the investment events of one pool-token event. The state is
  \<^verbatim>\<open>amounts\<close>, \<^verbatim>\<open>lp_balance.usd_value\<close> and \<^verbatim>\<open>is_missing_token_price\<close>.
  A token address that the pool does not have raises \<^verbatim>\<open>KeyError\<close>.
\<close>

fun aggregate_invest_events ::
  "nat \<Rightarrow> world \<Rightarrow> nat \<Rightarrow> (ChecksumEvmAddress \<rightharpoonup> nat) \<Rightarrow> BalancerInvestEvent list
     \<Rightarrow> FVal list \<times> FVal \<times> bool \<Rightarrow> (FVal list \<times> FVal \<times> bool) io" where
  "aggregate_invest_events fuel w L tokenaddr_to_index [] st = Some ([], Inr st)"
| "aggregate_invest_events fuel w L tokenaddr_to_index (invest_event # rest) (amts, usd, is_missing_token_price) =
     (case tokenaddr_to_index (token_address invest_event) of
        None \<Rightarrow> Some ([], Inl KeyError)
      | Some token_idx \<Rightarrow>
          if length amts \<le> token_idx then Some ([], Inl IndexError)
          else
            (let amts' = amts[token_idx := amts ! token_idx + inv_amount invest_event] in
             if is_missing_token_price
             then aggregate_invest_events fuel w L tokenaddr_to_index rest (amts', usd, True)
             else
               io_bind
                 (get_token_price_at_timestamp_zero_if_error fuel w L
                    (token_address invest_event) (inv_timestamp invest_event))
                 (\<lambda>price.
                    if price = 0
                    then io_logged
                           [AddError (HistoricalPriceMissingMsg (token_address invest_event)
                                        (inv_timestamp invest_event))]
                           (aggregate_invest_events fuel w L tokenaddr_to_index rest
                              (amts', usd + price * inv_amount invest_event, True))
                    else aggregate_invest_events fuel w L tokenaddr_to_index rest
                           (amts', usd + price * inv_amount invest_event, False))))"

text \<open>
  One pool-token event: its investment events are those of its transaction and pool, an empty
  group raises \<^verbatim>\<open>RemoteError\<close>, a pool that is not in the map yet is added to it. The
  timestamp of the event is that of the first investment event of the group.
\<close>

definition group_of :: "BalancerInvestEvent list \<Rightarrow> BalancerBPTEvent \<Rightarrow> BalancerInvestEvent list" where
  "group_of invest_events bpt_event =
     filter (\<lambda>e. inv_tx_hash e = bpt_tx_hash bpt_event
                \<and> inv_pool_address_token e = bpt_pool_address_token bpt_event) invest_events"

definition aggregate_bpt_event ::
  "nat \<Rightarrow> world \<Rightarrow> nat \<Rightarrow> BalancerBPTEventType \<Rightarrow> BalancerInvestEvent list
     \<Rightarrow> (EvmToken \<rightharpoonup> (ChecksumEvmAddress \<rightharpoonup> nat)) \<Rightarrow> BalancerBPTEvent
     \<Rightarrow> ((EvmToken \<rightharpoonup> (ChecksumEvmAddress \<rightharpoonup> nat)) \<times> BalancerEvent) io" where
  "aggregate_bpt_event fuel w L etype all_invest_events pool_index bpt_event =
     (case group_of all_invest_events bpt_event of
        [] \<Rightarrow> Some ([], Inl RemoteError)
      | first_event # more_events \<Rightarrow>
          (let pool = bpt_pool_address_token bpt_event;
               tokenaddr_to_index =
                 (case pool_index pool of
                    None \<Rightarrow> token_addr_to_index (underlying_tokens pool)
                  | Some m \<Rightarrow> m);
               pool_index' = pool_index(pool \<mapsto> tokenaddr_to_index)
           in io_bind
                (aggregate_invest_events fuel w L tokenaddr_to_index (first_event # more_events)
                   (replicate (length (underlying_tokens pool)) 0, 0, False))
                (\<lambda>(amts, usd, is_missing_token_price).
                   Some ([], Inr (pool_index',
                     \<lparr>tx_hash = bpt_tx_hash bpt_event,
                      log_index = bpt_log_index bpt_event,
                      address = bpt_address bpt_event,
                      timestamp = inv_timestamp first_event,
                      event_type = etype,
                      pool_address_token = pool,
                      lp_balance = \<lparr>amount = bpt_amount bpt_event,
                                    usd_value = (if is_missing_token_price then 0 else usd)\<rparr>,
                      amounts = amts\<rparr>)))))"

text \<open>The loop over the pool-token events of one address, and the loop over the addresses.\<close>

fun aggregate_bpt_events ::
  "nat \<Rightarrow> world \<Rightarrow> nat \<Rightarrow> BalancerBPTEventType \<Rightarrow> BalancerInvestEvent list \<Rightarrow> BalancerBPTEvent list
     \<Rightarrow> (EvmToken \<rightharpoonup> (ChecksumEvmAddress \<rightharpoonup> nat)) \<times> BalancerEvent list
     \<Rightarrow> ((EvmToken \<rightharpoonup> (ChecksumEvmAddress \<rightharpoonup> nat)) \<times> BalancerEvent list) io" where
  "aggregate_bpt_events fuel w L etype invs [] st = Some ([], Inr st)"
| "aggregate_bpt_events fuel w L etype invs (bpt_event # rest) (pool_index, balancer_events) =
     io_bind (aggregate_bpt_event fuel w L etype invs pool_index bpt_event)
       (\<lambda>(pool_index', balancer_event).
          aggregate_bpt_events fuel w L etype invs rest (pool_index', balancer_events @ [balancer_event]))"

definition attr_invest_events :: "BalancerBPTEventType \<Rightarrow> BalancerEventsData \<Rightarrow> BalancerInvestEvent list" where
  "attr_invest_events etype d = (case etype of MINT \<Rightarrow> add_liquidities d | BURN \<Rightarrow> remove_liquidities d)"

definition attr_bpt_events :: "BalancerBPTEventType \<Rightarrow> BalancerEventsData \<Rightarrow> BalancerBPTEvent list" where
  "attr_bpt_events etype d = (case etype of MINT \<Rightarrow> mints d | BURN \<Rightarrow> burns d)"

fun get_balancer_aggregated_events_data_by_event_type ::
  "nat \<Rightarrow> world \<Rightarrow> nat \<Rightarrow> BalancerEventsData list \<Rightarrow> BalancerBPTEventType
     \<Rightarrow> (EvmToken \<rightharpoonup> (ChecksumEvmAddress \<rightharpoonup> nat)) \<times> BalancerEvent list
     \<Rightarrow> ((EvmToken \<rightharpoonup> (ChecksumEvmAddress \<rightharpoonup> nat)) \<times> BalancerEvent list) io" where
  "get_balancer_aggregated_events_data_by_event_type fuel w L [] etype st = Some ([], Inr st)"
| "get_balancer_aggregated_events_data_by_event_type fuel w L (d # ds) etype st =
     io_bind
       (aggregate_bpt_events fuel w L etype (attr_invest_events etype d) (attr_bpt_events etype d) st)
       (\<lambda>st'. get_balancer_aggregated_events_data_by_event_type fuel w L ds etype st')"

text \<open>\<^verbatim>\<open>for event_type in BalancerBPTEventType\<close>: MINT, then BURN.\<close>

definition get_balancer_aggregated_events_data ::
  "nat \<Rightarrow> world \<Rightarrow> nat \<Rightarrow> (ChecksumEvmAddress \<times> BalancerEventsData) list
     \<Rightarrow> BalancerEvent list io" where
  "get_balancer_aggregated_events_data fuel w L address_to_events_data =
     io_bind
       (get_balancer_aggregated_events_data_by_event_type fuel w L (map snd address_to_events_data) MINT
          (initial_pool_index (db_pools w), []))
       (\<lambda>st.
          io_bind
            (get_balancer_aggregated_events_data_by_event_type fuel w L (map snd address_to_events_data)
               BURN st)
            (\<lambda>(pool_index, balancer_events). Some ([], Inr balancer_events)))"

section \<open>The user database\<close>

text \<open>
  Modelled from the spec: the persistence collaborator, which is not part of the module.
  It holds the key-value table of the used query ranges
  (\<^verbatim>\<open>readQueryRange(address, category) \<rightarrow> (from, to) | none\<close>, \<^verbatim>\<open>updateQueryRange\<close>)
  and the table of events (\<^verbatim>\<open>writeEvents(events)\<close>,
  \<^verbatim>\<open>readEvents(address, from, to)\<close>). A scoped write transaction commits what its body
  wrote when the body returns and writes nothing when the body raises.
\<close>

record database =
  used_query_ranges :: "string \<rightharpoonup> Timestamp \<times> Timestamp"
  balancer_events_table :: "BalancerEvent list"

definition get_used_query_range :: "database \<Rightarrow> string \<Rightarrow> (Timestamp \<times> Timestamp) option" where
  "get_used_query_range db name = used_query_ranges db name"

definition update_used_query_range :: "string \<Rightarrow> Timestamp \<Rightarrow> Timestamp \<Rightarrow> database \<Rightarrow> database" where
  "update_used_query_range name start_ts end_ts db =
     db\<lparr>used_query_ranges := (used_query_ranges db)(name \<mapsto> (start_ts, end_ts))\<rparr>"

definition add_balancer_events :: "BalancerEvent list \<Rightarrow> database \<Rightarrow> database" where
  "add_balancer_events evs db = db\<lparr>balancer_events_table := balancer_events_table db @ evs\<rparr>"

definition get_balancer_events ::
  "database \<Rightarrow> Timestamp \<Rightarrow> Timestamp \<Rightarrow> ChecksumEvmAddress \<Rightarrow> BalancerEvent list" where
  "get_balancer_events db from_ts to_ts addr =
     filter (\<lambda>e. address e = addr \<and> from_ts \<le> timestamp e \<and> timestamp e \<le> to_ts)
       (balancer_events_table db)"

definition user_write :: "(database \<Rightarrow> error + database) \<Rightarrow> database \<Rightarrow> database \<times> (error + unit)" where
  "user_write body db = (case body db of Inl e \<Rightarrow> (db, Inl e) | Inr db' \<Rightarrow> (db', Inr ()))"

text \<open>
  A call that also writes to the database gives the database as it is when the call ends,
  whether it returns or raises.
\<close>

type_synonym 'a dbio = "(database \<times> io_event list \<times> (error + 'a)) option"

definition db_lift :: "'a io \<Rightarrow> database \<Rightarrow> 'a dbio" where
  "db_lift m db = (case m of None \<Rightarrow> None | Some (l, r) \<Rightarrow> Some (db, l, r))"

definition db_bind :: "'a dbio \<Rightarrow> ('a \<Rightarrow> database \<Rightarrow> 'b dbio) \<Rightarrow> 'b dbio" where
  "db_bind m f =
     (case m of
        None \<Rightarrow> None
      | Some (db, l, Inl e) \<Rightarrow> Some (db, l, Inl e)
      | Some (db, l, Inr x) \<Rightarrow>
          (case f x db of None \<Rightarrow> None | Some (db', l', r) \<Rightarrow> Some (db', l @ l', r)))"

definition db_write :: "(database \<Rightarrow> error + database) \<Rightarrow> database \<Rightarrow> unit dbio" where
  "db_write body db = (case user_write body db of (db', r) \<Rightarrow> Some (db', [], r))"

section \<open>Synchronization: \<^verbatim>\<open>_get_address_to_events_data\<close> and \<^verbatim>\<open>_get_address_to_pool_events_balances\<close>\<close>

text \<open>
  The constants of the module that are declared outside of it:
  \<^verbatim>\<open>GRAPH_QUERY_LIMIT\<close>, \<^verbatim>\<open>GRAPH_QUERY_SKIP_LIMIT\<close>, \<^verbatim>\<open>POOL_MAX_NUMBER_TOKENS\<close> and
  \<^verbatim>\<open>BALANCER_EVENTS_PREFIX\<close>.
\<close>

record constants =
  GRAPH_QUERY_LIMIT :: nat
  GRAPH_QUERY_SKIP_LIMIT :: nat
  POOL_MAX_NUMBER_TOKENS :: nat
  BALANCER_EVENTS_PREFIX :: string

definition entry_name :: "string \<Rightarrow> ChecksumEvmAddress \<Rightarrow> string" where
  "entry_name prefix addr = prefix @ ''_'' @ addr"

definition update_used_query_range_all ::
  "ChecksumEvmAddress list \<Rightarrow> string \<Rightarrow> Timestamp \<Rightarrow> Timestamp \<Rightarrow> database \<Rightarrow> database" where
  "update_used_query_range_all addresses prefix from_ts to_ts db =
     foldl (\<lambda>d addr. update_used_query_range (entry_name prefix addr) from_ts to_ts d) db addresses"

definition dict_get :: "('k \<times> 'v list) list \<Rightarrow> 'k \<Rightarrow> 'v list" where
  "dict_get d k = (case map_of d k of None \<Rightarrow> [] | Some v \<Rightarrow> v)"

text \<open>
  \<^verbatim>\<open>set(adds.keys()).union(set(removes.keys()))\<close>, in the order of the first occurrence.
\<close>

definition addresses_with_events ::
  "(ChecksumEvmAddress \<times> 'a) list \<Rightarrow> (ChecksumEvmAddress \<times> 'b) list \<Rightarrow> ChecksumEvmAddress list" where
  "addresses_with_events adds removes = rev (remdups (rev (map fst adds @ map fst removes)))"

definition build_events_data ::
  "(ChecksumEvmAddress \<times> BalancerInvestEvent list) list \<Rightarrow> (ChecksumEvmAddress \<times> BalancerBPTEvent list) list
     \<Rightarrow> (ChecksumEvmAddress \<times> BalancerInvestEvent list) list \<Rightarrow> (ChecksumEvmAddress \<times> BalancerBPTEvent list) list
     \<Rightarrow> (ChecksumEvmAddress \<times> BalancerEventsData) list" where
  "build_events_data adds mnts removes brns =
     map (\<lambda>a. (a, \<lparr>add_liquidities = dict_get adds a,
                    remove_liquidities = dict_get removes a,
                    mints = dict_get mnts a,
                    burns = dict_get brns a\<rparr>))
       (addresses_with_events adds removes)"

definition get_address_to_events_data ::
  "nat \<Rightarrow> world \<Rightarrow> constants \<Rightarrow> ChecksumEvmAddress list \<Rightarrow> Timestamp \<Rightarrow> Timestamp \<Rightarrow> database
     \<Rightarrow> (ChecksumEvmAddress \<times> BalancerEventsData) list dbio" where
  "get_address_to_events_data fuel w c addresses from_ts to_ts db =
     db_bind
       (db_lift (get_address_to_invest_events_graph fuel w (GRAPH_QUERY_LIMIT c) (GRAPH_QUERY_SKIP_LIMIT c)
                   addresses ADD_LIQUIDITY from_ts to_ts) db)
       (\<lambda>(adds, mnts) db1.
          db_bind
            (db_lift (get_address_to_invest_events_graph fuel w (GRAPH_QUERY_LIMIT c)
                        (GRAPH_QUERY_SKIP_LIMIT c) addresses REMOVE_LIQUIDITY from_ts to_ts) db1)
            (\<lambda>(removes, brns) db2.
               db_bind
                 (db_write
                    (\<lambda>d. Inr (update_used_query_range_all addresses ''balancer_events'' from_ts to_ts d))
                    db2)
                 (\<lambda>_ db3. Some (db3, [], Inr (build_events_data adds mnts removes brns)))))"

text \<open>
  The first loop of \<^verbatim>\<open>_get_address_to_pool_events_balances\<close>: an address without a used
  query range is new, the others are existing, and \<^verbatim>\<open>min_to_timestamp\<close> is the least of
  \<^verbatim>\<open>to_timestamp\<close> and the ends of the ranges of the existing addresses.
\<close>

fun classify_addresses ::
  "database \<Rightarrow> string \<Rightarrow> ChecksumEvmAddress list
     \<Rightarrow> ChecksumEvmAddress list \<times> ChecksumEvmAddress list \<times> Timestamp
     \<Rightarrow> ChecksumEvmAddress list \<times> ChecksumEvmAddress list \<times> Timestamp" where
  "classify_addresses db prefix [] st = st"
| "classify_addresses db prefix (addr # rest) (new_addresses, existing_addresses, min_to_timestamp) =
     (case get_used_query_range db (entry_name prefix addr) of
        None \<Rightarrow> classify_addresses db prefix rest (new_addresses @ [addr], existing_addresses, min_to_timestamp)
      | Some trades_range \<Rightarrow>
          classify_addresses db prefix rest
            (new_addresses, existing_addresses @ [addr], min min_to_timestamp (snd trades_range)))"

text \<open>\<^verbatim>\<open>d[k] = v\<close> and \<^verbatim>\<open>d.update(other)\<close> on a dictionary in insertion order.\<close>

fun dict_set :: "'k \<Rightarrow> 'v \<Rightarrow> ('k \<times> 'v) list \<Rightarrow> ('k \<times> 'v) list" where
  "dict_set k v [] = [(k, v)]"
| "dict_set k v ((k', v') # rest) = (if k' = k then (k, v) # rest else (k', v') # dict_set k v rest)"

definition dict_update :: "('k \<times> 'v) list \<Rightarrow> ('k \<times> 'v) list \<Rightarrow> ('k \<times> 'v) list" where
  "dict_update d other = foldl (\<lambda>acc (k, v). dict_set k v acc) d other"

text \<open>The events of the database of each address, sorted by timestamp and log index.\<close>

fun read_db_events ::
  "database \<Rightarrow> Timestamp \<Rightarrow> Timestamp \<Rightarrow> ChecksumEvmAddress list
     \<Rightarrow> (ChecksumEvmAddress \<times> BalancerEvent list) list \<Rightarrow> (ChecksumEvmAddress \<times> BalancerEvent list) list" where
  "read_db_events db from_ts to_ts [] acc = acc"
| "read_db_events db from_ts to_ts (addr # rest) acc =
     (let db_events = get_balancer_events db from_ts to_ts addr in
      if db_events \<noteq> []
      then read_db_events db from_ts to_ts rest
             (dict_set addr (sort_key (\<lambda>e. (timestamp e, log_index e)) db_events) acc)
      else read_db_events db from_ts to_ts rest acc)"

fun calculate_all ::
  "nat \<Rightarrow> (ChecksumEvmAddress \<times> BalancerPoolBalance list) list
     \<Rightarrow> (ChecksumEvmAddress \<times> BalancerEvent list) list
     \<Rightarrow> error + (ChecksumEvmAddress \<times> BalancerPoolEventsBalance list) list" where
  "calculate_all M a2pb [] = Inr []"
| "calculate_all M a2pb ((addr, db_events) # rest) =
     (case calculate_pool_events_balances M addr db_events (dict_get a2pb addr) of
        Inl e \<Rightarrow> Inl e
      | Inr pool_events_balances \<Rightarrow>
          (case calculate_all M a2pb rest of
             Inl e \<Rightarrow> Inl e
           | Inr others \<Rightarrow> Inr ((addr, pool_events_balances) # others)))"

text \<open>The two requests of events, for the new and for the existing addresses.\<close>

definition fetch_events_data ::
  "nat \<Rightarrow> world \<Rightarrow> constants \<Rightarrow> ChecksumEvmAddress list \<Rightarrow> Timestamp \<Rightarrow> database
     \<Rightarrow> (ChecksumEvmAddress \<times> BalancerEventsData) list dbio" where
  "fetch_events_data fuel w c addresses to_ts db =
     (case classify_addresses db (BALANCER_EVENTS_PREFIX c) addresses ([], [], to_ts) of
        (new_addresses, existing_addresses, min_to_timestamp) \<Rightarrow>
          db_bind
            (if new_addresses \<noteq> []
             then get_address_to_events_data fuel w c new_addresses 0 to_ts db
             else Some (db, [], Inr []))
            (\<lambda>data_new db1.
               db_bind
                 (if existing_addresses \<noteq> [] \<and> min_to_timestamp < to_ts
                  then get_address_to_events_data fuel w c existing_addresses min_to_timestamp to_ts db1
                  else Some (db1, [], Inr []))
                 (\<lambda>data_existing db2.
                    Some (db2, [], Inr (dict_update (dict_update [] data_new) data_existing)))))"

text \<open>Aggregation of the fetched events and their insertion, in a write transaction of its own.\<close>

definition store_events ::
  "nat \<Rightarrow> world \<Rightarrow> constants \<Rightarrow> (ChecksumEvmAddress \<times> BalancerEventsData) list \<Rightarrow> database \<Rightarrow> unit dbio" where
  "store_events fuel w c address_to_events_data db =
     (if address_to_events_data \<noteq> []
      then db_bind
             (db_lift (get_balancer_aggregated_events_data fuel w (GRAPH_QUERY_LIMIT c) address_to_events_data) db)
             (\<lambda>balancer_events db1. db_write (\<lambda>d. Inr (add_balancer_events balancer_events d)) db1)
      else Some (db, [], Inr ()))"

text \<open>
  The balances of the events per pool: the live balances are requested when
  \<^verbatim>\<open>from_timestamp\<close> is zero, and are empty otherwise.
\<close>

definition pool_events_balances_of_db ::
  "nat \<Rightarrow> world \<Rightarrow> constants \<Rightarrow> ChecksumEvmAddress list \<Rightarrow> Timestamp \<Rightarrow> Timestamp \<Rightarrow> database
     \<Rightarrow> (ChecksumEvmAddress \<times> BalancerPoolEventsBalance list) list dbio" where
  "pool_events_balances_of_db fuel w c addresses from_ts to_ts db =
     (let db_address_to_events = read_db_events db from_ts to_ts addresses [] in
      if db_address_to_events = [] then Some (db, [], Inr [])
      else
        db_bind
          (if from_ts = 0 then db_lift (get_balances fuel w (GRAPH_QUERY_LIMIT c) addresses) db
           else Some (db, [], Inr []))
          (\<lambda>a2pb db1.
             Some (db1, [],
               calculate_all (POOL_MAX_NUMBER_TOKENS c) a2pb db_address_to_events)))"

definition get_address_to_pool_events_balances ::
  "nat \<Rightarrow> world \<Rightarrow> constants \<Rightarrow> ChecksumEvmAddress list \<Rightarrow> Timestamp \<Rightarrow> Timestamp \<Rightarrow> database
     \<Rightarrow> (ChecksumEvmAddress \<times> BalancerPoolEventsBalance list) list dbio" where
  "get_address_to_pool_events_balances fuel w c addresses from_ts to_ts db =
     db_bind (fetch_events_data fuel w c addresses to_ts db)
       (\<lambda>address_to_events_data db1.
          db_bind (store_events fuel w c address_to_events_data db1)
            (\<lambda>_ db2. pool_events_balances_of_db fuel w c addresses from_ts to_ts db2))"

text \<open>
  \<^verbatim>\<open>get_events_history\<close>. The lock is not modelled: one call runs at a time. What
  \<^verbatim>\<open>delete_balancer_events_data\<close> does to the database is a parameter.
\<close>

definition get_events_history ::
  "nat \<Rightarrow> world \<Rightarrow> constants \<Rightarrow> (database \<Rightarrow> database) \<Rightarrow> ChecksumEvmAddress list \<Rightarrow> bool
     \<Rightarrow> Timestamp \<Rightarrow> Timestamp \<Rightarrow> database
     \<Rightarrow> (ChecksumEvmAddress \<times> BalancerPoolEventsBalance list) list dbio" where
  "get_events_history fuel w c delete_balancer_events_data addresses reset_db_data from_ts to_ts db =
     db_bind
       (if reset_db_data then db_write (\<lambda>d. Inr (delete_balancer_events_data d)) db
        else Some (db, [], Inr ()))
       (\<lambda>_ db1. get_address_to_pool_events_balances fuel w c addresses from_ts to_ts db1)"

subsection \<open>Example data of a synchronization\<close>

definition ex_world :: world where
  "ex_world =
     \<lparr>invest_query = (\<lambda>_ _. Items []),
      bpt_query = (\<lambda>_ _. Items []),
      pool_shares_query = (\<lambda>_. Items []),
      token_prices_query = (\<lambda>_. Items []),
      graph_uniswap = Some (\<lambda>_. Items []),
      has_oracle = (\<lambda>_. True),
      oracle_price = (\<lambda>_ _. Inr 1),
      find_usd_price = (\<lambda>_. 1),
      ts_now = 1000,
      utc_offset = (\<lambda>_. 0),
      db_pools = []\<rparr>"

definition ex_constants :: constants where
  "ex_constants =
     \<lparr>GRAPH_QUERY_LIMIT = 1000, GRAPH_QUERY_SKIP_LIMIT = 5000,
      POOL_MAX_NUMBER_TOKENS = 8, BALANCER_EVENTS_PREFIX = ''balancer_events''\<rparr>"

definition ex_synced_db :: database where
  "ex_synced_db =
     \<lparr>used_query_ranges = [''balancer_events_0xU'' \<mapsto> (0, 200)],
      balancer_events_table = [ex_event MINT [10, 20] 30]\<rparr>"

subsection \<open>Quantities the statements about prices are written with\<close>

text \<open>The price that the lookup of the token of an investment event returns, if it returns one.\<close>

definition lookup_price :: "nat \<Rightarrow> world \<Rightarrow> nat \<Rightarrow> BalancerInvestEvent \<Rightarrow> FVal option" where
  "lookup_price fuel w L e =
     (case get_token_price_at_timestamp_zero_if_error fuel w L (token_address e) (inv_timestamp e) of
        Some (l, Inr p) \<Rightarrow> Some p
      | _ \<Rightarrow> None)"

definition priced_amount :: "nat \<Rightarrow> world \<Rightarrow> nat \<Rightarrow> BalancerInvestEvent \<Rightarrow> FVal" where
  "priced_amount fuel w L e =
     (case lookup_price fuel w L e of Some p \<Rightarrow> p * inv_amount e | None \<Rightarrow> 0)"

subsection \<open>Example data of an aggregation\<close>

definition ex_invest :: "ChecksumEvmAddress \<Rightarrow> int \<Rightarrow> FVal \<Rightarrow> BalancerInvestEvent" where
  "ex_invest tok idx amt =
     \<lparr>inv_tx_hash = ''t1'', inv_log_index = idx, inv_address = ''0xU'', inv_timestamp = 100,
      inv_event_type = ADD_LIQUIDITY, inv_pool_address_token = ex_pool, token_address = tok,
      inv_amount = amt\<rparr>"

definition ex_bpt :: BalancerBPTEvent where
  "ex_bpt =
     \<lparr>bpt_tx_hash = ''t1'', bpt_log_index = 1, bpt_address = ''0xU'', bpt_event_type = MINT,
      bpt_pool_address_token = ex_pool, bpt_amount = 100\<rparr>"

definition ex_price_world :: "FVal \<Rightarrow> world" where
  "ex_price_world p = ex_world\<lparr>oracle_price := (\<lambda>tok ts. Inr (if tok = ''0xB'' then p else 1))\<rparr>"

subsection \<open>Quantities the statements about pairing are written with\<close>

text \<open>What identifies a pool-token event of a kind, and the aggregated event made from it.\<close>

definition bpt_event_id ::
  "BalancerBPTEventType \<Rightarrow> BalancerBPTEvent
     \<Rightarrow> EVMTxHash \<times> int \<times> ChecksumEvmAddress \<times> BalancerBPTEventType \<times> EvmToken \<times> FVal" where
  "bpt_event_id etype b =
     (bpt_tx_hash b, bpt_log_index b, bpt_address b, etype, bpt_pool_address_token b, bpt_amount b)"

definition balancer_event_id ::
  "BalancerEvent \<Rightarrow> EVMTxHash \<times> int \<times> ChecksumEvmAddress \<times> BalancerBPTEventType \<times> EvmToken \<times> FVal" where
  "balancer_event_id ev =
     (tx_hash ev, log_index ev, address ev, event_type ev, pool_address_token ev, amount (lp_balance ev))"

text \<open>
  A pool-token event is paired when its group of investment events is not empty; the group
  is priced when each of its tokens is an underlying token of the pool and the lookup of its
  price returns.
\<close>

definition paired :: "BalancerInvestEvent list \<Rightarrow> BalancerBPTEvent \<Rightarrow> bool" where
  "paired invs b \<longleftrightarrow> group_of invs b \<noteq> []"

definition priced :: "nat \<Rightarrow> world \<Rightarrow> nat \<Rightarrow> BalancerInvestEvent list \<Rightarrow> BalancerBPTEvent \<Rightarrow> bool" where
  "priced fuel w L invs b \<longleftrightarrow>
     (\<forall>e \<in> set (group_of invs b).
        token_address e \<in> set (underlying_tokens (bpt_pool_address_token b))
        \<and> lookup_price fuel w L e \<noteq> None)"

definition paired_data :: "BalancerBPTEventType \<Rightarrow> BalancerEventsData \<Rightarrow> bool" where
  "paired_data etype d \<longleftrightarrow>
     (\<forall>b \<in> set (attr_bpt_events etype d). paired (attr_invest_events etype d) b)"

definition priced_data :: "nat \<Rightarrow> world \<Rightarrow> nat \<Rightarrow> BalancerBPTEventType \<Rightarrow> BalancerEventsData \<Rightarrow> bool" where
  "priced_data fuel w L etype d \<longleftrightarrow>
     (\<forall>b \<in> set (attr_bpt_events etype d). priced fuel w L (attr_invest_events etype d) b)"

definition all_paired :: "(ChecksumEvmAddress \<times> BalancerEventsData) list \<Rightarrow> bool" where
  "all_paired a2ed \<longleftrightarrow> (\<forall>(a, d) \<in> set a2ed. paired_data MINT d \<and> paired_data BURN d)"

definition all_priced :: "nat \<Rightarrow> world \<Rightarrow> nat \<Rightarrow> (ChecksumEvmAddress \<times> BalancerEventsData) list \<Rightarrow> bool" where
  "all_priced fuel w L a2ed \<longleftrightarrow>
     (\<forall>(a, d) \<in> set a2ed. priced_data fuel w L MINT d \<and> priced_data fuel w L BURN d)"

definition all_bpt_events ::
  "BalancerBPTEventType \<Rightarrow> (ChecksumEvmAddress \<times> BalancerEventsData) list \<Rightarrow> BalancerBPTEvent list" where
  "all_bpt_events etype a2ed = concat (map (\<lambda>(a, d). attr_bpt_events etype d) a2ed)"

definition index_ok :: "(EvmToken \<rightharpoonup> (ChecksumEvmAddress \<rightharpoonup> nat)) \<Rightarrow> bool" where
  "index_ok pool_index \<longleftrightarrow>
     (\<forall>p m. pool_index p = Some m \<longrightarrow> m = token_addr_to_index (underlying_tokens p))"

definition ex_events_data :: "BalancerInvestEvent list \<Rightarrow> (ChecksumEvmAddress \<times> BalancerEventsData) list" where
  "ex_events_data invs =
     [(''0xU'', \<lparr>add_liquidities = invs, remove_liquidities = [], mints = [ex_bpt], burns = []\<rparr>)]"

subsection \<open>Example data of a fetch\<close>

definition ex_empty_db :: database where
  "ex_empty_db = \<lparr>used_query_ranges = Map.empty, balancer_events_table = []\<rparr>"

text \<open>
  A subgraph that has one ADD_LIQUIDITY event and the MINT events \<open>bs\<close>, whatever the
  parameters of the request.
\<close>

definition ex_graph_world :: "BalancerBPTEvent list \<Rightarrow> world" where
  "ex_graph_world bs =
     ex_world
       \<lparr>invest_query :=
          (\<lambda>etype p. if etype = ADD_LIQUIDITY then Items [Deserializable (ex_invest ''0xA'' 2 60)]
                      else Items []),
        bpt_query :=
          (\<lambda>etype p. if etype = MINT then Items (map Deserializable bs) else Items [])\<rparr>"

definition ex_events_data_of ::
  "BalancerInvestEvent list \<Rightarrow> BalancerBPTEvent list \<Rightarrow> (ChecksumEvmAddress \<times> BalancerEventsData) list" where
  "ex_events_data_of invs bs =
     [(''0xU'', \<lparr>add_liquidities = invs, remove_liquidities = [], mints = bs, burns = []\<rparr>)]"

definition ex_other_pool :: EvmToken where
  "ex_other_pool = \<lparr>evm_address = ''0xP2'', underlying_tokens = [''0xA'']\<rparr>"

subsection \<open>Quantities the statements about the query ranges are written with\<close>

text \<open>
  The split of the addresses in the words of the specification: an address with no record
  is new, an address with a record is existing, and \<open>min_covered_to\<close> is the least of the
  requested \<open>to_timestamp\<close> and the upper bounds recorded for the existing addresses.
\<close>

definition new_addresses_of :: "database \<Rightarrow> string \<Rightarrow> ChecksumEvmAddress list \<Rightarrow> ChecksumEvmAddress list" where
  "new_addresses_of db prefix addresses =
     filter (\<lambda>a. get_used_query_range db (entry_name prefix a) = None) addresses"

definition existing_addresses_of :: "database \<Rightarrow> string \<Rightarrow> ChecksumEvmAddress list \<Rightarrow> ChecksumEvmAddress list" where
  "existing_addresses_of db prefix addresses =
     filter (\<lambda>a. get_used_query_range db (entry_name prefix a) \<noteq> None) addresses"

definition covered_to :: "database \<Rightarrow> string \<Rightarrow> ChecksumEvmAddress list \<Rightarrow> Timestamp list" where
  "covered_to db prefix addresses =
     List.map_filter (\<lambda>a. map_option snd (get_used_query_range db (entry_name prefix a))) addresses"

definition min_covered_to :: "database \<Rightarrow> string \<Rightarrow> ChecksumEvmAddress list \<Rightarrow> Timestamp \<Rightarrow> Timestamp" where
  "min_covered_to db prefix addresses to_ts = Min (set (to_ts # covered_to db prefix addresses))"

definition is_invest_query :: "io_event \<Rightarrow> bool" where
  "is_invest_query x = (case x of InvestQuery etype p \<Rightarrow> True | _ \<Rightarrow> False)"

definition ex_ranges_db :: database where
  "ex_ranges_db =
     \<lparr>used_query_ranges = [''balancer_events_0xV'' \<mapsto> (0, 150)], balancer_events_table = []\<rparr>"

text \<open>
  A recorded range is extended up to \<^verbatim>\<open>to_timestamp\<close>: the new record covers the old one
  and ends at \<^verbatim>\<open>to_timestamp\<close>.
\<close>

definition extended_to :: "Timestamp \<times> Timestamp \<Rightarrow> Timestamp \<Rightarrow> Timestamp \<times> Timestamp \<Rightarrow> bool" where
  "extended_to old_range to_ts new_range \<longleftrightarrow>
     fst new_range \<le> fst old_range \<and> snd old_range \<le> snd new_range \<and> snd new_range = to_ts"

definition ex_covered_db :: database where
  "ex_covered_db =
     \<lparr>used_query_ranges =
        [''balancer_events_0xU'' \<mapsto> (0, 300), ''balancer_events_0xV'' \<mapsto> (0, 100)],
      balancer_events_table = []\<rparr>"

subsection \<open>Quantities the statements about pagination are written with\<close>

definition bpt_queries :: "io_event list \<Rightarrow> bpt_params list" where
  "bpt_queries l = concat (map (\<lambda>x. case x of BptQuery etype p \<Rightarrow> [p] | _ \<Rightarrow> []) l)"

definition pool_shares_queries :: "io_event list \<Rightarrow> pool_shares_params list" where
  "pool_shares_queries l = concat (map (\<lambda>x. case x of PoolSharesQuery p \<Rightarrow> [p] | _ \<Rightarrow> []) l)"

text \<open>
  Pagination with a continuation cursor, in the words of the specification: each request but
  the last one got a page of at least \<open>L\<close> items; the request that follows a request at the
  offset \<open>S\<close> has the offset 0 and the cursor of the last item of that page, and the request
  that follows a request at another offset has that offset plus \<open>L\<close>.
\<close>

fun cursor_paginated ::
  "(bpt_params \<Rightarrow> BalancerBPTEvent raw_event graph_result) \<Rightarrow> nat \<Rightarrow> nat \<Rightarrow> bpt_params list \<Rightarrow> bool" where
  "cursor_paginated query L S [] = True"
| "cursor_paginated query L S [p] = True"
| "cursor_paginated query L S (p # q # rest) =
     ((case query p of
         Items page \<Rightarrow>
           L \<le> length page
           \<and> (if bq_offset p = S
              then page \<noteq> []
                \<and> (case last page of
                      Deserializable ev \<Rightarrow>
                        q = p\<lparr>bq_id := EventId (bpt_tx_hash ev) (bpt_log_index ev), bq_offset := 0\<rparr>
                    | Undeserializable tx \<Rightarrow> False)
              else q = p\<lparr>bq_offset := bq_offset p + L\<rparr>)
       | _ \<Rightarrow> False)
      \<and> cursor_paginated query L S (q # rest))"

text \<open>Pagination by the offset alone: the next request has the offset plus \<open>L\<close>.\<close>

fun offset_paginated ::
  "(pool_shares_params \<Rightarrow> (ChecksumEvmAddress \<times> BalancerPoolBalance) option graph_result) \<Rightarrow> nat
     \<Rightarrow> pool_shares_params list \<Rightarrow> bool" where
  "offset_paginated query L [] = True"
| "offset_paginated query L [p] = True"
| "offset_paginated query L (p # q # rest) =
     ((case query p of
         Items page \<Rightarrow> L \<le> length page \<and> q = p\<lparr>sq_offset := sq_offset p + L\<rparr>
       | _ \<Rightarrow> False)
      \<and> offset_paginated query L (q # rest))"

text \<open>
  What the specification says of the offsets of any paginated fetch: after the offset \<open>S\<close>
  comes the offset 0, after another offset comes that offset plus \<open>L\<close>.
\<close>

fun claimed_offsets :: "nat \<Rightarrow> nat \<Rightarrow> nat list \<Rightarrow> bool" where
  "claimed_offsets L S [] = True"
| "claimed_offsets L S [x] = True"
| "claimed_offsets L S (x # y # rest) =
     ((if x = S then y = 0 else y = x + L) \<and> claimed_offsets L S (y # rest))"

definition pool_shares_offsets :: "ProtocolBalance io \<Rightarrow> nat list option" where
  "pool_shares_offsets m = map_option (map sq_offset \<circ> pool_shares_queries) (io_log m)"

text \<open>The last request of a fetch that returned got a page of fewer than \<open>L\<close> items.\<close>

definition short_page :: "('p \<Rightarrow> 'r graph_result) \<Rightarrow> nat \<Rightarrow> 'p \<Rightarrow> bool" where
  "short_page query L p = (case query p of Items page \<Rightarrow> length page < L | _ \<Rightarrow> False)"

subsection \<open>Example data of paginated fetches\<close>

text \<open>
  A subgraph of pool-token events that gives a full page of two events for the first cursor
  and a page of one event for any other cursor.
\<close>

definition ex_cursor_query :: "bpt_params \<Rightarrow> BalancerBPTEvent raw_event graph_result" where
  "ex_cursor_query p =
     (if bq_id p = InitialId
      then Items [Deserializable (ex_bpt\<lparr>bpt_log_index := 7\<rparr>), Deserializable (ex_bpt\<lparr>bpt_log_index := 5\<rparr>)]
      else Items [Deserializable (ex_bpt\<lparr>bpt_log_index := 9\<rparr>)])"

text \<open>
  A subgraph of pool shares that gives a full page of 1000 shares at every offset up to
  5000, and an empty page beyond.
\<close>

definition ex_full_pages_world :: world where
  "ex_full_pages_world =
     ex_world
       \<lparr>pool_shares_query :=
          (\<lambda>p. if sq_offset p \<le> 5000 then Items (replicate 1000 (Some (''0xU'', ex_pool_balance)))
               else Items [])\<rparr>"

subsection \<open>Quantities the statements about deduplication are written with\<close>






text \<open>The sets of the addresses after the events \<open>es\<close> were added.\<close>

definition dedup :: "('e \<Rightarrow> 'k) \<Rightarrow> 'e list \<Rightarrow> 'e list \<Rightarrow> 'e list" where
  "dedup key s es = foldl (\<lambda>s e. set_add key e s) s es"






section \<open>Verification\<close>

subsection \<open>Profit and loss per pool\<close>

lemma operator_signed: "operator t a b = a + signed t b"
  by (simp add: operator_def signed_def)

lemma burns_minus_mints_Nil: "burns_minus_mints p [] f = 0"
  by (simp add: burns_minus_mints_def)

lemma burns_minus_mints_Cons:
  "burns_minus_mints p (e # es) f =
     (if pool_address_token e = p then signed (event_type e) (f e) else 0) + burns_minus_mints p es f"
  by (cases "event_type e") (simp_all add: burns_minus_mints_def signed_def)

lemma account_event_usd:
  "pool_addr_to_usd_value (account_event M acc e) p =
     pool_addr_to_usd_value acc p
     + (if pool_address_token e = p then signed (event_type e) (usd_value (lp_balance e)) else 0)"
  by (simp add: account_event_def Let_def operator_signed)

lemma foldl_account_event_usd:
  "pool_addr_to_usd_value (foldl (account_event M) acc es) p =
     pool_addr_to_usd_value acc p + burns_minus_mints p es (\<lambda>e. usd_value (lp_balance e))"
proof (induction es arbitrary: acc)
  case Nil
  show ?case by (simp add: burns_minus_mints_Nil)
next
  case (Cons e es)
  show ?case
    by (simp add: Cons.IH account_event_usd burns_minus_mints_Cons)
qed

lemma account_event_length:
  "length (pool_addr_to_profit_loss_amounts acc p) = M \<Longrightarrow>
   length (pool_addr_to_profit_loss_amounts (account_event M acc e) p) = M"
  by (auto simp add: account_event_def Let_def)

lemma account_event_nth:
  assumes "length (pool_addr_to_profit_loss_amounts acc p) = M" and "i < M"
  shows "pool_addr_to_profit_loss_amounts (account_event M acc e) p ! i =
     pool_addr_to_profit_loss_amounts acc p ! i
     + (if pool_address_token e = p then signed (event_type e) (amount_at (amounts e) i) else 0)"
  using assms
  by (auto simp add: account_event_def Let_def operator_signed amount_at_def nth_append)

lemma foldl_account_event_length:
  "length (pool_addr_to_profit_loss_amounts acc p) = M \<Longrightarrow>
   length (pool_addr_to_profit_loss_amounts (foldl (account_event M) acc es) p) = M"
  by (induction es arbitrary: acc) (simp_all add: account_event_length)

lemma foldl_account_event_nth:
  assumes "length (pool_addr_to_profit_loss_amounts acc p) = M" and "i < M"
  shows "pool_addr_to_profit_loss_amounts (foldl (account_event M) acc es) p ! i =
     pool_addr_to_profit_loss_amounts acc p ! i + burns_minus_mints p es (\<lambda>e. amount_at (amounts e) i)"
  using assms
proof (induction es arbitrary: acc)
  case Nil
  show ?case by (simp add: burns_minus_mints_Nil)
next
  case (Cons e es)
  have len: "length (pool_addr_to_profit_loss_amounts (account_event M acc e) p) = M"
    using Cons.prems(1) by (rule account_event_length)
  show ?case
    using Cons.IH [OF len Cons.prems(2)] account_event_nth [OF Cons.prems, of e]
    by (simp add: burns_minus_mints_Cons)
qed

lemma add_underlying_balances_ok:
  "(\<exists>r. add_underlying_balances idx bs (pl, usd) = Inr r) \<longleftrightarrow> (bs = [] \<or> idx + length bs \<le> length pl)"
  by (induction bs arbitrary: idx pl usd) auto

lemma add_underlying_balances_result:
  "add_underlying_balances idx bs (pl, usd) = Inr (pl', usd') \<Longrightarrow>
   length pl' = length pl
   \<and> usd' = usd + sum_list (map (\<lambda>b. usd_value (user_balance b)) bs)
   \<and> (\<forall>i < length pl. pl' ! i =
         pl ! i + (if idx \<le> i \<and> i < idx + length bs then amount (user_balance (bs ! (i - idx))) else 0))"
proof (induction bs arbitrary: idx pl usd)
  case Nil
  then show ?case by simp
next
  case (Cons b bs)
  from Cons.prems have lt: "idx < length pl"
    by (simp split: if_splits)
  from Cons.prems lt have rec:
    "add_underlying_balances (Suc idx) bs
       (pl[idx := pl ! idx + amount (user_balance b)], usd + usd_value (user_balance b)) = Inr (pl', usd')"
    by simp
  note IH = Cons.IH [OF rec]
  show ?case
  proof (intro conjI allI impI)
    show "length pl' = length pl" using IH by simp
    show "usd' = usd + sum_list (map (\<lambda>b. usd_value (user_balance b)) (b # bs))"
      using IH by simp
  next
    fix i assume i: "i < length pl"
    then have "pl' ! i = pl[idx := pl ! idx + amount (user_balance b)] ! i
        + (if Suc idx \<le> i \<and> i < Suc idx + length bs then amount (user_balance (bs ! (i - Suc idx))) else 0)"
      using IH by simp
    then show "pl' ! i = pl ! i
        + (if idx \<le> i \<and> i < idx + length (b # bs) then amount (user_balance ((b # bs) ! (i - idx))) else 0)"
      using i lt by (cases "i = idx") (auto simp add: nth_list_update nth_Cons')
  qed
qed

lemma live_total_Nil: "live_total p [] f = 0"
  by (simp add: live_total_def)

lemma live_total_Cons:
  "live_total p (pb # pbs) f = (if pool_token pb = p then f pb else 0) + live_total p pbs f"
  by (simp add: live_total_def)

lemma account_pool_balances_ok:
  "\<forall>p. length (pool_addr_to_profit_loss_amounts acc p) = M \<Longrightarrow>
   (\<exists>acc'. account_pool_balances acc pbs = Inr acc')
     \<longleftrightarrow> (\<forall>pb \<in> set pbs. length (underlying_tokens_balance pb) \<le> M)"
proof (induction pbs arbitrary: acc)
  case Nil
  show ?case by simp
next
  case (Cons pb pbs)
  let ?pool = "pool_token pb"
  let ?start = "(pool_addr_to_profit_loss_amounts acc ?pool, pool_addr_to_usd_value acc ?pool)"
  show ?case
  proof (cases "add_underlying_balances 0 (underlying_tokens_balance pb) ?start")
    case (Inl e)
    then have "\<not> (\<exists>r. add_underlying_balances 0 (underlying_tokens_balance pb) ?start = Inr r)"
      by simp
    then have "\<not> length (underlying_tokens_balance pb) \<le> M"
      using add_underlying_balances_ok [of 0 "underlying_tokens_balance pb"
          "pool_addr_to_profit_loss_amounts acc ?pool" "pool_addr_to_usd_value acc ?pool"]
        Cons.prems by auto
    then show ?thesis using Inl by (simp add: Let_def)
  next
    case (Inr r)
    obtain pl usd where r: "r = (pl, usd)" by (cases r)
    have ok: "length (underlying_tokens_balance pb) \<le> M"
      using add_underlying_balances_ok [of 0 "underlying_tokens_balance pb"
          "pool_addr_to_profit_loss_amounts acc ?pool" "pool_addr_to_usd_value acc ?pool"]
        Inr Cons.prems by auto
    have len: "length pl = M"
      using add_underlying_balances_result [of 0 "underlying_tokens_balance pb"
          "pool_addr_to_profit_loss_amounts acc ?pool" "pool_addr_to_usd_value acc ?pool" pl usd]
        Inr r Cons.prems by simp
    let ?acc = "acc\<lparr>pool_addr_to_profit_loss_amounts := (pool_addr_to_profit_loss_amounts acc)(?pool := pl),
                 pool_addr_to_usd_value := (pool_addr_to_usd_value acc)(?pool := usd)\<rparr>"
    have inv: "\<forall>p. length (pool_addr_to_profit_loss_amounts ?acc p) = M"
      using Cons.prems len by simp
    show ?thesis
      using Cons.IH [OF inv] Inr r ok by (simp add: Let_def)
  qed
qed

lemma account_pool_balances_result:
  "\<forall>p. length (pool_addr_to_profit_loss_amounts acc p) = M \<Longrightarrow>
   account_pool_balances acc pbs = Inr acc' \<Longrightarrow>
   pool_addr_to_events acc' = pool_addr_to_events acc
   \<and> (\<forall>p. length (pool_addr_to_profit_loss_amounts acc' p) = M)
   \<and> (\<forall>p. pool_addr_to_usd_value acc' p = pool_addr_to_usd_value acc p + live_total p pbs live_usd_value)
   \<and> (\<forall>p. \<forall>i < M. pool_addr_to_profit_loss_amounts acc' p ! i =
         pool_addr_to_profit_loss_amounts acc p ! i + live_total p pbs (live_amount i))"
proof (induction pbs arbitrary: acc)
  case Nil
  then show ?case by (simp add: live_total_Nil)
next
  case (Cons pb pbs)
  let ?pool = "pool_token pb"
  let ?bs = "underlying_tokens_balance pb"
  let ?pl0 = "pool_addr_to_profit_loss_amounts acc ?pool"
  let ?usd0 = "pool_addr_to_usd_value acc ?pool"
  from Cons.prems(2) obtain pl usd where
    step: "add_underlying_balances 0 ?bs (?pl0, ?usd0) = Inr (pl, usd)"
    by (auto simp add: Let_def split: sum.splits)
  let ?acc = "acc\<lparr>pool_addr_to_profit_loss_amounts := (pool_addr_to_profit_loss_amounts acc)(?pool := pl),
               pool_addr_to_usd_value := (pool_addr_to_usd_value acc)(?pool := usd)\<rparr>"
  from Cons.prems(2) step have rest: "account_pool_balances ?acc pbs = Inr acc'"
    by (simp add: Let_def)
  note res = add_underlying_balances_result [OF step]
  have len0: "length ?pl0 = M" using Cons.prems(1) by simp
  have len: "length pl = M" using res len0 by simp
  have usd: "usd = ?usd0 + live_usd_value pb"
    using res by (simp add: live_usd_value_def)
  have nth: "pl ! i = ?pl0 ! i + live_amount i pb" if "i < M" for i
    using res that len0 by (auto simp add: live_amount_def amount_at_def)
  have inv: "\<forall>p. length (pool_addr_to_profit_loss_amounts ?acc p) = M"
    using Cons.prems(1) len by simp
  note IH = Cons.IH [OF inv rest]
  show ?case
  proof (intro conjI allI impI)
    show "pool_addr_to_events acc' = pool_addr_to_events acc" using IH by simp
    show "length (pool_addr_to_profit_loss_amounts acc' p) = M" for p using IH by simp
    show "pool_addr_to_usd_value acc' p
        = pool_addr_to_usd_value acc p + live_total p (pb # pbs) live_usd_value" for p
      using IH usd by (simp add: live_total_Cons)
    show "pool_addr_to_profit_loss_amounts acc' p ! i =
         pool_addr_to_profit_loss_amounts acc p ! i + live_total p (pb # pbs) (live_amount i)"
      if "i < M" for p i
      using IH nth [OF that] that by (simp add: live_total_Cons)
  qed
qed

lemma map_fst_dd_append:
  "map fst (dd_append k v d) = (if k \<in> fst ` set d then map fst d else map fst d @ [k])"
  by (induction d) force+

lemma map_of_dd_append:
  "map_of (dd_append k v d) k' =
     (if k' = k then Some ((case map_of d k of None \<Rightarrow> [] | Some vs \<Rightarrow> vs) @ [v]) else map_of d k')"
  by (induction d) auto

lemma grouped_step:
  assumes "grouped d es"
  shows "grouped (dd_append (pool_address_token e) e d) (es @ [e])"
proof -
  from assms have dist: "distinct (map fst d)"
    and ents: "\<And>p. map_of d p =
           (if p \<in> pool_address_token ` set es
            then Some (filter (\<lambda>e. pool_address_token e = p) es) else None)"
    by (auto simp add: grouped_def)
  let ?k = "pool_address_token e"
  have d1: "distinct (map fst (dd_append ?k e d))"
    using dist by (auto simp add: map_fst_dd_append)
  have none: "filter (\<lambda>x. pool_address_token x = ?k) es = []" if "?k \<notin> pool_address_token ` set es"
    unfolding filter_empty_conv using that by (metis imageI)
  have d2: "map_of (dd_append ?k e d) p =
           (if p \<in> pool_address_token ` set (es @ [e])
            then Some (filter (\<lambda>x. pool_address_token x = p) (es @ [e])) else None)" for p
    using none by (auto simp add: map_of_dd_append ents)
  show ?thesis
    unfolding grouped_def using d1 d2 by blast
qed

lemma account_event_events:
  "pool_addr_to_events (account_event M acc e) = dd_append (pool_address_token e) e (pool_addr_to_events acc)"
  by (simp add: account_event_def Let_def)

lemma foldl_account_event_grouped:
  "grouped (pool_addr_to_events (foldl (account_event M) (init_accumulators M) es)) es"
proof (induction es rule: rev_induct)
  case Nil
  show ?case by (simp add: grouped_def init_accumulators_def)
next
  case (snoc e es)
  then show ?case by (simp add: account_event_events grouped_step)
qed

lemma calculate_pool_events_balances_ok:
  "(\<exists>out. calculate_pool_events_balances M addr events pbs = Inr out)
     \<longleftrightarrow> (\<forall>pb \<in> set pbs. length (underlying_tokens_balance pb) \<le> M)"
proof -
  let ?acc = "foldl (account_event M) (init_accumulators M) events"
  have inv: "\<forall>p. length (pool_addr_to_profit_loss_amounts ?acc p) = M"
    by (simp add: foldl_account_event_length init_accumulators_def)
  have "(\<exists>out. calculate_pool_events_balances M addr events pbs = Inr out)
      \<longleftrightarrow> (\<exists>acc'. account_pool_balances ?acc pbs = Inr acc')"
    by (auto simp add: calculate_pool_events_balances_def split: sum.splits)
  then show ?thesis
    using account_pool_balances_ok [OF inv] by simp
qed

lemma calculate_pool_events_balances_entry:
  assumes "calculate_pool_events_balances M addr events pbs = Inr out" and "r \<in> set out"
  shows "peb_events r = filter (\<lambda>e. pool_address_token e = peb_pool_address_token r) events
    \<and> peb_pool_address_token r \<in> pool_address_token ` set events
    \<and> profit_loss_amounts r =
        take (length (underlying_tokens (peb_pool_address_token r)))
          (map (\<lambda>i. burns_minus_mints (peb_pool_address_token r) events (\<lambda>e. amount_at (amounts e) i)
                     + live_total (peb_pool_address_token r) pbs (live_amount i)) [0..<M])
    \<and> usd_profit_loss r =
        burns_minus_mints (peb_pool_address_token r) events (\<lambda>e. usd_value (lp_balance e))
        + live_total (peb_pool_address_token r) pbs live_usd_value"
proof -
  let ?acc = "foldl (account_event M) (init_accumulators M) events"
  have inv: "\<forall>p. length (pool_addr_to_profit_loss_amounts ?acc p) = M"
    by (simp add: foldl_account_event_length init_accumulators_def)
  from assms(1) obtain acc' where acc': "account_pool_balances ?acc pbs = Inr acc'"
    and out: "out = map (pool_events_balance addr acc') (pool_addr_to_events acc')"
    by (auto simp add: calculate_pool_events_balances_def split: sum.splits)
  note res = account_pool_balances_result [OF inv acc']
  have evs: "pool_addr_to_events acc' = pool_addr_to_events ?acc" using res by simp
  have g: "grouped (pool_addr_to_events acc') events"
    using foldl_account_event_grouped [of M events] evs by simp
  from assms(2) out obtain p pevs where ent: "(p, pevs) \<in> set (pool_addr_to_events acc')"
    and r: "r = pool_events_balance addr acc' (p, pevs)"
    by auto
  from g have "distinct (map fst (pool_addr_to_events acc'))"
    unfolding grouped_def by blast
  from this ent have "map_of (pool_addr_to_events acc') p = Some pevs"
    by (rule map_of_is_SomeI)
  moreover from g have "map_of (pool_addr_to_events acc') p =
           (if p \<in> pool_address_token ` set events
            then Some (filter (\<lambda>e. pool_address_token e = p) events) else None)"
    unfolding grouped_def by blast
  ultimately have p_in: "p \<in> pool_address_token ` set events"
    and pevs: "pevs = filter (\<lambda>e. pool_address_token e = p) events"
    by (simp_all split: if_splits)
  have len: "length (pool_addr_to_profit_loss_amounts acc' p) = M" using res by simp
  have nth: "pool_addr_to_profit_loss_amounts acc' p ! i =
      burns_minus_mints p events (\<lambda>e. amount_at (amounts e) i) + live_total p pbs (live_amount i)" if "i < M" for i
  proof -
    have "pool_addr_to_profit_loss_amounts ?acc p ! i
        = burns_minus_mints p events (\<lambda>e. amount_at (amounts e) i)"
      using foldl_account_event_nth [of "init_accumulators M" p M i events] that
      by (simp add: init_accumulators_def)
    then show ?thesis using res that by simp
  qed
  have vec: "pool_addr_to_profit_loss_amounts acc' p =
      map (\<lambda>i. burns_minus_mints p events (\<lambda>e. amount_at (amounts e) i) + live_total p pbs (live_amount i)) [0..<M]"
    using len nth by (intro nth_equalityI) simp_all
  have usd: "pool_addr_to_usd_value acc' p =
      burns_minus_mints p events (\<lambda>e. usd_value (lp_balance e)) + live_total p pbs live_usd_value"
    using res foldl_account_event_usd [of M "init_accumulators M" events p]
    by (simp add: init_accumulators_def)
  show ?thesis
    using r pevs p_in vec usd by (simp add: pool_events_balance_def)
qed

text \<open>
  C2 (as the code has it). For every pool of the output, the profit and loss vector is, per
  underlying token, what the BURN events of the pool took out, minus what its MINT events
  put in, plus the amounts of the live balances of the pool, cut to the number of underlying
  tokens of the pool; the reference currency profit and loss is accumulated with the same
  signs from the value of each event, plus the values of the live balances.
\<close>

theorem calculate_pool_events_balances_profit_loss:
  assumes "calculate_pool_events_balances M addr events pbs = Inr out" and "r \<in> set out"
  shows "profit_loss_amounts r = net_profit_loss_amounts M (peb_pool_address_token r) events pbs
    \<and> usd_profit_loss r = net_usd_profit_loss (peb_pool_address_token r) events pbs"
  using calculate_pool_events_balances_entry [OF assms]
  by (simp add: net_profit_loss_amounts_def net_usd_profit_loss_def)

lemma ex_calculate_pool_events_balances:
  "calculate_pool_events_balances 8 ''0xU''
     [ex_event MINT [10, 20] 30, ex_event BURN [4, 5] 12] [ex_pool_balance]
   = Inr [\<lparr>peb_address = ''0xU'', peb_pool_address_token = ex_pool,
           peb_events = [ex_event MINT [10, 20] 30, ex_event BURN [4, 5] 12],
           profit_loss_amounts = [1, 1], usd_profit_loss = 7\<rparr>]"
  by (simp add: calculate_pool_events_balances_def init_accumulators_def account_event_def
      operator_def pool_events_balance_def ex_event_def ex_pool_balance_def ex_pool_def Let_def
      eval_nat_numeral)

theorem calculate_pool_events_balances_profit_loss_witness:
  "calculate_pool_events_balances 8 ''0xU''
     [ex_event MINT [10, 20] 30, ex_event BURN [4, 5] 12] [ex_pool_balance]
   = Inr [\<lparr>peb_address = ''0xU'', peb_pool_address_token = ex_pool,
           peb_events = [ex_event MINT [10, 20] 30, ex_event BURN [4, 5] 12],
           profit_loss_amounts = [1, 1], usd_profit_loss = 7\<rparr>]
   \<and> net_profit_loss_amounts 8 ex_pool
         [ex_event MINT [10, 20] 30, ex_event BURN [4, 5] 12] [ex_pool_balance] = [1, 1]
   \<and> net_usd_profit_loss ex_pool
         [ex_event MINT [10, 20] 30, ex_event BURN [4, 5] 12] [ex_pool_balance] = 7"
  using calculate_pool_events_balances_profit_loss [OF ex_calculate_pool_events_balances, of
      "\<lparr>peb_address = ''0xU'', peb_pool_address_token = ex_pool,
           peb_events = [ex_event MINT [10, 20] 30, ex_event BURN [4, 5] 12],
           profit_loss_amounts = [1, 1], usd_profit_loss = 7\<rparr>"]
    ex_calculate_pool_events_balances
  by simp

text \<open>
  C2 (as it is written) fails: one MINT event of amounts 10 and 20 and value 30 gives the
  profit and loss - 10, - 20 and - 30, where adding the MINT events gives 10, 20 and 30.
\<close>

theorem calculate_pool_events_balances_sign_counterexample:
  "calculate_pool_events_balances 8 ''0xU'' [ex_event MINT [10, 20] 30] []
   = Inr [\<lparr>peb_address = ''0xU'', peb_pool_address_token = ex_pool,
           peb_events = [ex_event MINT [10, 20] 30],
           profit_loss_amounts = [- 10, - 20], usd_profit_loss = - 30\<rparr>]
   \<and> claimed_profit_loss_amounts 8 ex_pool [ex_event MINT [10, 20] 30] [] = [10, 20]
   \<and> claimed_usd_profit_loss ex_pool [ex_event MINT [10, 20] 30] [] = 30"
  by (simp add: calculate_pool_events_balances_def init_accumulators_def account_event_def
      operator_def pool_events_balance_def ex_event_def ex_pool_def Let_def
      claimed_profit_loss_amounts_def claimed_usd_profit_loss_def
      mints_minus_burns_def live_total_def amount_at_def upt_rec eval_nat_numeral)

subsection \<open>Live balances and the requested window\<close>

lemma pool_events_balances_of_db_no_live:
  "from_ts \<noteq> 0 \<Longrightarrow>
   pool_events_balances_of_db fuel w c addresses from_ts to_ts db =
     Some (db, [], calculate_all (POOL_MAX_NUMBER_TOKENS c) [] (read_db_events db from_ts to_ts addresses []))"
  by (simp add: pool_events_balances_of_db_def Let_def db_bind_def)

lemma db_bind_SomeD:
  "db_bind m f = Some (db', l, r) \<Longrightarrow>
   (\<exists>e. m = Some (db', l, Inl e) \<and> r = Inl e)
   \<or> (\<exists>db1 l1 x l2. m = Some (db1, l1, Inr x) \<and> f x db1 = Some (db', l2, r) \<and> l = l1 @ l2)"
  by (auto simp add: db_bind_def split: option.splits sum.splits prod.splits)

lemma get_address_to_pool_events_balances_last:
  "get_address_to_pool_events_balances fuel w c addresses from_ts to_ts db = Some (db', l, Inr result) \<Longrightarrow>
   \<exists>db3 l3. pool_events_balances_of_db fuel w c addresses from_ts to_ts db3 = Some (db', l3, Inr result)"
  unfolding get_address_to_pool_events_balances_def by (auto dest!: db_bind_SomeD)

text \<open>
  C10. When \<^verbatim>\<open>from_timestamp\<close> is not zero, what \<^verbatim>\<open>get_events_history\<close> returns is
  computed from the events of the database alone: it is what the calculation gives with no
  live balance for any address.
\<close>

theorem get_events_history_without_live_balances:
  assumes "from_ts \<noteq> 0"
    and "get_events_history fuel w c del addresses reset_db_data from_ts to_ts db = Some (db', l, Inr result)"
  shows "Inr result =
     calculate_all (POOL_MAX_NUMBER_TOKENS c) [] (read_db_events db' from_ts to_ts addresses [])"
proof -
  from assms(2) obtain db1 l2 where
    "get_address_to_pool_events_balances fuel w c addresses from_ts to_ts db1 = Some (db', l2, Inr result)"
    unfolding get_events_history_def by (auto dest!: db_bind_SomeD)
  then obtain db3 l3 where
    "pool_events_balances_of_db fuel w c addresses from_ts to_ts db3 = Some (db', l3, Inr result)"
    by (auto dest!: get_address_to_pool_events_balances_last)
  then show ?thesis
    using assms(1) by (auto simp add: pool_events_balances_of_db_no_live)
qed

lemma ex_history:
  "get_events_history 1 ex_world ex_constants id [''0xU''] False 50 200 ex_synced_db =
     Some (ex_synced_db, [],
       Inr [(''0xU'', [\<lparr>peb_address = ''0xU'', peb_pool_address_token = ex_pool,
           peb_events = [ex_event MINT [10, 20] 30],
           profit_loss_amounts = [- 10, - 20], usd_profit_loss = - 30\<rparr>])])"
  by (simp add: get_events_history_def get_address_to_pool_events_balances_def db_bind_def
      fetch_events_data_def store_events_def pool_events_balances_of_db_def
      get_used_query_range_def entry_name_def get_balancer_events_def dict_update_def dict_get_def
      ex_synced_db_def ex_constants_def ex_event_def ex_pool_def Let_def
      calculate_pool_events_balances_def init_accumulators_def account_event_def
      operator_def pool_events_balance_def eval_nat_numeral)

theorem get_events_history_without_live_balances_witness:
  "(50::int) \<noteq> 0
   \<and> get_events_history 1 ex_world ex_constants id [''0xU''] False 50 200 ex_synced_db =
       Some (ex_synced_db, [],
         Inr [(''0xU'', [\<lparr>peb_address = ''0xU'', peb_pool_address_token = ex_pool,
             peb_events = [ex_event MINT [10, 20] 30],
             profit_loss_amounts = [- 10, - 20], usd_profit_loss = - 30\<rparr>])])
   \<and> calculate_all (POOL_MAX_NUMBER_TOKENS ex_constants) []
         (read_db_events ex_synced_db 50 200 [''0xU''] []) =
       Inr [(''0xU'', [\<lparr>peb_address = ''0xU'', peb_pool_address_token = ex_pool,
             peb_events = [ex_event MINT [10, 20] 30],
             profit_loss_amounts = [- 10, - 20], usd_profit_loss = - 30\<rparr>])]"
proof -
  have h: "(50::int) \<noteq> 0" by simp
  show ?thesis
    using h ex_history get_events_history_without_live_balances [OF h ex_history]
    by simp
qed

subsection \<open>Aggregation: the reference currency value\<close>

lemma io_bind_SomeD:
  "io_bind m f = Some (l, r) \<Longrightarrow>
   (\<exists>e. m = Some (l, Inl e) \<and> r = Inl e)
   \<or> (\<exists>l1 x l2. m = Some (l1, Inr x) \<and> f x = Some (l2, r) \<and> l = l1 @ l2)"
  by (auto simp add: io_bind_def split: option.splits sum.splits prod.splits)

lemma io_logged_SomeD:
  "io_logged l0 m = Some (l, r) \<Longrightarrow> \<exists>l1. m = Some (l1, r) \<and> l = l0 @ l1"
  by (auto simp add: io_logged_def split: option.splits prod.splits)

lemma aggregate_invest_events_flag:
  "aggregate_invest_events fuel w L idx es (amts, usd, True) = Some (l, Inr (amts', usd', flag')) \<Longrightarrow> flag'"
  by (induction es arbitrary: amts usd l) (auto split: option.splits if_splits simp add: Let_def)

lemma aggregate_invest_events_usd:
  "aggregate_invest_events fuel w L idx es (amts, usd, False) = Some (l, Inr (amts', usd', flag')) \<Longrightarrow>
   (flag' \<longleftrightarrow> (\<exists>e \<in> set es. lookup_price fuel w L e = Some 0))
   \<and> (\<not> flag' \<longrightarrow> usd' = usd + sum_list (map (priced_amount fuel w L) es))"
proof (induction es arbitrary: amts usd l)
  case Nil
  then show ?case by simp
next
  case (Cons e es)
  from Cons.prems obtain token_idx where idx: "idx (token_address e) = Some token_idx"
    and len: "\<not> length amts \<le> token_idx"
    by (auto split: option.splits if_splits)
  let ?amts = "amts[token_idx := amts ! token_idx + inv_amount e]"
  from Cons.prems idx len have
    "io_bind (get_token_price_at_timestamp_zero_if_error fuel w L (token_address e) (inv_timestamp e))
       (\<lambda>price.
          if price = 0
          then io_logged [AddError (HistoricalPriceMissingMsg (token_address e) (inv_timestamp e))]
                 (aggregate_invest_events fuel w L idx es (?amts, usd + price * inv_amount e, True))
          else aggregate_invest_events fuel w L idx es (?amts, usd + price * inv_amount e, False))
     = Some (l, Inr (amts', usd', flag'))"
    by (simp add: Let_def)
  then obtain l1 price l2 where
    price: "get_token_price_at_timestamp_zero_if_error fuel w L (token_address e) (inv_timestamp e)
              = Some (l1, Inr price)"
    and rest: "(if price = 0
          then io_logged [AddError (HistoricalPriceMissingMsg (token_address e) (inv_timestamp e))]
                 (aggregate_invest_events fuel w L idx es (?amts, usd + price * inv_amount e, True))
          else aggregate_invest_events fuel w L idx es (?amts, usd + price * inv_amount e, False))
       = Some (l2, Inr (amts', usd', flag'))"
    by (auto dest!: io_bind_SomeD)
  have lp: "lookup_price fuel w L e = Some price"
    using price by (simp add: lookup_price_def)
  show ?case
  proof (cases "price = 0")
    case True
    with rest obtain l3 where
      "aggregate_invest_events fuel w L idx es (?amts, usd + price * inv_amount e, True)
         = Some (l3, Inr (amts', usd', flag'))"
      by (auto dest!: io_logged_SomeD)
    then have "flag'" by (rule aggregate_invest_events_flag)
    then show ?thesis using lp True by auto
  next
    case False
    with rest have
      "aggregate_invest_events fuel w L idx es (?amts, usd + price * inv_amount e, False)
         = Some (l2, Inr (amts', usd', flag'))"
      by simp
    from Cons.IH [OF this] show ?thesis
      using lp False by (auto simp add: priced_amount_def)
  qed
qed

text \<open>
  C5. When the aggregation of a pool-token event returns an event, the reference currency
  value of the event is zero if the lookup of the price of any investment event of the group
  gives zero, and otherwise it is the sum over the group of price times amount.
\<close>

theorem aggregate_bpt_event_usd_value:
  assumes "aggregate_bpt_event fuel w L etype invs pool_index bpt_event = Some (l, Inr (pool_index', ev))"
  shows "usd_value (lp_balance ev) =
     (if \<exists>e \<in> set (group_of invs bpt_event). lookup_price fuel w L e = Some 0 then 0
      else sum_list (map (priced_amount fuel w L) (group_of invs bpt_event)))"
proof -
  let ?G = "group_of invs bpt_event"
  let ?pool = "bpt_pool_address_token bpt_event"
  let ?idx = "case pool_index ?pool of None \<Rightarrow> token_addr_to_index (underlying_tokens ?pool) | Some m \<Rightarrow> m"
  from assms obtain first_event more_events where G: "?G = first_event # more_events"
    by (auto simp add: aggregate_bpt_event_def split: list.splits)
  from assms G obtain l1 amts usd flag where
    agg: "aggregate_invest_events fuel w L ?idx ?G
            (replicate (length (underlying_tokens ?pool)) 0, 0, False) = Some (l1, Inr (amts, usd, flag))"
    and ev: "usd_value (lp_balance ev) = (if flag then 0 else usd)"
    by (auto simp add: aggregate_bpt_event_def Let_def dest!: io_bind_SomeD)
  from aggregate_invest_events_usd [OF agg] ev show ?thesis
    by auto
qed

lemma ex_aggregate_poisoned:
  "aggregate_bpt_event 1 (ex_price_world 0) 1000 MINT [ex_invest ''0xA'' 2 60, ex_invest ''0xB'' 3 40]
     Map.empty ex_bpt =
   Some ([AddError (HistoricalPriceMissingMsg ''0xB'' 100)],
     Inr ([ex_pool \<mapsto> [''0xA'' \<mapsto> 0, ''0xB'' \<mapsto> 1]],
       \<lparr>tx_hash = ''t1'', log_index = 1, address = ''0xU'', timestamp = 100, event_type = MINT,
        pool_address_token = ex_pool, lp_balance = \<lparr>amount = 100, usd_value = 0\<rparr>,
        amounts = [60, 40]\<rparr>))"
  by (simp add: aggregate_bpt_event_def group_of_def ex_invest_def ex_bpt_def ex_pool_def
      token_addr_to_index_def enumerate_eq_zip io_bind_def io_logged_def Let_def
      get_token_price_at_timestamp_zero_if_error_def ex_price_world_def ex_world_def)

lemma ex_aggregate_priced:
  "aggregate_bpt_event 1 (ex_price_world 1) 1000 MINT [ex_invest ''0xA'' 2 60, ex_invest ''0xB'' 3 40]
     Map.empty ex_bpt =
   Some ([],
     Inr ([ex_pool \<mapsto> [''0xA'' \<mapsto> 0, ''0xB'' \<mapsto> 1]],
       \<lparr>tx_hash = ''t1'', log_index = 1, address = ''0xU'', timestamp = 100, event_type = MINT,
        pool_address_token = ex_pool, lp_balance = \<lparr>amount = 100, usd_value = 100\<rparr>,
        amounts = [60, 40]\<rparr>))"
  by (simp add: aggregate_bpt_event_def group_of_def ex_invest_def ex_bpt_def ex_pool_def
      token_addr_to_index_def enumerate_eq_zip io_bind_def io_logged_def Let_def
      get_token_price_at_timestamp_zero_if_error_def ex_price_world_def ex_world_def)

text \<open>
  A MINT of 100 with investment events of 60 and 40: with prices 1 and 1 the value is 100; with
  the price of the second one missing the value is 0, although 60 was already accumulated.
\<close>

theorem aggregate_bpt_event_usd_value_witness:
  "aggregate_bpt_event 1 (ex_price_world 0) 1000 MINT [ex_invest ''0xA'' 2 60, ex_invest ''0xB'' 3 40]
     Map.empty ex_bpt =
   Some ([AddError (HistoricalPriceMissingMsg ''0xB'' 100)],
     Inr ([ex_pool \<mapsto> [''0xA'' \<mapsto> 0, ''0xB'' \<mapsto> 1]],
       \<lparr>tx_hash = ''t1'', log_index = 1, address = ''0xU'', timestamp = 100, event_type = MINT,
        pool_address_token = ex_pool, lp_balance = \<lparr>amount = 100, usd_value = 0\<rparr>,
        amounts = [60, 40]\<rparr>))
   \<and> (0::FVal) =
       (if \<exists>e \<in> set (group_of [ex_invest ''0xA'' 2 60, ex_invest ''0xB'' 3 40] ex_bpt).
             lookup_price 1 (ex_price_world 0) 1000 e = Some 0 then 0
        else sum_list (map (priced_amount 1 (ex_price_world 0) 1000)
               (group_of [ex_invest ''0xA'' 2 60, ex_invest ''0xB'' 3 40] ex_bpt)))
   \<and> (100::FVal) =
       (if \<exists>e \<in> set (group_of [ex_invest ''0xA'' 2 60, ex_invest ''0xB'' 3 40] ex_bpt).
             lookup_price 1 (ex_price_world 1) 1000 e = Some 0 then 0
        else sum_list (map (priced_amount 1 (ex_price_world 1) 1000)
               (group_of [ex_invest ''0xA'' 2 60, ex_invest ''0xB'' 3 40] ex_bpt)))"
  using aggregate_bpt_event_usd_value [OF ex_aggregate_poisoned]
    aggregate_bpt_event_usd_value [OF ex_aggregate_priced] ex_aggregate_poisoned
  by simp

subsection \<open>Aggregation: one event for each pool-token event\<close>

lemma foldl_index_keep:
  "a \<notin> set ts \<Longrightarrow> foldl (\<lambda>m (idx, a). m(a \<mapsto> idx)) m (enumerate k ts) a = m a"
  by (induction ts arbitrary: m k) auto

lemma foldl_index:
  "a \<in> set ts \<Longrightarrow>
   \<exists>i. n \<le> i \<and> i < n + length ts \<and> foldl (\<lambda>m (idx, a). m(a \<mapsto> idx)) m (enumerate n ts) a = Some i"
proof (induction ts arbitrary: n m)
  case Nil
  then show ?case by simp
next
  case (Cons t ts)
  let ?F = "\<lambda>m (idx, a). m(a \<mapsto> idx)"
  have step: "foldl ?F m (enumerate n (t # ts)) a = foldl ?F (m(t \<mapsto> n)) (enumerate (Suc n) ts) a"
    by simp
  show ?case
  proof (cases "a \<in> set ts")
    case True
    from Cons.IH [OF True, of "Suc n" "m(t \<mapsto> n)"] obtain i where
      "Suc n \<le> i" "i < Suc n + length ts" "foldl ?F (m(t \<mapsto> n)) (enumerate (Suc n) ts) a = Some i"
      by blast
    then have "n \<le> i \<and> i < n + length (t # ts) \<and> foldl ?F m (enumerate n (t # ts)) a = Some i"
      using step by simp
    then show ?thesis by blast
  next
    case False
    with Cons.prems have at: "a = t" by simp
    have "foldl ?F (m(t \<mapsto> n)) (enumerate (Suc n) ts) a = (m(t \<mapsto> n)) a"
      using False by (rule foldl_index_keep)
    then have "foldl ?F m (enumerate n (t # ts)) a = Some n"
      using step at by simp
    then have "n \<le> n \<and> n < n + length (t # ts) \<and> foldl ?F m (enumerate n (t # ts)) a = Some n"
      by simp
    then show ?thesis by blast
  qed
qed

lemma token_addr_to_index_in:
  "a \<in> set ts \<Longrightarrow> \<exists>i < length ts. token_addr_to_index ts a = Some i"
  using foldl_index [of a ts 0 Map.empty] by (auto simp add: token_addr_to_index_def)

lemma aggregate_invest_events_total:
  assumes "\<forall>e \<in> set es. (\<exists>i < length amts. idx (token_address e) = Some i) \<and> lookup_price fuel w L e \<noteq> None"
  shows "\<exists>l amts' usd' flag'.
     aggregate_invest_events fuel w L idx es (amts, usd, flag) = Some (l, Inr (amts', usd', flag'))"
  using assms
proof (induction es arbitrary: amts usd flag)
  case Nil
  show ?case by simp
next
  case (Cons e es)
  from Cons.prems obtain i where i: "i < length amts" "idx (token_address e) = Some i"
    by auto
  from Cons.prems obtain l1 p where
    price: "get_token_price_at_timestamp_zero_if_error fuel w L (token_address e) (inv_timestamp e)
      = Some (l1, Inr p)"
    by (auto simp add: lookup_price_def split: option.splits sum.splits prod.splits)
  let ?amts = "amts[i := amts ! i + inv_amount e]"
  have rest: "\<forall>e \<in> set es. (\<exists>i < length ?amts. idx (token_address e) = Some i)
      \<and> lookup_price fuel w L e \<noteq> None"
    using Cons.prems by simp
  from Cons.IH [OF rest] obtain la where
    a: "\<And>usd flag. \<exists>l amts' usd' flag'.
      aggregate_invest_events fuel w L idx es (?amts, usd, flag) = Some (l, Inr (amts', usd', flag'))"
    by blast
  show ?case
  proof (cases flag)
    case True
    then show ?thesis using i a [of usd True] by (simp add: Let_def)
  next
    case False
    show ?thesis
    proof (cases "p = 0")
      case True
      from a [of "usd + p * inv_amount e" True] show ?thesis
        using i price False True by (auto simp add: Let_def io_bind_def io_logged_def)
    next
      case pnz: False
      from a [of "usd + p * inv_amount e" False] show ?thesis
        using i price False pnz by (auto simp add: Let_def io_bind_def)
    qed
  qed
qed

lemma aggregate_bpt_event_unpaired:
  "\<not> paired invs b \<Longrightarrow> aggregate_bpt_event fuel w L etype invs pool_index b = Some ([], Inl RemoteError)"
  by (simp add: paired_def aggregate_bpt_event_def)

lemma aggregate_bpt_event_result:
  assumes "aggregate_bpt_event fuel w L etype invs pool_index b = Some (l, Inr (pool_index', ev))"
  shows "paired invs b \<and> balancer_event_id ev = bpt_event_id etype b
    \<and> (index_ok pool_index \<longrightarrow> index_ok pool_index')"
proof -
  from assms have p: "paired invs b"
    by (auto simp add: paired_def aggregate_bpt_event_def)
  from assms have "balancer_event_id ev = bpt_event_id etype b"
    and "pool_index' = pool_index(bpt_pool_address_token b \<mapsto>
        (case pool_index (bpt_pool_address_token b) of
           None \<Rightarrow> token_addr_to_index (underlying_tokens (bpt_pool_address_token b))
         | Some m \<Rightarrow> m))"
    by (auto simp add: aggregate_bpt_event_def Let_def balancer_event_id_def bpt_event_id_def
        split: list.splits dest!: io_bind_SomeD)
  then show ?thesis using p
    by (auto simp add: index_ok_def split: option.splits)
qed

lemma aggregate_bpt_event_total:
  assumes ok: "index_ok pool_index" and p: "paired invs b" and pr: "priced fuel w L invs b"
  shows "\<exists>l pool_index' ev.
     aggregate_bpt_event fuel w L etype invs pool_index b = Some (l, Inr (pool_index', ev))"
proof -
  let ?pool = "bpt_pool_address_token b"
  let ?idx = "case pool_index ?pool of None \<Rightarrow> token_addr_to_index (underlying_tokens ?pool) | Some m \<Rightarrow> m"
  have idx: "?idx = token_addr_to_index (underlying_tokens ?pool)"
    using ok by (auto simp add: index_ok_def split: option.splits)
  from p obtain e es where G: "group_of invs b = e # es"
    by (auto simp add: paired_def neq_Nil_conv)
  have "\<forall>e \<in> set (group_of invs b).
      (\<exists>i < length (replicate (length (underlying_tokens ?pool)) (0::FVal)). ?idx (token_address e) = Some i)
      \<and> lookup_price fuel w L e \<noteq> None"
    using pr token_addr_to_index_in unfolding idx priced_def by auto
  from aggregate_invest_events_total [OF this, where usd = 0 and flag = False] obtain l amts usd flag where
    "aggregate_invest_events fuel w L ?idx (group_of invs b)
       (replicate (length (underlying_tokens ?pool)) 0, 0, False) = Some (l, Inr (amts, usd, flag))"
    by blast
  then show ?thesis
    using G by (simp add: aggregate_bpt_event_def Let_def io_bind_def)
qed

lemma aggregate_bpt_events_result:
  "aggregate_bpt_events fuel w L etype invs bs (pool_index, evs) = Some (l, Inr (pool_index', evs')) \<Longrightarrow>
   (\<forall>b \<in> set bs. paired invs b)
   \<and> map balancer_event_id evs' = map balancer_event_id evs @ map (bpt_event_id etype) bs
   \<and> (index_ok pool_index \<longrightarrow> index_ok pool_index')"
proof (induction bs arbitrary: pool_index evs l)
  case Nil
  then show ?case by simp
next
  case (Cons b bs)
  from Cons.prems obtain l1 pi1 ev l2 where
    one: "aggregate_bpt_event fuel w L etype invs pool_index b = Some (l1, Inr (pi1, ev))"
    and rest: "aggregate_bpt_events fuel w L etype invs bs (pi1, evs @ [ev]) = Some (l2, Inr (pool_index', evs'))"
    by (auto dest!: io_bind_SomeD)
  from aggregate_bpt_event_result [OF one] Cons.IH [OF rest] show ?case
    by auto
qed

lemma aggregate_bpt_events_total:
  "index_ok pool_index \<Longrightarrow> \<forall>b \<in> set bs. paired invs b \<and> priced fuel w L invs b \<Longrightarrow>
   \<exists>l pool_index' evs'.
     aggregate_bpt_events fuel w L etype invs bs (pool_index, evs) = Some (l, Inr (pool_index', evs'))"
proof (induction bs arbitrary: pool_index evs)
  case Nil
  show ?case by simp
next
  case (Cons b bs)
  from Cons.prems have "paired invs b" "priced fuel w L invs b" by simp_all
  from aggregate_bpt_event_total [OF Cons.prems(1) this, where etype = etype] obtain l1 pi1 ev where
    one: "aggregate_bpt_event fuel w L etype invs pool_index b = Some (l1, Inr (pi1, ev))"
    by blast
  from aggregate_bpt_event_result [OF one] Cons.prems(1) have ok1: "index_ok pi1" by simp
  from Cons.prems(2) have "\<forall>b \<in> set bs. paired invs b \<and> priced fuel w L invs b" by simp
  from Cons.IH [OF ok1 this, where evs = "evs @ [ev]"] show ?case
    using one by (auto simp add: io_bind_def)
qed

lemma by_event_type_result:
  "get_balancer_aggregated_events_data_by_event_type fuel w L ds etype (pool_index, evs)
     = Some (l, Inr (pool_index', evs')) \<Longrightarrow>
   (\<forall>d \<in> set ds. paired_data etype d)
   \<and> map balancer_event_id evs' =
       map balancer_event_id evs @ map (bpt_event_id etype) (concat (map (attr_bpt_events etype) ds))
   \<and> (index_ok pool_index \<longrightarrow> index_ok pool_index')"
proof (induction ds arbitrary: pool_index evs l)
  case Nil
  then show ?case by simp
next
  case (Cons d ds)
  from Cons.prems obtain l1 pi1 evs1 l2 where
    one: "aggregate_bpt_events fuel w L etype (attr_invest_events etype d) (attr_bpt_events etype d)
            (pool_index, evs) = Some (l1, Inr (pi1, evs1))"
    and rest: "get_balancer_aggregated_events_data_by_event_type fuel w L ds etype (pi1, evs1)
            = Some (l2, Inr (pool_index', evs'))"
    by (auto dest!: io_bind_SomeD)
  from aggregate_bpt_events_result [OF one] Cons.IH [OF rest] show ?case
    by (auto simp add: paired_data_def)
qed

lemma by_event_type_total:
  "index_ok pool_index \<Longrightarrow> \<forall>d \<in> set ds. paired_data etype d \<and> priced_data fuel w L etype d \<Longrightarrow>
   \<exists>l pool_index' evs'.
     get_balancer_aggregated_events_data_by_event_type fuel w L ds etype (pool_index, evs)
       = Some (l, Inr (pool_index', evs'))"
proof (induction ds arbitrary: pool_index evs)
  case Nil
  show ?case by simp
next
  case (Cons d ds)
  from Cons.prems(2) have
    "\<forall>b \<in> set (attr_bpt_events etype d).
       paired (attr_invest_events etype d) b \<and> priced fuel w L (attr_invest_events etype d) b"
    by (simp add: paired_data_def priced_data_def)
  from aggregate_bpt_events_total [OF Cons.prems(1) this, where evs = evs and etype = etype] obtain l1 pi1 evs1 where
    one: "aggregate_bpt_events fuel w L etype (attr_invest_events etype d) (attr_bpt_events etype d)
            (pool_index, evs) = Some (l1, Inr (pi1, evs1))"
    by blast
  from aggregate_bpt_events_result [OF one] Cons.prems(1) have ok1: "index_ok pi1" by simp
  from Cons.prems(2) have "\<forall>d \<in> set ds. paired_data etype d \<and> priced_data fuel w L etype d" by simp
  from Cons.IH [OF ok1 this, where evs = evs1] show ?case
    using one by (auto simp add: io_bind_def)
qed

lemma index_ok_update:
  "index_ok m \<Longrightarrow> index_ok (m(p \<mapsto> token_addr_to_index (underlying_tokens p)))"
  unfolding index_ok_def by (metis fun_upd_apply option.inject)

lemma index_ok_foldl:
  "index_ok m \<Longrightarrow>
   index_ok (foldl (\<lambda>m db_pool. m(db_pool \<mapsto> token_addr_to_index (underlying_tokens db_pool))) m pools)"
proof (induction pools arbitrary: m)
  case Nil
  then show ?case by simp
next
  case (Cons p pools)
  from Cons.prems have "index_ok (m(p \<mapsto> token_addr_to_index (underlying_tokens p)))"
    by (rule index_ok_update)
  from Cons.IH [OF this] show ?case by simp
qed

lemma index_ok_initial: "index_ok (initial_pool_index pools)"
proof -
  have "index_ok Map.empty" by (simp add: index_ok_def)
  then show ?thesis
    unfolding initial_pool_index_def by (rule index_ok_foldl)
qed

lemma aggregation_result:
  assumes "get_balancer_aggregated_events_data fuel w L a2ed = Some (l, Inr evs)"
  shows "all_paired a2ed
    \<and> map balancer_event_id evs =
        map (bpt_event_id MINT) (all_bpt_events MINT a2ed) @ map (bpt_event_id BURN) (all_bpt_events BURN a2ed)"
proof -
  from assms obtain l1 pi1 evs1 l2 pi2 where
    m: "get_balancer_aggregated_events_data_by_event_type fuel w L (map snd a2ed) MINT
          (initial_pool_index (db_pools w), []) = Some (l1, Inr (pi1, evs1))"
    and b: "get_balancer_aggregated_events_data_by_event_type fuel w L (map snd a2ed) BURN
          (pi1, evs1) = Some (l2, Inr (pi2, evs))"
    by (auto simp add: get_balancer_aggregated_events_data_def dest!: io_bind_SomeD)
  have c: "all_bpt_events t a2ed = concat (map (attr_bpt_events t) (map snd a2ed))" for t
    by (simp add: all_bpt_events_def case_prod_unfold comp_def)
  from by_event_type_result [OF m] have
    m1: "\<forall>d \<in> set (map snd a2ed). paired_data MINT d"
    and m2: "map balancer_event_id evs1 = map (bpt_event_id MINT) (all_bpt_events MINT a2ed)"
    unfolding c by simp_all
  from by_event_type_result [OF b] have
    b1: "\<forall>d \<in> set (map snd a2ed). paired_data BURN d"
    and b2: "map balancer_event_id evs =
      map balancer_event_id evs1 @ map (bpt_event_id BURN) (all_bpt_events BURN a2ed)"
    unfolding c by simp_all
  from m1 b1 have "all_paired a2ed"
    by (auto simp add: all_paired_def)
  then show ?thesis using m2 b2 by simp
qed

lemma aggregation_total:
  assumes "all_paired a2ed" and "all_priced fuel w L a2ed"
  shows "\<exists>l evs. get_balancer_aggregated_events_data fuel w L a2ed = Some (l, Inr evs)"
proof -
  have pm: "\<forall>d \<in> set (map snd a2ed). paired_data MINT d \<and> priced_data fuel w L MINT d"
    and pb: "\<forall>d \<in> set (map snd a2ed). paired_data BURN d \<and> priced_data fuel w L BURN d"
    using assms by (auto simp add: all_paired_def all_priced_def)
  from by_event_type_total [OF index_ok_initial pm, where evs = "[]"] obtain l1 pi1 evs1 where
    m: "get_balancer_aggregated_events_data_by_event_type fuel w L (map snd a2ed) MINT
          (initial_pool_index (db_pools w), []) = Some (l1, Inr (pi1, evs1))"
    by blast
  from by_event_type_result [OF m] index_ok_initial have "index_ok pi1" by simp
  from by_event_type_total [OF this pb, where evs = evs1] obtain l2 pi2 evs2 where
    "get_balancer_aggregated_events_data_by_event_type fuel w L (map snd a2ed) BURN
          (pi1, evs1) = Some (l2, Inr (pi2, evs2))"
    by blast
  with m show ?thesis
    by (simp add: get_balancer_aggregated_events_data_def io_bind_def)
qed

text \<open>
  C4 (as the code has it). When every pool-token event has an investment event of its
  transaction and pool, every such investment event is of an underlying token of the pool,
  and the lookup of its price returns, the aggregation returns exactly one event for each
  pool-token event, the MINT events first. When a pool-token event has no investment event,
  the aggregation returns no events, and the aggregation of that event raises
  \<^verbatim>\<open>RemoteError\<close>.
\<close>

theorem aggregation_pairing:
  "(all_paired a2ed \<and> all_priced fuel w L a2ed \<longrightarrow>
      (\<exists>l evs. get_balancer_aggregated_events_data fuel w L a2ed = Some (l, Inr evs)
         \<and> map balancer_event_id evs =
             map (bpt_event_id MINT) (all_bpt_events MINT a2ed)
             @ map (bpt_event_id BURN) (all_bpt_events BURN a2ed)))
   \<and> (\<not> all_paired a2ed \<longrightarrow>
        (\<forall>l evs. get_balancer_aggregated_events_data fuel w L a2ed \<noteq> Some (l, Inr evs)))
   \<and> (\<not> paired invs b \<longrightarrow>
        aggregate_bpt_event fuel w L etype invs pool_index b = Some ([], Inl RemoteError))"
  using aggregation_total [of a2ed fuel w L] aggregation_result [of fuel w L a2ed]
    aggregate_bpt_event_unpaired [of invs b fuel w L etype pool_index]
  by blast

lemma ex_paired:
  "all_paired (ex_events_data [ex_invest ''0xA'' 2 60, ex_invest ''0xB'' 3 40])
   \<and> all_priced 1 (ex_price_world 1) 1000 (ex_events_data [ex_invest ''0xA'' 2 60, ex_invest ''0xB'' 3 40])"
  by (auto simp add: all_paired_def all_priced_def paired_data_def priced_data_def paired_def priced_def
      attr_bpt_events_def attr_invest_events_def group_of_def ex_events_data_def ex_invest_def
      ex_bpt_def ex_pool_def lookup_price_def get_token_price_at_timestamp_zero_if_error_def
      ex_price_world_def ex_world_def)

lemma ex_unpaired:
  "\<not> all_paired (ex_events_data []) \<and> \<not> paired [] ex_bpt"
  by (simp add: all_paired_def paired_data_def paired_def
      attr_bpt_events_def attr_invest_events_def group_of_def ex_events_data_def)

theorem aggregation_pairing_witness:
  "(all_paired (ex_events_data [ex_invest ''0xA'' 2 60, ex_invest ''0xB'' 3 40])
    \<and> all_priced 1 (ex_price_world 1) 1000 (ex_events_data [ex_invest ''0xA'' 2 60, ex_invest ''0xB'' 3 40])
    \<and> (\<exists>l evs. get_balancer_aggregated_events_data 1 (ex_price_world 1) 1000
                   (ex_events_data [ex_invest ''0xA'' 2 60, ex_invest ''0xB'' 3 40]) = Some (l, Inr evs)
          \<and> map balancer_event_id evs = [bpt_event_id MINT ex_bpt]))
   \<and> (\<not> all_paired (ex_events_data [])
      \<and> (\<forall>l evs. get_balancer_aggregated_events_data 1 (ex_price_world 1) 1000 (ex_events_data [])
            \<noteq> Some (l, Inr evs)))
   \<and> (\<not> paired [] ex_bpt
      \<and> aggregate_bpt_event 1 (ex_price_world 1) 1000 MINT [] Map.empty ex_bpt = Some ([], Inl RemoteError))"
proof -
  have a: "map (bpt_event_id MINT)
       (all_bpt_events MINT (ex_events_data [ex_invest ''0xA'' 2 60, ex_invest ''0xB'' 3 40]))
     @ map (bpt_event_id BURN)
       (all_bpt_events BURN (ex_events_data [ex_invest ''0xA'' 2 60, ex_invest ''0xB'' 3 40]))
     = [bpt_event_id MINT ex_bpt]"
    by (simp add: all_bpt_events_def ex_events_data_def attr_bpt_events_def)
  show ?thesis
    using ex_paired ex_unpaired a
      aggregation_pairing [of "ex_events_data [ex_invest ''0xA'' 2 60, ex_invest ''0xB'' 3 40]"
        1 "ex_price_world 1" 1000 "[]" ex_bpt MINT Map.empty]
      aggregation_pairing [of "ex_events_data []" 1 "ex_price_world 1" 1000 "[]" ex_bpt MINT Map.empty]
    by simp
qed

text \<open>
  C4 (as it is written) fails: the pool-token event has an investment event of its address,
  transaction and pool, whose token is not an underlying token of the pool, and the lookup
  \<^verbatim>\<open>tokenaddr_to_index[invest_event.token_address]\<close> raises \<^verbatim>\<open>KeyError\<close>.
\<close>

theorem aggregation_pairing_counterexample:
  "all_paired (ex_events_data [ex_invest ''0xC'' 2 60])
   \<and> get_balancer_aggregated_events_data 1 (ex_price_world 1) 1000 (ex_events_data [ex_invest ''0xC'' 2 60])
     = Some ([], Inl KeyError)"
  by (simp add: all_paired_def paired_data_def paired_def
      attr_bpt_events_def attr_invest_events_def group_of_def ex_events_data_def ex_invest_def
      ex_bpt_def ex_pool_def get_balancer_aggregated_events_data_def io_bind_def
      aggregate_bpt_event_def initial_pool_index_def ex_price_world_def ex_world_def
      token_addr_to_index_def enumerate_eq_zip Let_def)

subsection \<open>Pool-token events without investment events\<close>

lemma aggregate_bpt_events_priced:
  "index_ok pool_index \<Longrightarrow> \<forall>b \<in> set bs. priced fuel w L invs b \<Longrightarrow>
   (\<exists>l. aggregate_bpt_events fuel w L etype invs bs (pool_index, evs) = Some (l, Inl RemoteError))
   \<or> (\<exists>l pool_index' evs'.
         aggregate_bpt_events fuel w L etype invs bs (pool_index, evs) = Some (l, Inr (pool_index', evs')))"
proof (induction bs arbitrary: pool_index evs)
  case Nil
  show ?case by simp
next
  case (Cons b bs)
  show ?case
  proof (cases "paired invs b")
    case False
    then show ?thesis
      by (simp add: aggregate_bpt_event_unpaired io_bind_def)
  next
    case True
    from Cons.prems have "priced fuel w L invs b" by simp
    from aggregate_bpt_event_total [OF Cons.prems(1) True this, where etype = etype] obtain l1 pi1 ev where
      one: "aggregate_bpt_event fuel w L etype invs pool_index b = Some (l1, Inr (pi1, ev))"
      by blast
    from aggregate_bpt_event_result [OF one] Cons.prems(1) have ok1: "index_ok pi1" by simp
    from Cons.prems(2) have "\<forall>b \<in> set bs. priced fuel w L invs b" by simp
    from Cons.IH [OF ok1 this, where evs = "evs @ [ev]"] show ?thesis
      using one by (auto simp add: io_bind_def)
  qed
qed

lemma by_event_type_priced:
  "index_ok pool_index \<Longrightarrow> \<forall>d \<in> set ds. priced_data fuel w L etype d \<Longrightarrow>
   (\<exists>l. get_balancer_aggregated_events_data_by_event_type fuel w L ds etype (pool_index, evs)
          = Some (l, Inl RemoteError))
   \<or> (\<exists>l pool_index' evs'.
         get_balancer_aggregated_events_data_by_event_type fuel w L ds etype (pool_index, evs)
           = Some (l, Inr (pool_index', evs')))"
proof (induction ds arbitrary: pool_index evs)
  case Nil
  show ?case by simp
next
  case (Cons d ds)
  from Cons.prems(2) have pr:
    "\<forall>b \<in> set (attr_bpt_events etype d). priced fuel w L (attr_invest_events etype d) b"
    by (simp add: priced_data_def)
  from aggregate_bpt_events_priced [OF Cons.prems(1) pr, where evs = evs and etype = etype]
  show ?case
  proof
    assume "\<exists>l. aggregate_bpt_events fuel w L etype (attr_invest_events etype d)
        (attr_bpt_events etype d) (pool_index, evs) = Some (l, Inl RemoteError)"
    then show ?thesis by (auto simp add: io_bind_def)
  next
    assume "\<exists>l pool_index' evs'. aggregate_bpt_events fuel w L etype (attr_invest_events etype d)
        (attr_bpt_events etype d) (pool_index, evs) = Some (l, Inr (pool_index', evs'))"
    then obtain l1 pi1 evs1 where
      one: "aggregate_bpt_events fuel w L etype (attr_invest_events etype d) (attr_bpt_events etype d)
            (pool_index, evs) = Some (l1, Inr (pi1, evs1))"
      by blast
    from aggregate_bpt_events_result [OF one] Cons.prems(1) have ok1: "index_ok pi1" by simp
    from Cons.prems(2) have "\<forall>d \<in> set ds. priced_data fuel w L etype d" by simp
    from Cons.IH [OF ok1 this, where evs = evs1] show ?thesis
      using one by (auto simp add: io_bind_def)
  qed
qed

lemma aggregation_priced:
  assumes "all_priced fuel w L a2ed"
  shows "(\<exists>l. get_balancer_aggregated_events_data fuel w L a2ed = Some (l, Inl RemoteError))
    \<or> (\<exists>l evs. get_balancer_aggregated_events_data fuel w L a2ed = Some (l, Inr evs))"
proof -
  have pm: "\<forall>d \<in> set (map snd a2ed). priced_data fuel w L MINT d"
    and pb: "\<forall>d \<in> set (map snd a2ed). priced_data fuel w L BURN d"
    using assms by (auto simp add: all_priced_def)
  from by_event_type_priced [OF index_ok_initial pm, where evs = "[]"]
  show ?thesis
  proof
    assume "\<exists>l. get_balancer_aggregated_events_data_by_event_type fuel w L (map snd a2ed) MINT
        (initial_pool_index (db_pools w), []) = Some (l, Inl RemoteError)"
    then show ?thesis
      by (auto simp add: get_balancer_aggregated_events_data_def io_bind_def)
  next
    assume "\<exists>l pool_index' evs'.
        get_balancer_aggregated_events_data_by_event_type fuel w L (map snd a2ed) MINT
          (initial_pool_index (db_pools w), []) = Some (l, Inr (pool_index', evs'))"
    then obtain l1 pi1 evs1 where
      m: "get_balancer_aggregated_events_data_by_event_type fuel w L (map snd a2ed) MINT
          (initial_pool_index (db_pools w), []) = Some (l1, Inr (pi1, evs1))"
      by blast
    from by_event_type_result [OF m] index_ok_initial have "index_ok pi1" by simp
    from by_event_type_priced [OF this pb, where evs = evs1] show ?thesis
      using m by (auto simp add: get_balancer_aggregated_events_data_def io_bind_def)
  qed
qed

lemma aggregation_unpaired:
  assumes "\<not> all_paired a2ed" and "all_priced fuel w L a2ed"
  shows "\<exists>l. get_balancer_aggregated_events_data fuel w L a2ed = Some (l, Inl RemoteError)"
  using aggregation_priced [OF assms(2)] aggregation_result [of fuel w L a2ed] assms(1)
  by blast

lemma all_paired_Nil: "all_paired []"
  by (simp add: all_paired_def)

lemma ex_fetch_orphan_invest:
  "fetch_events_data 2 (ex_graph_world []) ex_constants [''0xU''] 200 ex_empty_db =
     Some (\<lparr>used_query_ranges = [''balancer_events_0xU'' \<mapsto> (0, 200)], balancer_events_table = []\<rparr>,
       [InvestQuery ADD_LIQUIDITY (invest_initial_params 1000 [''0xU''] 0 200),
        BptQuery MINT (bpt_initial_params 1000 [''0xU''] [''t1'']),
        InvestQuery REMOVE_LIQUIDITY (invest_initial_params 1000 [''0xU''] 0 200),
        BptQuery BURN (bpt_initial_params 1000 [''0xU''] [])],
       Inr (ex_events_data_of [ex_invest ''0xA'' 2 60] []))"
  by (simp add: fetch_events_data_def get_used_query_range_def ex_empty_db_def ex_constants_def
      get_address_to_events_data_def db_bind_def db_lift_def db_write_def user_write_def
      get_address_to_invest_events_graph_def get_address_to_bpt_events_graph_def
      io_bind_def io_logged_def ex_graph_world_def ex_world_def raw_transaction_def
      mint_or_burn_type_def sorted_by_address_def build_events_data_def addresses_with_events_def
      dict_get_def dict_update_def update_used_query_range_all_def update_used_query_range_def
      entry_name_def numeral_2_eq_2 ex_invest_def ex_events_data_of_def)

lemma ex_fetch_orphan_mint:
  "fetch_events_data 2 (ex_graph_world [ex_bpt\<lparr>bpt_pool_address_token := ex_other_pool\<rparr>])
     ex_constants [''0xU''] 200 ex_empty_db =
     Some (\<lparr>used_query_ranges = [''balancer_events_0xU'' \<mapsto> (0, 200)], balancer_events_table = []\<rparr>,
       [InvestQuery ADD_LIQUIDITY (invest_initial_params 1000 [''0xU''] 0 200),
        BptQuery MINT (bpt_initial_params 1000 [''0xU''] [''t1'']),
        InvestQuery REMOVE_LIQUIDITY (invest_initial_params 1000 [''0xU''] 0 200),
        BptQuery BURN (bpt_initial_params 1000 [''0xU''] [])],
       Inr (ex_events_data_of [ex_invest ''0xA'' 2 60] [ex_bpt\<lparr>bpt_pool_address_token := ex_other_pool\<rparr>]))"
  by (simp add: fetch_events_data_def get_used_query_range_def ex_empty_db_def ex_constants_def
      get_address_to_events_data_def db_bind_def db_lift_def db_write_def user_write_def
      get_address_to_invest_events_graph_def get_address_to_bpt_events_graph_def
      io_bind_def io_logged_def ex_graph_world_def ex_world_def raw_transaction_def
      mint_or_burn_type_def sorted_by_address_def build_events_data_def addresses_with_events_def
      dict_get_def dict_update_def update_used_query_range_all_def update_used_query_range_def
      entry_name_def numeral_2_eq_2 ex_invest_def ex_events_data_of_def ex_bpt_def)

lemma ex_orphan_mint_data:
  "\<not> all_paired (ex_events_data_of [ex_invest ''0xA'' 2 60] [ex_bpt\<lparr>bpt_pool_address_token := ex_other_pool\<rparr>])
   \<and> all_priced 2 (ex_graph_world [ex_bpt\<lparr>bpt_pool_address_token := ex_other_pool\<rparr>])
        (GRAPH_QUERY_LIMIT ex_constants)
        (ex_events_data_of [ex_invest ''0xA'' 2 60] [ex_bpt\<lparr>bpt_pool_address_token := ex_other_pool\<rparr>])"
  by (simp add: all_paired_def all_priced_def paired_data_def priced_data_def paired_def priced_def
      attr_bpt_events_def attr_invest_events_def group_of_def ex_events_data_of_def ex_invest_def
      ex_bpt_def ex_pool_def ex_other_pool_def)

(*C3_HERE*)

text \<open>
  C3 (as it is written) fails: the fetched data has an ADD_LIQUIDITY event and no MINT event
  at all, and the synchronization returns, with no event stored and the range of the address
  recorded up to \<^verbatim>\<open>to_timestamp\<close>.
\<close>

theorem synchronization_orphan_invest_event_counterexample:
  "fetch_events_data 2 (ex_graph_world []) ex_constants [''0xU''] 200 ex_empty_db =
     Some (\<lparr>used_query_ranges = [''balancer_events_0xU'' \<mapsto> (0, 200)], balancer_events_table = []\<rparr>,
       [InvestQuery ADD_LIQUIDITY (invest_initial_params 1000 [''0xU''] 0 200),
        BptQuery MINT (bpt_initial_params 1000 [''0xU''] [''t1'']),
        InvestQuery REMOVE_LIQUIDITY (invest_initial_params 1000 [''0xU''] 0 200),
        BptQuery BURN (bpt_initial_params 1000 [''0xU''] [])],
       Inr (ex_events_data_of [ex_invest ''0xA'' 2 60] []))
   \<and> get_address_to_pool_events_balances 2 (ex_graph_world []) ex_constants [''0xU''] 0 200 ex_empty_db =
     Some (\<lparr>used_query_ranges = [''balancer_events_0xU'' \<mapsto> (0, 200)], balancer_events_table = []\<rparr>,
       [InvestQuery ADD_LIQUIDITY (invest_initial_params 1000 [''0xU''] 0 200),
        BptQuery MINT (bpt_initial_params 1000 [''0xU''] [''t1'']),
        InvestQuery REMOVE_LIQUIDITY (invest_initial_params 1000 [''0xU''] 0 200),
        BptQuery BURN (bpt_initial_params 1000 [''0xU''] [])],
       Inr [])"
proof -
  have "store_events 2 (ex_graph_world []) ex_constants (ex_events_data_of [ex_invest ''0xA'' 2 60] [])
      \<lparr>used_query_ranges = [''balancer_events_0xU'' \<mapsto> (0, 200)], balancer_events_table = []\<rparr>
    = Some (\<lparr>used_query_ranges = [''balancer_events_0xU'' \<mapsto> (0, 200)], balancer_events_table = []\<rparr>,
        [], Inr ())"
    by (simp add: store_events_def ex_events_data_of_def get_balancer_aggregated_events_data_def
        attr_bpt_events_def io_bind_def db_bind_def db_lift_def db_write_def user_write_def
        add_balancer_events_def)
  then show ?thesis
    using ex_fetch_orphan_invest
    by (simp add: get_address_to_pool_events_balances_def db_bind_def
        pool_events_balances_of_db_def get_balancer_events_def)
qed

subsection \<open>The write transactions of a synchronization\<close>

lemma db_lift_SomeD: "db_lift m db = Some (db', l, r) \<Longrightarrow> db' = db \<and> m = Some (l, r)"
  by (auto simp add: db_lift_def split: option.splits prod.splits)

lemma get_address_to_events_data_db:
  assumes "get_address_to_events_data fuel w c addresses from_ts to_ts db = Some (db1, l1, r1)"
  shows "db1 = (case r1 of Inl e \<Rightarrow> db
                | Inr d \<Rightarrow> update_used_query_range_all addresses ''balancer_events'' from_ts to_ts db)"
  using assms
  by (auto simp add: get_address_to_events_data_def db_write_def user_write_def
      dest!: db_bind_SomeD db_lift_SomeD split: sum.splits)

lemma store_events_db:
  assumes "store_events fuel w c a2ed db = Some (db2, l2, r2)"
  shows "(case r2 of
            Inl e \<Rightarrow> db2 = db
          | Inr u \<Rightarrow>
              if a2ed = [] then db2 = db
              else \<exists>l evs. get_balancer_aggregated_events_data fuel w (GRAPH_QUERY_LIMIT c) a2ed
                             = Some (l, Inr evs)
                     \<and> db2 = add_balancer_events evs db)"
  using assms
  by (auto simp add: store_events_def db_write_def user_write_def
      dest!: db_bind_SomeD db_lift_SomeD split: sum.splits if_splits)

text \<open>
  C1 (as the code has it). The update of the used query ranges of a batch is committed by
  \<^verbatim>\<open>_get_address_to_events_data\<close> in a write transaction of its own, once both fetches
  have returned: when the fetch raises, nothing is written. The events are inserted in a
  second write transaction, once the aggregation has returned: when the aggregation raises,
  no event is inserted, and the ranges stay as the first transaction left them.
\<close>

theorem separate_write_transactions:
  "(get_address_to_events_data fuel w c addresses from_ts to_ts db = Some (db1, l1, r1) \<longrightarrow>
      db1 = (case r1 of Inl e \<Rightarrow> db
             | Inr d \<Rightarrow> update_used_query_range_all addresses ''balancer_events'' from_ts to_ts db))
   \<and> (store_events fuel w c a2ed db = Some (db2, l2, r2) \<longrightarrow>
      (case r2 of
         Inl e \<Rightarrow> db2 = db
       | Inr u \<Rightarrow>
           if a2ed = [] then db2 = db
           else \<exists>l evs. get_balancer_aggregated_events_data fuel w (GRAPH_QUERY_LIMIT c) a2ed
                          = Some (l, Inr evs)
                  \<and> db2 = add_balancer_events evs db))"
  using get_address_to_events_data_db [of fuel w c addresses from_ts to_ts db db1 l1 r1]
    store_events_db [of fuel w c a2ed db db2 l2 r2]
  by blast

lemma ex_events_data_fetch:
  "get_address_to_events_data 2 (ex_graph_world [ex_bpt]) ex_constants [''0xU''] 0 200 ex_empty_db =
     Some (\<lparr>used_query_ranges = [''balancer_events_0xU'' \<mapsto> (0, 200)], balancer_events_table = []\<rparr>,
       [InvestQuery ADD_LIQUIDITY (invest_initial_params 1000 [''0xU''] 0 200),
        BptQuery MINT (bpt_initial_params 1000 [''0xU''] [''t1'']),
        InvestQuery REMOVE_LIQUIDITY (invest_initial_params 1000 [''0xU''] 0 200),
        BptQuery BURN (bpt_initial_params 1000 [''0xU''] [])],
       Inr (ex_events_data_of [ex_invest ''0xA'' 2 60] [ex_bpt]))"
  by (simp add: ex_empty_db_def ex_constants_def
      get_address_to_events_data_def db_bind_def db_lift_def db_write_def user_write_def
      get_address_to_invest_events_graph_def get_address_to_bpt_events_graph_def
      io_bind_def io_logged_def ex_graph_world_def ex_world_def raw_transaction_def
      mint_or_burn_type_def sorted_by_address_def build_events_data_def addresses_with_events_def
      dict_get_def update_used_query_range_all_def update_used_query_range_def
      entry_name_def numeral_2_eq_2 ex_invest_def ex_events_data_of_def ex_bpt_def)

lemma ex_events_data_store:
  "store_events 2 (ex_graph_world [ex_bpt]) ex_constants (ex_events_data_of [ex_invest ''0xA'' 2 60] [ex_bpt])
     \<lparr>used_query_ranges = [''balancer_events_0xU'' \<mapsto> (0, 200)], balancer_events_table = []\<rparr> =
   Some (\<lparr>used_query_ranges = [''balancer_events_0xU'' \<mapsto> (0, 200)],
          balancer_events_table =
            [\<lparr>tx_hash = ''t1'', log_index = 1, address = ''0xU'', timestamp = 100, event_type = MINT,
              pool_address_token = ex_pool, lp_balance = \<lparr>amount = 100, usd_value = 60\<rparr>,
              amounts = [60, 0]\<rparr>]\<rparr>, [], Inr ())"
  by (simp add: store_events_def ex_events_data_of_def get_balancer_aggregated_events_data_def
      attr_bpt_events_def attr_invest_events_def io_bind_def db_bind_def db_lift_def db_write_def
      user_write_def add_balancer_events_def aggregate_bpt_event_def group_of_def ex_invest_def
      ex_bpt_def ex_pool_def initial_pool_index_def ex_graph_world_def ex_world_def
      token_addr_to_index_def enumerate_eq_zip Let_def ex_constants_def
      get_token_price_at_timestamp_zero_if_error_def)

theorem separate_write_transactions_witness:
  "get_address_to_events_data 2 (ex_graph_world [ex_bpt]) ex_constants [''0xU''] 0 200 ex_empty_db =
     Some (\<lparr>used_query_ranges = [''balancer_events_0xU'' \<mapsto> (0, 200)], balancer_events_table = []\<rparr>,
       [InvestQuery ADD_LIQUIDITY (invest_initial_params 1000 [''0xU''] 0 200),
        BptQuery MINT (bpt_initial_params 1000 [''0xU''] [''t1'']),
        InvestQuery REMOVE_LIQUIDITY (invest_initial_params 1000 [''0xU''] 0 200),
        BptQuery BURN (bpt_initial_params 1000 [''0xU''] [])],
       Inr (ex_events_data_of [ex_invest ''0xA'' 2 60] [ex_bpt]))
   \<and> \<lparr>used_query_ranges = [''balancer_events_0xU'' \<mapsto> (0, 200)], balancer_events_table = []\<rparr>
       = update_used_query_range_all [''0xU''] ''balancer_events'' 0 200 ex_empty_db
   \<and> store_events 2 (ex_graph_world [ex_bpt]) ex_constants (ex_events_data_of [ex_invest ''0xA'' 2 60] [ex_bpt])
       \<lparr>used_query_ranges = [''balancer_events_0xU'' \<mapsto> (0, 200)], balancer_events_table = []\<rparr> =
     Some (\<lparr>used_query_ranges = [''balancer_events_0xU'' \<mapsto> (0, 200)],
            balancer_events_table =
              [\<lparr>tx_hash = ''t1'', log_index = 1, address = ''0xU'', timestamp = 100, event_type = MINT,
                pool_address_token = ex_pool, lp_balance = \<lparr>amount = 100, usd_value = 60\<rparr>,
                amounts = [60, 0]\<rparr>]\<rparr>, [], Inr ())
   \<and> (\<exists>l evs. get_balancer_aggregated_events_data 2 (ex_graph_world [ex_bpt])
                  (GRAPH_QUERY_LIMIT ex_constants) (ex_events_data_of [ex_invest ''0xA'' 2 60] [ex_bpt])
                = Some (l, Inr evs)
          \<and> \<lparr>used_query_ranges = [''balancer_events_0xU'' \<mapsto> (0, 200)],
              balancer_events_table =
                [\<lparr>tx_hash = ''t1'', log_index = 1, address = ''0xU'', timestamp = 100, event_type = MINT,
                  pool_address_token = ex_pool, lp_balance = \<lparr>amount = 100, usd_value = 60\<rparr>,
                  amounts = [60, 0]\<rparr>]\<rparr>
            = add_balancer_events evs
                \<lparr>used_query_ranges = [''balancer_events_0xU'' \<mapsto> (0, 200)], balancer_events_table = []\<rparr>)"
proof -
  have ne: "ex_events_data_of [ex_invest ''0xA'' 2 60] [ex_bpt] \<noteq> []"
    by (simp add: ex_events_data_of_def)
  show ?thesis
    using ex_events_data_fetch ex_events_data_store ne
      separate_write_transactions [of 2 "ex_graph_world [ex_bpt]" ex_constants "[''0xU'']" 0 200
        ex_empty_db
        "\<lparr>used_query_ranges = [''balancer_events_0xU'' \<mapsto> (0, 200)], balancer_events_table = []\<rparr>"
        "[InvestQuery ADD_LIQUIDITY (invest_initial_params 1000 [''0xU''] 0 200),
          BptQuery MINT (bpt_initial_params 1000 [''0xU''] [''t1'']),
          InvestQuery REMOVE_LIQUIDITY (invest_initial_params 1000 [''0xU''] 0 200),
          BptQuery BURN (bpt_initial_params 1000 [''0xU''] [])]"
        "Inr (ex_events_data_of [ex_invest ''0xA'' 2 60] [ex_bpt])"
        "ex_events_data_of [ex_invest ''0xA'' 2 60] [ex_bpt]"]
      separate_write_transactions [of 2 "ex_graph_world [ex_bpt]" ex_constants "[''0xU'']" 0 200
        "\<lparr>used_query_ranges = [''balancer_events_0xU'' \<mapsto> (0, 200)], balancer_events_table = []\<rparr>"
        _ _ _
        "ex_events_data_of [ex_invest ''0xA'' 2 60] [ex_bpt]"
        "\<lparr>used_query_ranges = [''balancer_events_0xU'' \<mapsto> (0, 200)],
            balancer_events_table =
              [\<lparr>tx_hash = ''t1'', log_index = 1, address = ''0xU'', timestamp = 100, event_type = MINT,
                pool_address_token = ex_pool, lp_balance = \<lparr>amount = 100, usd_value = 60\<rparr>,
                amounts = [60, 0]\<rparr>]\<rparr>"
        "[]" "Inr ()"]
    by simp
qed

text \<open>
  C1 (as it is written) fails: the subgraph gives an ADD_LIQUIDITY event and a MINT event of
  the same transaction and another pool. Both fetches return and the range of the address is
  committed up to 200; then the aggregation raises \<^verbatim>\<open>RemoteError\<close>, and the call ends
  with the range advanced and no event in the database.
\<close>

theorem separate_write_transactions_counterexample:
  "get_events_history 2 (ex_graph_world [ex_bpt\<lparr>bpt_pool_address_token := ex_other_pool\<rparr>])
     ex_constants id [''0xU''] False 0 200
     \<lparr>used_query_ranges = Map.empty, balancer_events_table = []\<rparr>
   = Some (\<lparr>used_query_ranges = [''balancer_events_0xU'' \<mapsto> (0, 200)], balancer_events_table = []\<rparr>,
       [InvestQuery ADD_LIQUIDITY (invest_initial_params 1000 [''0xU''] 0 200),
        BptQuery MINT (bpt_initial_params 1000 [''0xU''] [''t1'']),
        InvestQuery REMOVE_LIQUIDITY (invest_initial_params 1000 [''0xU''] 0 200),
        BptQuery BURN (bpt_initial_params 1000 [''0xU''] [])],
       Inl RemoteError)"
proof -
  have "store_events 2 (ex_graph_world [ex_bpt\<lparr>bpt_pool_address_token := ex_other_pool\<rparr>]) ex_constants
      (ex_events_data_of [ex_invest ''0xA'' 2 60] [ex_bpt\<lparr>bpt_pool_address_token := ex_other_pool\<rparr>])
      \<lparr>used_query_ranges = [''balancer_events_0xU'' \<mapsto> (0, 200)], balancer_events_table = []\<rparr>
    = Some (\<lparr>used_query_ranges = [''balancer_events_0xU'' \<mapsto> (0, 200)], balancer_events_table = []\<rparr>,
        [], Inl RemoteError)"
    by (simp add: store_events_def ex_events_data_of_def get_balancer_aggregated_events_data_def
        attr_bpt_events_def attr_invest_events_def io_bind_def db_bind_def db_lift_def
        aggregate_bpt_event_def group_of_def ex_invest_def ex_bpt_def ex_pool_def ex_other_pool_def)
  then show ?thesis
    using ex_fetch_orphan_mint
    by (simp add: get_events_history_def get_address_to_pool_events_balances_def db_bind_def
        ex_empty_db_def)
qed

subsection \<open>The split of the addresses and the ranges that are requested\<close>

lemma classify_addresses_eq:
  "classify_addresses db prefix addresses (new, existing, m) =
     (new @ new_addresses_of db prefix addresses,
      existing @ existing_addresses_of db prefix addresses,
      Min (set (m # covered_to db prefix addresses)))"
proof (induction addresses arbitrary: new existing m)
  case Nil
  show ?case
    by (simp add: new_addresses_of_def existing_addresses_of_def covered_to_def map_filter_simps)
next
  case (Cons a addresses)
  show ?case
  proof (cases "get_used_query_range db (entry_name prefix a)")
    case None
    then show ?thesis
      by (simp add: Cons.IH new_addresses_of_def existing_addresses_of_def covered_to_def
          map_filter_simps)
  next
    case (Some r)
    have "Min (insert (min m (snd r)) (set (covered_to db prefix addresses)))
        = Min (insert m (insert (snd r) (set (covered_to db prefix addresses))))"
      by (cases "set (covered_to db prefix addresses) = {}") (simp_all add: min.assoc)
    then show ?thesis
      using Some
      by (simp add: Cons.IH new_addresses_of_def existing_addresses_of_def covered_to_def
          map_filter_simps)
  qed
qed

lemma classify_addresses_split:
  "classify_addresses db prefix addresses ([], [], to_ts) =
     (new_addresses_of db prefix addresses, existing_addresses_of db prefix addresses,
      min_covered_to db prefix addresses to_ts)"
  by (simp add: classify_addresses_eq min_covered_to_def)

lemma entry_name_inject: "entry_name prefix a = entry_name prefix b \<longleftrightarrow> a = b"
  by (simp add: entry_name_def)

lemma update_used_query_range_all_ranges:
  "used_query_ranges (update_used_query_range_all addresses prefix from_ts to_ts db) name =
     (if name \<in> entry_name prefix ` set addresses then Some (from_ts, to_ts)
      else used_query_ranges db name)"
proof (induction addresses arbitrary: db)
  case Nil
  show ?case by (simp add: update_used_query_range_all_def)
next
  case (Cons a addresses)
  have "update_used_query_range_all (a # addresses) prefix from_ts to_ts db =
      update_used_query_range_all addresses prefix from_ts to_ts
        (update_used_query_range (entry_name prefix a) from_ts to_ts db)"
    by (simp add: update_used_query_range_all_def)
  then show ?case
    by (simp add: Cons.IH update_used_query_range_def)
qed

lemma bpt_events_loop_log:
  "bpt_events_loop fuel query etype L S params st = Some (l, r) \<Longrightarrow> \<forall>x \<in> set l. \<not> is_invest_query x"
proof (induction fuel arbitrary: params st l r)
  case 0
  then show ?case by simp
next
  case (Suc fuel)
  show ?case
  proof (cases "query params")
    case RemoteFailure
    with Suc.prems show ?thesis by (auto simp add: is_invest_query_def)
  next
    case NoSchemaKey
    with Suc.prems show ?thesis by (auto simp add: is_invest_query_def)
  next
    case (Items raws)
    show ?thesis
    proof (cases "add_raw_events bpt_event_key bpt_address raws st")
      case (Inl e)
      with Suc.prems Items show ?thesis by (auto simp add: is_invest_query_def)
    next
      case (Inr st')
      obtain ev uniq where st': "st' = (ev, uniq)" by (cases st')
      from Suc.prems Items Inr st' consider
        (last_page) "l = [BptQuery etype params]"
        | (next_page) l' params' where "l = [BptQuery etype params] @ l'"
            "bpt_events_loop fuel query etype L S params' (ev, uniq) = Some (l', r)"
        by (auto split: if_splits option.splits dest!: io_logged_SomeD)
      then show ?thesis
      proof cases
        case last_page
        then show ?thesis by (simp add: is_invest_query_def)
      next
        case next_page
        from Suc.IH [OF next_page(2)] next_page(1) show ?thesis
          by (simp add: is_invest_query_def)
      qed
    qed
  qed
qed

lemma get_address_to_bpt_events_graph_log:
  "get_address_to_bpt_events_graph fuel query L S addresses txs etype = Some (l, r) \<Longrightarrow>
   \<forall>x \<in> set l. \<not> is_invest_query x"
  by (auto simp add: get_address_to_bpt_events_graph_def dest!: io_bind_SomeD bpt_events_loop_log)

lemma invest_events_loop_log:
  "invest_events_loop fuel w etype L S addresses params st = Some (l, r) \<Longrightarrow>
   (\<exists>l'. l = InvestQuery etype params # l')
   \<and> (\<forall>et p. InvestQuery et p \<in> set l \<longrightarrow>
         et = etype \<and> iq_end_ts p = iq_end_ts params \<and> iq_addresses p = iq_addresses params)"
proof (induction fuel arbitrary: params st l r)
  case 0
  then show ?case by simp
next
  case (Suc fuel)
  show ?case
  proof (cases "invest_query w etype params")
    case RemoteFailure
    with Suc.prems show ?thesis by auto
  next
    case NoSchemaKey
    with Suc.prems show ?thesis by auto
  next
    case (Items raws)
    let ?bpt = "get_address_to_bpt_events_graph fuel (bpt_query w (mint_or_burn_type etype)) L S addresses
                  (remdups (map raw_transaction raws)) (mint_or_burn_type etype)"
    let ?k = "\<lambda>address_to_mint_events.
                  case add_raw_events invest_event_key inv_address raws st of
                    Inl e \<Rightarrow> Some ([], Inl e)
                  | Inr (invest_event, uniq) \<Rightarrow>
                      if length raws < L then Some ([], Inr (uniq, address_to_mint_events))
                      else if iq_offset params = S then
                        (case invest_event of
                           None \<Rightarrow> Some ([], Inl UnboundLocalError)
                         | Some ev \<Rightarrow>
                             invest_events_loop fuel w etype L S addresses
                               (params\<lparr>iq_start_ts := inv_timestamp ev, iq_offset := 0\<rparr>)
                               (invest_event, uniq))
                      else
                        invest_events_loop fuel w etype L S addresses
                          (params\<lparr>iq_offset := iq_offset params + L\<rparr>)
                          (invest_event, uniq)"
    from Suc.prems Items have "io_logged [InvestQuery etype params] (io_bind ?bpt ?k) = Some (l, r)"
      by simp
    then obtain l1 where l: "l = InvestQuery etype params # l1" and b: "io_bind ?bpt ?k = Some (l1, r)"
      by (auto dest!: io_logged_SomeD)
    from io_bind_SomeD [OF b] consider
      (fail) e where "?bpt = Some (l1, Inl e)"
      | (ok) lb x l2 where "?bpt = Some (lb, Inr x)" "?k x = Some (l2, r)" "l1 = lb @ l2"
      by blast
    then have "\<forall>et p. InvestQuery et p \<in> set l1 \<longrightarrow>
         et = etype \<and> iq_end_ts p = iq_end_ts params \<and> iq_addresses p = iq_addresses params"
    proof cases
      case fail
      from get_address_to_bpt_events_graph_log [OF fail] show ?thesis
        by (auto simp add: is_invest_query_def)
    next
      case ok
      from get_address_to_bpt_events_graph_log [OF ok(1)] have lb:
        "\<forall>et p. InvestQuery et p \<notin> set lb"
        by (auto simp add: is_invest_query_def)
      from ok(2) consider
        (stop) "l2 = []"
        | (again) params' st' where
            "invest_events_loop fuel w etype L S addresses params' st' = Some (l2, r)"
            "iq_end_ts params' = iq_end_ts params" "iq_addresses params' = iq_addresses params"
        by (auto split: sum.splits prod.splits if_splits option.splits)
      then show ?thesis
      proof cases
        case stop
        with lb ok(3) show ?thesis by simp
      next
        case again
        from Suc.IH [OF again(1)] again(2,3) lb ok(3) show ?thesis
          by auto
      qed
    qed
    with l show ?thesis by auto
  qed
qed

lemma get_address_to_invest_events_graph_log:
  "get_address_to_invest_events_graph fuel w L S addresses etype start_ts end_ts = Some (l, r) \<Longrightarrow>
   InvestQuery etype (invest_initial_params L addresses start_ts end_ts) \<in> set l
   \<and> (\<forall>et p. InvestQuery et p \<in> set l \<longrightarrow>
         et = etype \<and> iq_end_ts p = end_ts \<and> iq_addresses p = map lower addresses)"
proof -
  assume a: "get_address_to_invest_events_graph fuel w L S addresses etype start_ts end_ts = Some (l, r)"
  let ?p = "invest_initial_params L addresses start_ts end_ts"
  from a obtain l1 r1 l2 where
    loop: "invest_events_loop fuel w etype L S addresses ?p (None, []) = Some (l1, r1)"
    and l: "l = l1 @ l2" and l2: "l2 = []"
    unfolding get_address_to_invest_events_graph_def
    by (auto simp add: case_prod_unfold dest!: io_bind_SomeD)
  from invest_events_loop_log [OF loop] l l2 show ?thesis
    by (auto simp add: invest_initial_params_def)
qed

lemma get_address_to_events_data_result:
  assumes "get_address_to_events_data fuel w c addrs from_ts to_ts db = Some (db1, l, Inr d)"
  shows "db1 = update_used_query_range_all addrs ''balancer_events'' from_ts to_ts db
    \<and> InvestQuery ADD_LIQUIDITY (invest_initial_params (GRAPH_QUERY_LIMIT c) addrs from_ts to_ts) \<in> set l
    \<and> InvestQuery REMOVE_LIQUIDITY (invest_initial_params (GRAPH_QUERY_LIMIT c) addrs from_ts to_ts) \<in> set l
    \<and> (\<forall>et p. InvestQuery et p \<in> set l \<longrightarrow> iq_end_ts p = to_ts \<and> iq_addresses p = map lower addrs)"
proof -
  from assms obtain la ra lr rr where
    a: "get_address_to_invest_events_graph fuel w (GRAPH_QUERY_LIMIT c) (GRAPH_QUERY_SKIP_LIMIT c)
          addrs ADD_LIQUIDITY from_ts to_ts = Some (la, ra)"
    and r: "get_address_to_invest_events_graph fuel w (GRAPH_QUERY_LIMIT c) (GRAPH_QUERY_SKIP_LIMIT c)
          addrs REMOVE_LIQUIDITY from_ts to_ts = Some (lr, rr)"
    and l: "l = la @ lr"
    by (auto simp add: get_address_to_events_data_def db_write_def user_write_def
        dest!: db_bind_SomeD db_lift_SomeD)
  from get_address_to_invest_events_graph_log [OF a] get_address_to_invest_events_graph_log [OF r] l
    get_address_to_events_data_db [OF assms]
  show ?thesis by auto
qed

lemma new_not_existing:
  "a \<in> set (new_addresses_of db prefix addresses) \<Longrightarrow> a \<notin> set (existing_addresses_of db prefix addresses)"
  by (simp add: new_addresses_of_def existing_addresses_of_def)

text \<open>
  C8 (as the code has it). The addresses without a used query range are new and are requested
  from 0 to \<^verbatim>\<open>to_timestamp\<close>; the addresses with a range are existing and are requested
  from \<open>min_covered_to\<close> to \<^verbatim>\<open>to_timestamp\<close>, and only when \<^verbatim>\<open>to_timestamp\<close> is
  greater than \<open>min_covered_to\<close>. When the fetch returns, the record of every address that
  was requested is replaced by the range that was requested, \<open>(0, to_timestamp)\<close> for a new
  address and \<open>(min_covered_to, to_timestamp)\<close> for an existing one, and the record of an
  existing address that was not requested is as it was.
\<close>

theorem query_range_tracking:
  fixes db :: database and c :: constants and addresses :: "ChecksumEvmAddress list"
    and to_ts :: Timestamp and new existing :: "ChecksumEvmAddress list" and m :: Timestamp
  defines "new \<equiv> new_addresses_of db (BALANCER_EVENTS_PREFIX c) addresses"
    and "existing \<equiv> existing_addresses_of db (BALANCER_EVENTS_PREFIX c) addresses"
    and "m \<equiv> min_covered_to db (BALANCER_EVENTS_PREFIX c) addresses to_ts"
  assumes fetch: "fetch_events_data fuel w c addresses to_ts db = Some (db', l, Inr d)"
  shows "(\<forall>a \<in> set new. used_query_ranges db' (entry_name ''balancer_events'' a) = Some (0, to_ts))
    \<and> (new \<noteq> [] \<longrightarrow>
         InvestQuery ADD_LIQUIDITY
             \<lparr>iq_limit = GRAPH_QUERY_LIMIT c, iq_offset = 0, iq_addresses = map lower new,
              iq_start_ts = 0, iq_end_ts = to_ts\<rparr> \<in> set l
         \<and> InvestQuery REMOVE_LIQUIDITY
             \<lparr>iq_limit = GRAPH_QUERY_LIMIT c, iq_offset = 0, iq_addresses = map lower new,
              iq_start_ts = 0, iq_end_ts = to_ts\<rparr> \<in> set l)
    \<and> (m < to_ts \<longrightarrow>
         (\<forall>a \<in> set existing. used_query_ranges db' (entry_name ''balancer_events'' a) = Some (m, to_ts))
         \<and> (existing \<noteq> [] \<longrightarrow>
              InvestQuery ADD_LIQUIDITY
             \<lparr>iq_limit = GRAPH_QUERY_LIMIT c, iq_offset = 0, iq_addresses = map lower existing,
              iq_start_ts = m, iq_end_ts = to_ts\<rparr> \<in> set l
              \<and> InvestQuery REMOVE_LIQUIDITY
             \<lparr>iq_limit = GRAPH_QUERY_LIMIT c, iq_offset = 0, iq_addresses = map lower existing,
              iq_start_ts = m, iq_end_ts = to_ts\<rparr>
                  \<in> set l))
    \<and> (\<not> m < to_ts \<longrightarrow>
         (\<forall>a \<in> set existing. used_query_ranges db' (entry_name ''balancer_events'' a)
                              = used_query_ranges db (entry_name ''balancer_events'' a))
         \<and> (\<forall>et p. InvestQuery et p \<in> set l \<longrightarrow> iq_addresses p = map lower new))
    \<and> (\<forall>et p. InvestQuery et p \<in> set l \<longrightarrow> iq_end_ts p = to_ts)"
proof -
  let ?bal = "''balancer_events''"
  let ?first = "if new \<noteq> [] then get_address_to_events_data fuel w c new 0 to_ts db
                else Some (db, [], Inr [])"
  from fetch obtain db1 l1 d1 l2 d2 where
    first: "?first = Some (db1, l1, Inr d1)"
    and second: "(if existing \<noteq> [] \<and> m < to_ts
                  then get_address_to_events_data fuel w c existing m to_ts db1
                  else Some (db1, [], Inr [])) = Some (db', l2, Inr d2)"
    and l: "l = l1 @ l2"
    unfolding fetch_events_data_def classify_addresses_split new_def existing_def m_def
    by (auto dest!: db_bind_SomeD)
  have db1: "db1 = update_used_query_range_all new ?bal 0 to_ts db"
    using first get_address_to_events_data_result [of fuel w c new 0 to_ts db db1 l1 d1]
    by (auto simp add: update_used_query_range_all_def split: if_splits)
  have l1: "\<forall>et p. InvestQuery et p \<in> set l1 \<longrightarrow> iq_end_ts p = to_ts \<and> iq_addresses p = map lower new"
    using first get_address_to_events_data_result [of fuel w c new 0 to_ts db db1 l1 d1]
    by (auto split: if_splits)
  have l1': "new \<noteq> [] \<Longrightarrow>
         InvestQuery ADD_LIQUIDITY
             \<lparr>iq_limit = GRAPH_QUERY_LIMIT c, iq_offset = 0, iq_addresses = map lower new,
              iq_start_ts = 0, iq_end_ts = to_ts\<rparr> \<in> set l1
         \<and> InvestQuery REMOVE_LIQUIDITY
             \<lparr>iq_limit = GRAPH_QUERY_LIMIT c, iq_offset = 0, iq_addresses = map lower new,
              iq_start_ts = 0, iq_end_ts = to_ts\<rparr> \<in> set l1"
    using first get_address_to_events_data_result [of fuel w c new 0 to_ts db db1 l1 d1]
    by (auto simp add: invest_initial_params_def split: if_splits)
  have disj: "entry_name ?bal a \<notin> entry_name ?bal ` set existing" if "a \<in> set new" for a
    using that new_not_existing [of a db "BALANCER_EVENTS_PREFIX c" addresses]
    by (auto simp add: new_def existing_def entry_name_inject)
  show ?thesis
  proof (cases "m < to_ts")
    case True
    have db': "db' = update_used_query_range_all existing ?bal m to_ts db1"
      using second True get_address_to_events_data_result [of fuel w c existing m to_ts db1 db' l2 d2]
      by (auto simp add: update_used_query_range_all_def split: if_splits)
    have l2: "\<forall>et p. InvestQuery et p \<in> set l2 \<longrightarrow> iq_end_ts p = to_ts"
      using second get_address_to_events_data_result [of fuel w c existing m to_ts db1 db' l2 d2]
      by (auto split: if_splits)
    have l2': "existing \<noteq> [] \<Longrightarrow>
         InvestQuery ADD_LIQUIDITY
             \<lparr>iq_limit = GRAPH_QUERY_LIMIT c, iq_offset = 0, iq_addresses = map lower existing,
              iq_start_ts = m, iq_end_ts = to_ts\<rparr> \<in> set l2
         \<and> InvestQuery REMOVE_LIQUIDITY
             \<lparr>iq_limit = GRAPH_QUERY_LIMIT c, iq_offset = 0, iq_addresses = map lower existing,
              iq_start_ts = m, iq_end_ts = to_ts\<rparr>
             \<in> set l2"
      using second True get_address_to_events_data_result [of fuel w c existing m to_ts db1 db' l2 d2]
      by (auto simp add: invest_initial_params_def split: if_splits)
    have r1: "\<forall>a \<in> set new. used_query_ranges db' (entry_name ?bal a) = Some (0, to_ts)"
      using disj by (simp add: db' db1 update_used_query_range_all_ranges)
    have r2: "\<forall>a \<in> set existing. used_query_ranges db' (entry_name ?bal a) = Some (m, to_ts)"
      by (simp add: db' update_used_query_range_all_ranges)
    show ?thesis
      using True r1 r2 l1 l1' l2 l2' l by auto
  next
    case False
    from second False have db': "db' = db1" and l2: "l2 = []"
      by simp_all
    have r1: "\<forall>a \<in> set new. used_query_ranges db' (entry_name ?bal a) = Some (0, to_ts)"
      by (simp add: db' db1 update_used_query_range_all_ranges)
    have "entry_name ?bal a \<notin> entry_name ?bal ` set new" if "a \<in> set existing" for a
      using that new_not_existing [of _ db "BALANCER_EVENTS_PREFIX c" addresses]
      by (auto simp add: new_def existing_def entry_name_inject)
    then have r2: "\<forall>a \<in> set existing. used_query_ranges db' (entry_name ?bal a)
                              = used_query_ranges db (entry_name ?bal a)"
      by (simp add: db' db1 update_used_query_range_all_ranges)
    show ?thesis
      using False r1 r2 l1 l1' l l2 by auto
  qed
qed

lemma ex_fetch_ranges:
  "fetch_events_data 2 ex_world ex_constants [''0xU'', ''0xV''] 200 ex_ranges_db =
     Some (\<lparr>used_query_ranges =
              [''balancer_events_0xV'' \<mapsto> (150, 200), ''balancer_events_0xU'' \<mapsto> (0, 200)],
            balancer_events_table = []\<rparr>,
       [InvestQuery ADD_LIQUIDITY (invest_initial_params 1000 [''0xU''] 0 200),
        BptQuery MINT (bpt_initial_params 1000 [''0xU''] []),
        InvestQuery REMOVE_LIQUIDITY (invest_initial_params 1000 [''0xU''] 0 200),
        BptQuery BURN (bpt_initial_params 1000 [''0xU''] []),
        InvestQuery ADD_LIQUIDITY (invest_initial_params 1000 [''0xV''] 150 200),
        BptQuery MINT (bpt_initial_params 1000 [''0xV''] []),
        InvestQuery REMOVE_LIQUIDITY (invest_initial_params 1000 [''0xV''] 150 200),
        BptQuery BURN (bpt_initial_params 1000 [''0xV''] [])],
       Inr [])"
  by (simp add: fetch_events_data_def get_used_query_range_def ex_ranges_db_def ex_constants_def
      get_address_to_events_data_def db_bind_def db_lift_def db_write_def user_write_def
      get_address_to_invest_events_graph_def get_address_to_bpt_events_graph_def
      io_bind_def io_logged_def ex_world_def
      mint_or_burn_type_def sorted_by_address_def build_events_data_def addresses_with_events_def
      dict_update_def update_used_query_range_all_def update_used_query_range_def
      entry_name_def numeral_2_eq_2 fun_upd_twist)

lemma ex_split_ranges:
  "new_addresses_of ex_ranges_db (BALANCER_EVENTS_PREFIX ex_constants) [''0xU'', ''0xV''] = [''0xU'']
   \<and> existing_addresses_of ex_ranges_db (BALANCER_EVENTS_PREFIX ex_constants) [''0xU'', ''0xV''] = [''0xV'']
   \<and> min_covered_to ex_ranges_db (BALANCER_EVENTS_PREFIX ex_constants) [''0xU'', ''0xV''] 200 = 150"
  by (simp add: new_addresses_of_def existing_addresses_of_def min_covered_to_def covered_to_def
      map_filter_simps get_used_query_range_def ex_ranges_db_def ex_constants_def entry_name_def)

text \<open>
  The address \<open>0xU\<close> has no record and the address \<open>0xV\<close> has the record (0, 150): at
  \<^verbatim>\<open>to_timestamp\<close> 200 the first is requested from 0 and gets the record (0, 200), the
  second is requested from 150 and gets the record (150, 200).
\<close>

theorem query_range_tracking_witness:
  "fetch_events_data 2 ex_world ex_constants [''0xU'', ''0xV''] 200 ex_ranges_db =
     Some (\<lparr>used_query_ranges =
              [''balancer_events_0xV'' \<mapsto> (150, 200), ''balancer_events_0xU'' \<mapsto> (0, 200)],
            balancer_events_table = []\<rparr>,
       [InvestQuery ADD_LIQUIDITY
          \<lparr>iq_limit = 1000, iq_offset = 0, iq_addresses = map lower [''0xU''],
           iq_start_ts = 0, iq_end_ts = 200\<rparr>,
        BptQuery MINT (bpt_initial_params 1000 [''0xU''] []),
        InvestQuery REMOVE_LIQUIDITY
          \<lparr>iq_limit = 1000, iq_offset = 0, iq_addresses = map lower [''0xU''],
           iq_start_ts = 0, iq_end_ts = 200\<rparr>,
        BptQuery BURN (bpt_initial_params 1000 [''0xU''] []),
        InvestQuery ADD_LIQUIDITY
          \<lparr>iq_limit = 1000, iq_offset = 0, iq_addresses = map lower [''0xV''],
           iq_start_ts = 150, iq_end_ts = 200\<rparr>,
        BptQuery MINT (bpt_initial_params 1000 [''0xV''] []),
        InvestQuery REMOVE_LIQUIDITY
          \<lparr>iq_limit = 1000, iq_offset = 0, iq_addresses = map lower [''0xV''],
           iq_start_ts = 150, iq_end_ts = 200\<rparr>,
        BptQuery BURN (bpt_initial_params 1000 [''0xV''] [])],
       Inr [])
   \<and> new_addresses_of ex_ranges_db (BALANCER_EVENTS_PREFIX ex_constants) [''0xU'', ''0xV''] = [''0xU'']
   \<and> existing_addresses_of ex_ranges_db (BALANCER_EVENTS_PREFIX ex_constants) [''0xU'', ''0xV''] = [''0xV'']
   \<and> min_covered_to ex_ranges_db (BALANCER_EVENTS_PREFIX ex_constants) [''0xU'', ''0xV''] 200 = 150
   \<and> used_query_ranges
         \<lparr>used_query_ranges =
            [''balancer_events_0xV'' \<mapsto> (150, 200), ''balancer_events_0xU'' \<mapsto> (0, 200)],
          balancer_events_table = []\<rparr>
         (entry_name ''balancer_events'' ''0xU'') = Some (0, 200)
   \<and> used_query_ranges
         \<lparr>used_query_ranges =
            [''balancer_events_0xV'' \<mapsto> (150, 200), ''balancer_events_0xU'' \<mapsto> (0, 200)],
          balancer_events_table = []\<rparr>
         (entry_name ''balancer_events'' ''0xV'') = Some (150, 200)"
  using ex_fetch_ranges ex_split_ranges query_range_tracking [OF ex_fetch_ranges]
  by (simp add: entry_name_def ex_constants_def invest_initial_params_def)

lemma ex_fetch_covered:
  "fetch_events_data 2 ex_world ex_constants [''0xU'', ''0xV''] 200 ex_covered_db =
     Some (\<lparr>used_query_ranges =
              [''balancer_events_0xU'' \<mapsto> (100, 200), ''balancer_events_0xV'' \<mapsto> (100, 200)],
            balancer_events_table = []\<rparr>,
       [InvestQuery ADD_LIQUIDITY
          \<lparr>iq_limit = 1000, iq_offset = 0, iq_addresses = map lower [''0xU'', ''0xV''],
           iq_start_ts = 100, iq_end_ts = 200\<rparr>,
        BptQuery MINT (bpt_initial_params 1000 [''0xU'', ''0xV''] []),
        InvestQuery REMOVE_LIQUIDITY
          \<lparr>iq_limit = 1000, iq_offset = 0, iq_addresses = map lower [''0xU'', ''0xV''],
           iq_start_ts = 100, iq_end_ts = 200\<rparr>,
        BptQuery BURN (bpt_initial_params 1000 [''0xU'', ''0xV''] [])],
       Inr [])"
  by (simp add: fetch_events_data_def get_used_query_range_def ex_covered_db_def ex_constants_def
      get_address_to_events_data_def db_bind_def db_lift_def db_write_def user_write_def
      get_address_to_invest_events_graph_def get_address_to_bpt_events_graph_def
      io_bind_def io_logged_def ex_world_def invest_initial_params_def
      mint_or_burn_type_def sorted_by_address_def build_events_data_def addresses_with_events_def
      dict_update_def update_used_query_range_all_def update_used_query_range_def
      entry_name_def numeral_2_eq_2)

text \<open>
  C8 (as it is written) fails in its last part: the records (0, 300) of the address \<open>0xU\<close>
  and (0, 100) of the address \<open>0xV\<close> both become (100, 200) at \<^verbatim>\<open>to_timestamp\<close> 200. The
  upper bound 300 goes down to 200 and the lower bound 0 goes up to 100: neither record is
  extended.
\<close>

theorem query_range_extension_counterexample:
  "get_used_query_range ex_covered_db (entry_name ''balancer_events'' ''0xU'') = Some (0, 300)
   \<and> get_used_query_range ex_covered_db (entry_name ''balancer_events'' ''0xV'') = Some (0, 100)
   \<and> fetch_events_data 2 ex_world ex_constants [''0xU'', ''0xV''] 200 ex_covered_db =
     Some (\<lparr>used_query_ranges =
              [''balancer_events_0xU'' \<mapsto> (100, 200), ''balancer_events_0xV'' \<mapsto> (100, 200)],
            balancer_events_table = []\<rparr>,
       [InvestQuery ADD_LIQUIDITY
          \<lparr>iq_limit = 1000, iq_offset = 0, iq_addresses = map lower [''0xU'', ''0xV''],
           iq_start_ts = 100, iq_end_ts = 200\<rparr>,
        BptQuery MINT (bpt_initial_params 1000 [''0xU'', ''0xV''] []),
        InvestQuery REMOVE_LIQUIDITY
          \<lparr>iq_limit = 1000, iq_offset = 0, iq_addresses = map lower [''0xU'', ''0xV''],
           iq_start_ts = 100, iq_end_ts = 200\<rparr>,
        BptQuery BURN (bpt_initial_params 1000 [''0xU'', ''0xV''] [])],
       Inr [])
   \<and> get_used_query_range
         \<lparr>used_query_ranges =
            [''balancer_events_0xU'' \<mapsto> (100, 200), ''balancer_events_0xV'' \<mapsto> (100, 200)],
          balancer_events_table = []\<rparr>
         (entry_name ''balancer_events'' ''0xU'') = Some (100, 200)
   \<and> \<not> extended_to (0, 300) 200 (100, 200)
   \<and> \<not> extended_to (0, 100) 200 (100, 200)"
  using ex_fetch_covered
  by (simp add: get_used_query_range_def ex_covered_db_def entry_name_def extended_to_def)

subsection \<open>Pagination of the pool-token events\<close>

lemma bpt_queries_simps:
  "bpt_queries [] = []"
  "bpt_queries (BptQuery etype p # l) = p # bpt_queries l"
  "bpt_queries (AddError msg # l) = bpt_queries l"
  "bpt_queries (l1 @ l2) = bpt_queries l1 @ bpt_queries l2"
  by (simp_all add: bpt_queries_def)

lemma add_raw_events_last:
  "add_raw_events key addr raws (last_event, uniq) = Inr (last_event', uniq') \<Longrightarrow> raws \<noteq> [] \<Longrightarrow>
   \<exists>ev. last raws = Deserializable ev \<and> last_event' = Some ev"
proof (induction raws arbitrary: last_event uniq)
  case Nil
  then show ?case by simp
next
  case (Cons x raws)
  then show ?case
    by (cases x; cases "raws = []") auto
qed

lemma step_within:
  fixes L S x :: nat
  assumes "L dvd S" "L dvd x" "x \<le> S" "x \<noteq> S"
  shows "x + L \<le> S \<and> L dvd (x + L)"
proof -
  from assms obtain a b where S: "S = L * a" and x: "x = L * b"
    by (auto elim!: dvdE)
  from assms(3,4) S x have "b < a"
    by (metis le_neq_implies_less mult_less_cancel1)
  then have "L * (b + 1) \<le> L * a" by (intro mult_le_mono2) simp
  then show ?thesis using S x by simp
qed

lemma bpt_events_loop_paginated:
  assumes "0 < L"
  shows "bpt_events_loop fuel query etype L S params st = Some (l, r) \<Longrightarrow>
     (\<exists>rest. bpt_queries l = params # rest)
     \<and> cursor_paginated query L S (bpt_queries l)
     \<and> (\<forall>res. r = Inr res \<longrightarrow> short_page query L (last (bpt_queries l)))
     \<and> (L dvd S \<and> L dvd bq_offset params \<and> bq_offset params \<le> S \<longrightarrow>
          (\<forall>p \<in> set (bpt_queries l). bq_offset p \<le> S))"
proof (induction fuel arbitrary: params st l r)
  case 0
  then show ?case by simp
next
  case (Suc fuel)
  show ?case
  proof (cases "query params")
    case RemoteFailure
    with Suc.prems show ?thesis by (auto simp add: bpt_queries_simps)
  next
    case NoSchemaKey
    with Suc.prems show ?thesis by (auto simp add: bpt_queries_simps)
  next
    case (Items raws)
    show ?thesis
    proof (cases "add_raw_events bpt_event_key bpt_address raws st")
      case (Inl e)
      with Suc.prems Items show ?thesis by (auto simp add: bpt_queries_simps)
    next
      case (Inr st')
      obtain bpt_event uniq where st': "st' = (bpt_event, uniq)" by (cases st')
      obtain last_event uniq0 where st: "st = (last_event, uniq0)" by (cases st)
      show ?thesis
      proof (cases "length raws < L")
        case True
        with Suc.prems Items Inr st' show ?thesis
          by (auto simp add: bpt_queries_simps short_page_def)
      next
        case False
        then have full: "L \<le> length raws" by simp
        with assms have ne: "raws \<noteq> []" by auto
        from add_raw_events_last [OF Inr [unfolded st st'] ne] obtain ev where
          ev: "last raws = Deserializable ev" "bpt_event = Some ev"
          by blast
        let ?next = "if bq_offset params = S
                     then params\<lparr>bq_id := EventId (bpt_tx_hash ev) (bpt_log_index ev), bq_offset := 0\<rparr>
                     else params\<lparr>bq_offset := bq_offset params + L\<rparr>"
        from Suc.prems Items Inr st' False ev obtain l' where
          l: "l = [BptQuery etype params] @ l'"
          and rec: "bpt_events_loop fuel query etype L S ?next (bpt_event, uniq) = Some (l', r)"
          by (auto split: if_splits dest!: io_logged_SomeD)
        from Suc.IH [OF rec] obtain rest where
          hd: "bpt_queries l' = ?next # rest"
          and pag: "cursor_paginated query L S (bpt_queries l')"
          and short: "\<forall>res. r = Inr res \<longrightarrow> short_page query L (last (bpt_queries l'))"
          and bound: "L dvd S \<and> L dvd bq_offset ?next \<and> bq_offset ?next \<le> S \<longrightarrow>
              (\<forall>p \<in> set (bpt_queries l'). bq_offset p \<le> S)"
          by blast
        have q: "bpt_queries l = params # ?next # rest"
          using l hd by (simp add: bpt_queries_simps)
        have c1: "cursor_paginated query L S (bpt_queries l)"
          unfolding q using pag [unfolded hd] Items full ne ev by simp
        have c2: "\<forall>res. r = Inr res \<longrightarrow> short_page query L (last (bpt_queries l))"
          using short unfolding q hd by simp
        have c3: "\<forall>p \<in> set (bpt_queries l). bq_offset p \<le> S"
          if h: "L dvd S \<and> L dvd bq_offset params \<and> bq_offset params \<le> S"
        proof -
          have "L dvd bq_offset ?next \<and> bq_offset ?next \<le> S"
            using h step_within [of L S "bq_offset params"] by auto
          with bound h have "\<forall>p \<in> set (bpt_queries l'). bq_offset p \<le> S" by blast
          then show ?thesis
            using h unfolding q hd by simp
        qed
        show ?thesis
          using q c1 c2 c3 by blast
      qed
    qed
  qed
qed

lemma get_address_to_bpt_events_graph_log_eq:
  "get_address_to_bpt_events_graph fuel query L S addresses txs etype = Some (l, r) \<Longrightarrow>
   \<exists>r'. bpt_events_loop fuel query etype L S (bpt_initial_params L addresses txs) (None, []) = Some (l, r')
        \<and> ((\<exists>res. r = Inr res) \<longleftrightarrow> (\<exists>res'. r' = Inr res'))"
  by (auto simp add: get_address_to_bpt_events_graph_def dest!: io_bind_SomeD)

subsection \<open>Pagination of the pool shares\<close>

lemma pool_shares_queries_simps:
  "pool_shares_queries [] = []"
  "pool_shares_queries (PoolSharesQuery p # l) = p # pool_shares_queries l"
  "pool_shares_queries (AddError msg # l) = pool_shares_queries l"
  "pool_shares_queries (l1 @ l2) = pool_shares_queries l1 @ pool_shares_queries l2"
  by (simp_all add: pool_shares_queries_def)

lemma protocol_balance_loop_paginated:
  "protocol_balance_loop fuel w L params pb = Some (l, r) \<Longrightarrow>
     (\<exists>rest. pool_shares_queries l = params # rest)
     \<and> offset_paginated (pool_shares_query w) L (pool_shares_queries l)
     \<and> (\<forall>res. r = Inr res \<longrightarrow> short_page (pool_shares_query w) L (last (pool_shares_queries l)))"
proof (induction fuel arbitrary: params pb l r)
  case 0
  then show ?case by simp
next
  case (Suc fuel)
  show ?case
  proof (cases "pool_shares_query w params")
    case RemoteFailure
    with Suc.prems show ?thesis by (auto simp add: pool_shares_queries_simps)
  next
    case NoSchemaKey
    with Suc.prems show ?thesis by (auto simp add: pool_shares_queries_simps)
  next
    case (Items raws)
    show ?thesis
    proof (cases "add_raw_pool_shares w raws pb")
      case (Inl e)
      with Suc.prems Items show ?thesis by (auto simp add: pool_shares_queries_simps)
    next
      case (Inr pb')
      show ?thesis
      proof (cases "length raws < L")
        case True
        with Suc.prems Items Inr show ?thesis
          by (auto simp add: pool_shares_queries_simps short_page_def)
      next
        case False
        let ?next = "params\<lparr>sq_offset := sq_offset params + L\<rparr>"
        from Suc.prems Items Inr False obtain l' where
          l: "l = [PoolSharesQuery params] @ l'"
          and rec: "protocol_balance_loop fuel w L ?next pb' = Some (l', r)"
          by (auto dest!: io_logged_SomeD)
        from Suc.IH [OF rec] obtain rest where
          hd: "pool_shares_queries l' = ?next # rest"
          and pag: "offset_paginated (pool_shares_query w) L (pool_shares_queries l')"
          and short: "\<forall>res. r = Inr res \<longrightarrow>
              short_page (pool_shares_query w) L (last (pool_shares_queries l'))"
          by blast
        have q: "pool_shares_queries l = params # ?next # rest"
          using l hd by (simp add: pool_shares_queries_simps)
        have c1: "offset_paginated (pool_shares_query w) L (pool_shares_queries l)"
          unfolding q using pag [unfolded hd] Items False by simp
        have c2: "\<forall>res. r = Inr res \<longrightarrow>
            short_page (pool_shares_query w) L (last (pool_shares_queries l))"
          using short unfolding q hd by simp
        show ?thesis
          using q c1 c2 by blast
      qed
    qed
  qed
qed

lemma add_raw_pool_shares_ok:
  "None \<notin> set raws \<Longrightarrow> \<exists>pb'. add_raw_pool_shares w raws pb = Inr pb'"
proof (induction raws arbitrary: pb)
  case Nil
  show ?case by simp
next
  case (Cons x raws)
  then obtain a bp where x: "x = Some (a, bp)" by (cases x) auto
  from Cons.prems have "None \<notin> set raws" by simp
  from Cons.IH [OF this] show ?case
    unfolding x by (simp split: prod.splits)
qed

lemma protocol_balance_loop_full_pages:
  assumes "0 < L"
  shows "(\<forall>k < n. \<exists>page. pool_shares_query w (params\<lparr>sq_offset := sq_offset params + k * L\<rparr>) = Items page
                   \<and> L \<le> length page \<and> None \<notin> set page) \<Longrightarrow>
     pool_shares_query w (params\<lparr>sq_offset := sq_offset params + n * L\<rparr>) = Items [] \<Longrightarrow>
     \<exists>pb'. protocol_balance_loop (Suc n) w L params pb =
       Some (map (\<lambda>k. PoolSharesQuery (params\<lparr>sq_offset := sq_offset params + k * L\<rparr>)) [0..<Suc n],
             Inr pb')"
proof (induction n arbitrary: params pb)
  case 0
  then show ?case using assms by simp
next
  case (Suc n)
  from Suc.prems(1) [rule_format, of 0] obtain page where
    page: "pool_shares_query w params = Items page" "L \<le> length page" "None \<notin> set page"
    by auto
  from add_raw_pool_shares_ok [OF page(3)] obtain pb1 where
    pb1: "add_raw_pool_shares w page pb = Inr pb1" by blast
  let ?next = "params\<lparr>sq_offset := sq_offset params + L\<rparr>"
  have shift: "?next\<lparr>sq_offset := sq_offset ?next + k * L\<rparr>
      = params\<lparr>sq_offset := sq_offset params + Suc k * L\<rparr>" for k
    by (simp add: add.assoc)
  have h1: "\<forall>k < n. \<exists>page. pool_shares_query w (?next\<lparr>sq_offset := sq_offset ?next + k * L\<rparr>) = Items page
                   \<and> L \<le> length page \<and> None \<notin> set page"
    unfolding shift using Suc.prems(1) by auto
  have h2: "pool_shares_query w (?next\<lparr>sq_offset := sq_offset ?next + n * L\<rparr>) = Items []"
    unfolding shift using Suc.prems(2) by simp
  from Suc.IH [OF h1 h2] obtain pb' where
    rec: "protocol_balance_loop (Suc n) w L ?next pb1 =
       Some (map (\<lambda>k. PoolSharesQuery (?next\<lparr>sq_offset := sq_offset ?next + k * L\<rparr>)) [0..<Suc n],
             Inr pb')"
    by blast
  have m: "map (\<lambda>k. PoolSharesQuery (params\<lparr>sq_offset := sq_offset params + k * L\<rparr>)) [0..<Suc (Suc n)]
      = PoolSharesQuery params
        # map (\<lambda>k. PoolSharesQuery (?next\<lparr>sq_offset := sq_offset ?next + k * L\<rparr>)) [0..<Suc n]"
    unfolding shift
    by (simp only: upt_conv_Cons [of 0] map_Suc_upt [symmetric] list.map)
       (simp add: comp_def)
  have "protocol_balance_loop (Suc (Suc n)) w L params pb =
      io_logged [PoolSharesQuery params] (protocol_balance_loop (Suc n) w L ?next pb1)"
    using page pb1 by (simp del: protocol_balance_loop.simps(2) add: protocol_balance_loop.simps(2) [of "Suc n"])
  then show ?case
    unfolding rec m by (simp add: io_logged_def)
qed

text \<open>
  C6 (as the code has it). The fetch of the pool-token events starts at the offset 0 with the
  first cursor; each request but the last one got a full page; after a request at the offset
  \<open>S\<close> comes a request at the offset 0 with the cursor of the last event of that page, and
  after a request at another offset comes a request at that offset plus \<open>L\<close>; a fetch that
  returns ends on a page of fewer than \<open>L\<close> items; when \<open>L\<close> divides \<open>S\<close> no offset is
  beyond \<open>S\<close>. The fetch of the pool shares has no cursor: each request but the last one got
  a full page and is followed by a request at its offset plus \<open>L\<close>.
\<close>

theorem pagination:
  "(0 < L \<and> get_address_to_bpt_events_graph fuel query L S addresses txs etype = Some (l, r) \<longrightarrow>
      hd (bpt_queries l) = bpt_initial_params L addresses txs
      \<and> cursor_paginated query L S (bpt_queries l)
      \<and> ((\<exists>res. r = Inr res) \<longrightarrow> short_page query L (last (bpt_queries l)))
      \<and> (L dvd S \<longrightarrow> (\<forall>p \<in> set (bpt_queries l). bq_offset p \<le> S)))
   \<and> (get_protocol_balance_graph fuel' w L' addresses' = Some (l', r') \<longrightarrow>
      hd (pool_shares_queries l') = \<lparr>sq_limit = L', sq_offset = 0, sq_addresses = map lower addresses'\<rparr>
      \<and> offset_paginated (pool_shares_query w) L' (pool_shares_queries l')
      \<and> ((\<exists>res. r' = Inr res) \<longrightarrow> short_page (pool_shares_query w) L' (last (pool_shares_queries l'))))"
proof (intro conjI impI)
  assume a: "0 < L \<and> get_address_to_bpt_events_graph fuel query L S addresses txs etype = Some (l, r)"
  then obtain r0 where
    loop: "bpt_events_loop fuel query etype L S (bpt_initial_params L addresses txs) (None, []) = Some (l, r0)"
    and res: "(\<exists>res. r = Inr res) \<longleftrightarrow> (\<exists>res'. r0 = Inr res')"
    using get_address_to_bpt_events_graph_log_eq by blast
  from a have L: "0 < L" by simp
  note p = bpt_events_loop_paginated [OF L loop]
  from p show "hd (bpt_queries l) = bpt_initial_params L addresses txs" by auto
  from p show "cursor_paginated query L S (bpt_queries l)" by simp
  from p res show "short_page query L (last (bpt_queries l))" if "\<exists>res. r = Inr res"
    using that by auto
  from p show "\<forall>p \<in> set (bpt_queries l). bq_offset p \<le> S" if "L dvd S"
    using that by (simp add: bpt_initial_params_def)
next
  assume b: "get_protocol_balance_graph fuel' w L' addresses' = Some (l', r')"
  note p = protocol_balance_loop_paginated [OF b [unfolded get_protocol_balance_graph_def]]
  from p show "hd (pool_shares_queries l')
      = \<lparr>sq_limit = L', sq_offset = 0, sq_addresses = map lower addresses'\<rparr>" by auto
  from p show "offset_paginated (pool_shares_query w) L' (pool_shares_queries l')" by simp
  from p show "short_page (pool_shares_query w) L' (last (pool_shares_queries l'))"
    if "\<exists>res. r' = Inr res"
    using that by auto
qed

lemma ex_cursor_fetch:
  "get_address_to_bpt_events_graph 4 ex_cursor_query 2 4 [''0xU''] [''t1''] MINT =
     Some ([BptQuery MINT (bpt_initial_params 2 [''0xU''] [''t1'']),
            BptQuery MINT ((bpt_initial_params 2 [''0xU''] [''t1''])\<lparr>bq_offset := 2\<rparr>),
            BptQuery MINT ((bpt_initial_params 2 [''0xU''] [''t1''])\<lparr>bq_offset := 4\<rparr>),
            BptQuery MINT ((bpt_initial_params 2 [''0xU''] [''t1''])\<lparr>bq_id := EventId ''t1'' 5, bq_offset := 0\<rparr>)],
           Inr [(''0xU'', [ex_bpt\<lparr>bpt_log_index := 5\<rparr>, ex_bpt\<lparr>bpt_log_index := 7\<rparr>,
                           ex_bpt\<lparr>bpt_log_index := 9\<rparr>])])"
  by (simp add: get_address_to_bpt_events_graph_def bpt_initial_params_def ex_cursor_query_def
      io_bind_def io_logged_def set_add_def bpt_event_key_def bpt_sort_key_def sorted_by_address_def
      ex_bpt_def eval_nat_numeral)

lemma ex_shares_fetch:
  "get_protocol_balance_graph 1 ex_world 1000 [''0xU''] =
     Some ([PoolSharesQuery \<lparr>sq_limit = 1000, sq_offset = 0, sq_addresses = map lower [''0xU'']\<rparr>],
           Inr \<lparr>address_to_pool_balances = [], known_tokens = [], unknown_tokens = []\<rparr>)"
  by (simp add: get_protocol_balance_graph_def ex_world_def)

theorem pagination_witness:
  "(0::nat) < 2
   \<and> get_address_to_bpt_events_graph 4 ex_cursor_query 2 4 [''0xU''] [''t1''] MINT =
     Some ([BptQuery MINT (bpt_initial_params 2 [''0xU''] [''t1'']),
            BptQuery MINT ((bpt_initial_params 2 [''0xU''] [''t1''])\<lparr>bq_offset := 2\<rparr>),
            BptQuery MINT ((bpt_initial_params 2 [''0xU''] [''t1''])\<lparr>bq_offset := 4\<rparr>),
            BptQuery MINT ((bpt_initial_params 2 [''0xU''] [''t1''])\<lparr>bq_id := EventId ''t1'' 5, bq_offset := 0\<rparr>)],
           Inr [(''0xU'', [ex_bpt\<lparr>bpt_log_index := 5\<rparr>, ex_bpt\<lparr>bpt_log_index := 7\<rparr>,
                           ex_bpt\<lparr>bpt_log_index := 9\<rparr>])])
   \<and> cursor_paginated ex_cursor_query 2 4
        [bpt_initial_params 2 [''0xU''] [''t1''],
         (bpt_initial_params 2 [''0xU''] [''t1''])\<lparr>bq_offset := 2\<rparr>,
         (bpt_initial_params 2 [''0xU''] [''t1''])\<lparr>bq_offset := 4\<rparr>,
         (bpt_initial_params 2 [''0xU''] [''t1''])\<lparr>bq_id := EventId ''t1'' 5, bq_offset := 0\<rparr>]
   \<and> short_page ex_cursor_query 2
        ((bpt_initial_params 2 [''0xU''] [''t1''])\<lparr>bq_id := EventId ''t1'' 5, bq_offset := 0\<rparr>)
   \<and> get_protocol_balance_graph 1 ex_world 1000 [''0xU''] =
     Some ([PoolSharesQuery \<lparr>sq_limit = 1000, sq_offset = 0, sq_addresses = map lower [''0xU'']\<rparr>],
           Inr \<lparr>address_to_pool_balances = [], known_tokens = [], unknown_tokens = []\<rparr>)
   \<and> short_page (pool_shares_query ex_world) 1000
        \<lparr>sq_limit = 1000, sq_offset = 0, sq_addresses = map lower [''0xU'']\<rparr>"
proof -
  have L: "(0::nat) < 2" by simp
  let ?l = "[BptQuery MINT (bpt_initial_params 2 [''0xU''] [''t1'']),
            BptQuery MINT ((bpt_initial_params 2 [''0xU''] [''t1''])\<lparr>bq_offset := 2\<rparr>),
            BptQuery MINT ((bpt_initial_params 2 [''0xU''] [''t1''])\<lparr>bq_offset := 4\<rparr>),
            BptQuery MINT ((bpt_initial_params 2 [''0xU''] [''t1''])\<lparr>bq_id := EventId ''t1'' 5, bq_offset := 0\<rparr>)]"
  let ?r = "Inr [(''0xU'', [ex_bpt\<lparr>bpt_log_index := 5\<rparr>, ex_bpt\<lparr>bpt_log_index := 7\<rparr>,
                           ex_bpt\<lparr>bpt_log_index := 9\<rparr>])]"
  let ?l' = "[PoolSharesQuery \<lparr>sq_limit = 1000, sq_offset = 0, sq_addresses = map lower [''0xU'']\<rparr>]"
  let ?r' = "Inr \<lparr>address_to_pool_balances = [], known_tokens = [], unknown_tokens = []\<rparr>"
  show ?thesis
    using L ex_cursor_fetch ex_shares_fetch
      pagination [where L = 2 and S = 4 and query = ex_cursor_query and fuel = 4
        and addresses = "[''0xU'']" and txs = "[''t1'']" and etype = MINT and l = ?l and r = ?r
        and fuel' = 1 and w = ex_world and L' = 1000 and addresses' = "[''0xU'']"
        and l' = ?l' and r' = ?r']
    by (simp add: bpt_queries_simps pool_shares_queries_simps)
qed

text \<open>
  C6 (as it is written) fails for the pool shares: with the page limit 1000 and full pages at
  every offset up to 5000, the request at the offset 5000 is followed by a request at the
  offset 6000, not by a request at the offset 0 with a cursor.
\<close>

theorem pagination_counterexample:
  "pool_shares_offsets (get_protocol_balance_graph 7 ex_full_pages_world 1000 [''0xU''])
     = Some [0, 1000, 2000, 3000, 4000, 5000, 6000]
   \<and> \<not> claimed_offsets 1000 5000 [0, 1000, 2000, 3000, 4000, 5000, 6000]"
proof -
  let ?p = "\<lparr>sq_limit = 1000, sq_offset = 0, sq_addresses = map lower [''0xU'']\<rparr>"
  have full: "\<forall>k < 6. \<exists>page.
      pool_shares_query ex_full_pages_world (?p\<lparr>sq_offset := sq_offset ?p + k * 1000\<rparr>) = Items page
      \<and> 1000 \<le> length page \<and> None \<notin> set page"
    by (auto simp add: ex_full_pages_world_def ex_world_def)
  have empty: "pool_shares_query ex_full_pages_world (?p\<lparr>sq_offset := sq_offset ?p + 6 * 1000\<rparr>) = Items []"
    by (simp add: ex_full_pages_world_def ex_world_def)
  have L: "(0::nat) < 1000" by simp
  from protocol_balance_loop_full_pages [OF L full empty] obtain pb' where
    "protocol_balance_loop (Suc 6) ex_full_pages_world 1000 ?p
       \<lparr>address_to_pool_balances = [], known_tokens = [], unknown_tokens = []\<rparr> =
     Some (map (\<lambda>k. PoolSharesQuery (?p\<lparr>sq_offset := sq_offset ?p + k * 1000\<rparr>)) [0..<Suc 6], Inr pb')"
    by blast
  then have "pool_shares_offsets (get_protocol_balance_graph 7 ex_full_pages_world 1000 [''0xU''])
     = Some [0, 1000, 2000, 3000, 4000, 5000, 6000]"
    by (simp add: pool_shares_offsets_def io_log_def get_protocol_balance_graph_def
        pool_shares_queries_simps upt_rec)
  then show ?thesis by simp
qed

subsection \<open>Deduplication\<close>

lemma dedup_simps:
  "dedup key s [] = s"
  "dedup key s (es @ [e]) = set_add key e (dedup key s es)"
  "dedup key s (e # es) = dedup key (set_add key e s) es"
  by (simp_all add: dedup_def)

lemma dedup_append: "dedup key s (es @ fs) = dedup key (dedup key s es) fs"
  by (simp add: dedup_def)

lemma dedup_keys: "key ` set (dedup key s es) = key ` set s \<union> key ` set es"
  by (induction es arbitrary: s) (auto simp add: dedup_simps set_add_def)



lemma dedup_same: "key ` set es \<subseteq> key ` set s \<Longrightarrow> dedup key s es = s"
  by (induction es arbitrary: s) (auto simp add: dedup_simps set_add_def)

lemma dedup_ne: "es \<noteq> [] \<Longrightarrow> dedup key [] es \<noteq> []"
  using dedup_keys [of key "[]" es] by (cases es) auto








































end
